theory Spec2Isabelle
  imports Complex_Main "HOL-Library.List_Lexorder" "HOL-Library.Char_ord"
begin

section \<open>Strings and JSON columns\<close>

text \<open>
  JavaScript strings are modelled as \<open>string\<close>; only the ASCII part of
  \<open>String.prototype.trim\<close> and \<open>toLowerCase\<close> is modelled (space, tab, line feed,
  vertical tab, form feed and carriage return are white space; \<open>A\<close> to \<open>Z\<close> are
  lowered).
\<close>

definition isWhiteSpace :: "char \<Rightarrow> bool" where
  "isWhiteSpace c = (c \<in> set [CHR '' '', CHR 0x09, CHR 0x0A, CHR 0x0B, CHR 0x0C, CHR 0x0D])"

definition trim :: "string \<Rightarrow> string" where
  "trim s = rev (dropWhile isWhiteSpace (rev (dropWhile isWhiteSpace s)))"

definition lowerChar :: "char \<Rightarrow> char" where
  "lowerChar c =
     (case map_of (zip ''ABCDEFGHIJKLMNOPQRSTUVWXYZ'' ''abcdefghijklmnopqrstuvwxyz'') c of
        Some l \<Rightarrow> l
      | None \<Rightarrow> c)"

definition toLowerCase :: "string \<Rightarrow> string" where
  "toLowerCase s = map lowerChar s"

text \<open>A parsed JSON document.\<close>

datatype json =
    JNull
  | JBool bool
  | JNum int
  | JStr string
  | JArr "json list"
  | JObj "(string \<times> json) list"

text \<open>
  The content of a JSON text column. \<open>Absent\<close> is SQL NULL or the empty string (both
  falsy in JavaScript), \<open>Malformed\<close> is a text that \<open>JSON.parse\<close> rejects, and
  \<open>Json j\<close> is a text that parses to \<open>j\<close>. \<open>JSON.stringify\<close> of a value \<open>j\<close> is
  \<open>Json j\<close>; two such texts are equal exactly when the values are.
\<close>

datatype json_text = Absent | Malformed | Json json

definition stringify :: "string list \<Rightarrow> json_text" where
  "stringify xs = Json (JArr (map JStr xs))"

fun stringItems :: "json list \<Rightarrow> string list" where
  "stringItems [] = []"
| "stringItems (JStr s # js) = s # stringItems js"
| "stringItems (_ # js) = stringItems js"

text \<open>\<open>Array.from(new Set(xs))\<close>: the first occurrence of every element, in order.\<close>

fun uniq :: "'a list \<Rightarrow> 'a list \<Rightarrow> 'a list" where
  "uniq seen [] = []"
| "uniq seen (x # xs) = (if x \<in> set seen then uniq seen xs else x # uniq (x # seen) xs)"

definition normalizeTrackers :: "string list \<Rightarrow> string list" where
  "normalizeTrackers trackers = sort (uniq [] (filter (\<lambda>t. t \<noteq> []) (map trim trackers)))"

definition normalizeTrackerKey :: "string \<Rightarrow> string" where
  "normalizeTrackerKey v = toLowerCase (trim v)"

fun parseTrackersJson :: "json_text \<Rightarrow> string list" where
  "parseTrackersJson Absent = []"
| "parseTrackersJson Malformed = []"
| "parseTrackersJson (Json (JArr parsed)) = stringItems parsed"
| "parseTrackersJson (Json _) = []"

section \<open>Persistent state\<close>

text \<open>
  Modelled from the spec: the enumeration \<open>Decision\<close> of \<open>constants.ts\<close>, which is
  not among the sources. Its tags are those of the decision taxonomy of the
  specification, all of which \<open>decide.ts\<close> uses.
\<close>

datatype Decision =
    MATCH
  | MATCH_SIZE_ONLY
  | MATCH_PARTIAL
  | SIZE_MISMATCH
  | PARTIAL_SIZE_MISMATCH
  | FILE_TREE_MISMATCH
  | RELEASE_GROUP_MISMATCH
  | RESOLUTION_MISMATCH
  | SOURCE_MISMATCH
  | PROPER_REPACK_MISMATCH
  | FUZZY_SIZE_MISMATCH
  | NO_DOWNLOAD_LINK
  | BLOCKED_RELEASE
  | MAGNET_LINK
  | RATE_LIMITED
  | DOWNLOAD_FAILED
  | SAME_INFO_HASH
  | INFO_HASH_ALREADY_EXISTS
  | INFO_HASH_ALREADY_EXISTS_ANOTHER_TRACKER

record searchee_row =
  se_id :: nat
  se_name :: string

record decision_row =
  de_id :: nat
  de_searchee_id :: nat
  de_guid :: string
  de_info_hash :: "string option"
  de_decision :: Decision
  de_first_seen :: "int option"
  de_last_seen :: int
  de_fuzzy_size_factor :: real

record collision_row =
  co_decision_id :: nat
  co_candidate_trackers :: json_text
  co_known_trackers :: json_text
  co_first_seen :: int
  co_last_seen :: int
  co_updated_at :: int

record client_searchee_row =
  cs_info_hash :: string
  cs_client_host :: "string option"
  cs_trackers :: json_text

record conflict_rule_row =
  cr_id :: nat
  cr_priority :: int
  cr_all_indexers :: int
  cr_trackers :: json_text
  cr_created_at :: int
  cr_updated_at :: int

record indexer_row =
  ix_id :: nat
  ix_trackers :: json_text

text \<open>
  The tables are lists of rows in insertion order; \<open>.first()\<close> of a query without
  \<open>ORDER BY\<close> is the first matching row of the list. The two \<open>seq\<close> fields are the
  counters of the auto-increment primary keys.
\<close>

record db =
  tbl_searchee :: "searchee_row list"
  tbl_decision :: "decision_row list"
  decision_seq :: nat
  tbl_collisions :: "collision_row list"
  tbl_client_searchee :: "client_searchee_row list"
  tbl_conflict_rules :: "conflict_rule_row list"
  conflict_rules_seq :: nat
  tbl_indexer :: "indexer_row list"

text \<open>
  The errors of a statement: a violated \<open>UNIQUE\<close> constraint, and a statement of more
  rows than the database takes in one insert.
\<close>

datatype db_error = UniqueViolation | TooManyRows

section \<open>Conflict rules: saving and loading\<close>

text \<open>An element of the input of \<open>saveRules\<close>.\<close>

record rule_input =
  ri_allIndexers :: bool
  ri_trackers :: "string list"

text \<open>
  The payload of \<open>saveRules\<close>: \<open>input.rules.map((rule, index) => ...)\<close>, with the
  auto-increment ids the insert assigns after \<open>seq\<close>.
\<close>

fun rulesPayload :: "int \<Rightarrow> nat \<Rightarrow> nat \<Rightarrow> rule_input list \<Rightarrow> conflict_rule_row list" where
  "rulesPayload now seq index [] = []"
| "rulesPayload now seq index (rule # rules) =
     \<lparr> cr_id = Suc (seq + index),
       cr_priority = int index + 1,
       cr_all_indexers = (if ri_allIndexers rule then 1 else 0),
       cr_trackers = stringify (normalizeTrackers (ri_trackers rule)),
       cr_created_at = now,
       cr_updated_at = now \<rparr> # rulesPayload now seq (Suc index) rules"

text \<open>
  \<open>insert(payload)\<close> with an array is one SQL statement for all the rows, which the
  SQLite driver writes as a compound of one term for every row; SQLite refuses a
  compound of more than 500 terms (its limit \<open>SQLITE_MAX_COMPOUND_SELECT\<close>), and the
  insert then throws. The limit belongs to the database and not to the sources of the
  program; the sources never split a payload.
\<close>

definition maxInsertRows :: nat where
  "maxInsertRows = 500"

text \<open>
  Insertion into \<open>conflict_rules\<close>, in one statement, under the \<open>unique(priority)\<close>
  constraint of the migration that creates the table.
\<close>

definition insertConflictRules :: "conflict_rule_row list \<Rightarrow> db \<Rightarrow> db_error + db" where
  "insertConflictRules payload d =
     (if length payload > maxInsertRows then Inl TooManyRows
      else if distinct (map cr_priority (tbl_conflict_rules d @ payload))
      then Inr (d\<lparr> tbl_conflict_rules := tbl_conflict_rules d @ payload,
                   conflict_rules_seq := conflict_rules_seq d + length payload \<rparr>)
      else Inl UniqueViolation)"

text \<open>
  The stored state after a transaction that starts from \<open>d\<close>: \<open>Inl\<close> is the
  exception that rolls the transaction back, so that the stored state stays \<open>d\<close>;
  \<open>Inr\<close> is the committed state.
\<close>

definition afterTransaction :: "db \<Rightarrow> db_error + db \<Rightarrow> db" where
  "afterTransaction d r = (case r of Inl err \<Rightarrow> d | Inr d' \<Rightarrow> d')"

text \<open>\<open>saveRules\<close>: the body of the transaction.\<close>

definition saveRules :: "int \<Rightarrow> rule_input list \<Rightarrow> db \<Rightarrow> db_error + db" where
  "saveRules now rules d =
     (let trx = d\<lparr> tbl_conflict_rules := [] \<rparr> in
      if rules = [] then Inr trx
      else insertConflictRules (rulesPayload now (conflict_rules_seq trx) 0 rules) trx)"

record conflict_rule =
  rule_priority :: int
  rule_allIndexers :: bool
  rule_trackers :: "string list"

text \<open>\<open>getConflictRules\<close>: the rows ordered by priority, ascending.\<close>

definition getConflictRules :: "db \<Rightarrow> conflict_rule list" where
  "getConflictRules d =
     map (\<lambda>row. \<lparr> rule_priority = cr_priority row,
                  rule_allIndexers = (cr_all_indexers row \<noteq> 0),
                  rule_trackers = normalizeTrackers (parseTrackersJson (cr_trackers row)) \<rparr>)
       (sort_key cr_priority (tbl_conflict_rules d))"

section \<open>The world outside the decision engine\<close>

text \<open>
  A torrent client driver. \<open>removeTorrent\<close> and \<open>isTorrentInClient\<close> are fallible
  calls to an external program; the model takes their answers for an info-hash as given
  and records every call that is made.
\<close>

datatype call_result = Ok bool | Err string

record client =
  clientHost :: string
  removeTorrent :: "string \<Rightarrow> call_result"
  isTorrentInClient :: "string \<Rightarrow> call_result"

text \<open>
  Requests that leave the process: \<open>ClientRemoveTorrent host infoHash deleteData\<close>,
  \<open>ClientIsTorrentInClient host infoHash\<close>, \<open>Snatch guid\<close> (the download of a torrent
  file from an indexer), \<open>WriteTorrentCache infoHash\<close> and
  \<open>ReadTorrentCache infoHash\<close> (the write and the read of a cached torrent file).
\<close>

datatype io_event =
    ClientRemoveTorrent string string bool
  | ClientIsTorrentInClient string string
  | Snatch string
  | WriteTorrentCache string
  | ReadTorrentCache string

text \<open>
  The mutable state the functions of \<open>decide.ts\<close> share: the database, the log of
  external requests made so far (oldest first), the set \<open>infoHashesToExclude\<close> and the
  map \<open>guidInfoHashMap\<close> (its entries in insertion order), both passed by reference
  and updated in place.
\<close>

record world =
  w_db :: db
  w_io :: "io_event list"
  infoHashesToExclude :: "string set"
  guidInfoHashMap :: "(string \<times> string) list"

definition emit :: "io_event \<Rightarrow> world \<Rightarrow> world" where
  "emit e w = w\<lparr> w_io := w_io w @ [e] \<rparr>"

definition truthy :: "string option \<Rightarrow> bool" where
  "truthy v = (case v of None \<Rightarrow> False | Some s \<Rightarrow> s \<noteq> [])"

section \<open>Conflict resolver\<close>

definition getIndexerTrackerSet :: "db \<Rightarrow> string set" where
  "getIndexerTrackerSet d =
     set (map normalizeTrackerKey (concat (map (\<lambda>row. parseTrackersJson (ix_trackers row)) (tbl_indexer d))))"

text \<open>
  A rule matches a tracker when it is an \<open>allIndexers\<close> rule and the tracker is one
  of the indexers' trackers, or when the tracker is among the rule's own trackers (both
  compared trimmed and in lower case).
\<close>

definition ruleMatches :: "conflict_rule \<Rightarrow> string set \<Rightarrow> string \<Rightarrow> bool" where
  "ruleMatches rule indexerTrackers tracker =
     (rule_allIndexers rule \<and> normalizeTrackerKey tracker \<in> indexerTrackers \<or>
      list_ex (\<lambda>t. normalizeTrackerKey t = normalizeTrackerKey tracker) (rule_trackers rule))"

text \<open>The loop of \<open>getTrackerPriority\<close>, from index \<open>i\<close> on.\<close>

fun getTrackerPriorityFrom :: "nat \<Rightarrow> string \<Rightarrow> conflict_rule list \<Rightarrow> string set \<Rightarrow> nat option" where
  "getTrackerPriorityFrom i normalized [] indexerTrackers = None"
| "getTrackerPriorityFrom i normalized (rule # rules) indexerTrackers =
     (if rule_allIndexers rule \<and> normalized \<in> indexerTrackers then Some i
      else if list_ex (\<lambda>t. normalizeTrackerKey t = normalized) (rule_trackers rule) then Some i
      else getTrackerPriorityFrom (Suc i) normalized rules indexerTrackers)"

definition getTrackerPriority :: "string \<Rightarrow> conflict_rule list \<Rightarrow> string set \<Rightarrow> nat option" where
  "getTrackerPriority tracker rules indexerTrackers =
     getTrackerPriorityFrom 0 (normalizeTrackerKey tracker) rules indexerTrackers"

text \<open>
  The loop of \<open>getBestTrackerPriority\<close>; the accumulator \<open>None\<close> is
  \<open>Number.POSITIVE_INFINITY\<close>.
\<close>

fun bestPriorityLoop :: "nat option \<Rightarrow> string list \<Rightarrow> conflict_rule list \<Rightarrow> string set \<Rightarrow> nat option" where
  "bestPriorityLoop bestPriority [] rules indexerTrackers = bestPriority"
| "bestPriorityLoop bestPriority (tracker # rest) rules indexerTrackers =
     (case getTrackerPriority tracker rules indexerTrackers of
        None \<Rightarrow> bestPriorityLoop bestPriority rest rules indexerTrackers
      | Some p \<Rightarrow>
          bestPriorityLoop (Some (case bestPriority of None \<Rightarrow> p | Some b \<Rightarrow> min b p))
            rest rules indexerTrackers)"

definition getBestTrackerPriority :: "string list \<Rightarrow> conflict_rule list \<Rightarrow> string set \<Rightarrow> nat option" where
  "getBestTrackerPriority trackerList rules indexerTrackers =
     bestPriorityLoop None trackerList rules indexerTrackers"

definition deleteClientSearchee :: "string \<Rightarrow> string \<Rightarrow> db \<Rightarrow> db" where
  "deleteClientSearchee infoHash host d =
     d\<lparr> tbl_client_searchee :=
          filter (\<lambda>r. \<not> (cs_info_hash r = infoHash \<and> cs_client_host r = Some host))
            (tbl_client_searchee d) \<rparr>"

text \<open>
  The \<open>for\<close> loop of \<open>removeTorrentFromClients\<close> over the rows selected before the
  loop. Every \<open>return false\<close> of the source is a branch that returns \<open>False\<close> with the
  state reached so far.
\<close>

fun removeLoop :: "client list \<Rightarrow> string \<Rightarrow> client_searchee_row list \<Rightarrow> world \<Rightarrow> bool \<times> world" where
  "removeLoop clients infoHash [] w = (True, w)"
| "removeLoop clients infoHash (row # rows) w =
     (case cs_client_host row of
        None \<Rightarrow> (False, w)
      | Some host \<Rightarrow>
          if host = [] then (False, w)
          else
            (case find (\<lambda>c. clientHost c = host) clients of
               None \<Rightarrow> (False, w)
             | Some cl \<Rightarrow>
                 (let w1 = emit (ClientRemoveTorrent (clientHost cl) infoHash False) w in
                  case removeTorrent cl infoHash of
                    Err m \<Rightarrow> (False, w1)
                  | Ok False \<Rightarrow> (False, w1)
                  | Ok True \<Rightarrow>
                      (let w2 = emit (ClientIsTorrentInClient (clientHost cl) infoHash) w1 in
                       case isTorrentInClient cl infoHash of
                         Err m \<Rightarrow> (False, w2)
                       | Ok True \<Rightarrow> (False, w2)
                       | Ok False \<Rightarrow>
                           removeLoop clients infoHash rows
                             (w2\<lparr> w_db := deleteClientSearchee infoHash host (w_db w2) \<rparr>)))))"

text \<open>
  A client row is confirmed when it names a configured client that answers the removal
  with success and the check for the torrent with absence.
\<close>

definition confirmsRemoval :: "client list \<Rightarrow> string \<Rightarrow> client_searchee_row \<Rightarrow> bool" where
  "confirmsRemoval clients infoHash row =
     (case cs_client_host row of
        None \<Rightarrow> False
      | Some host \<Rightarrow>
          host \<noteq> [] \<and>
          (case find (\<lambda>c. clientHost c = host) clients of
             None \<Rightarrow> False
           | Some cl \<Rightarrow> removeTorrent cl infoHash = Ok True \<and> isTorrentInClient cl infoHash = Ok False))"

text \<open>The requests \<open>removeTorrentFromClients\<close> may make for an info-hash.\<close>

definition removalRequest :: "string \<Rightarrow> io_event \<Rightarrow> bool" where
  "removalRequest infoHash ev =
     (case ev of
        ClientRemoveTorrent host h deleteData \<Rightarrow> h = infoHash \<and> \<not> deleteData
      | ClientIsTorrentInClient host h \<Rightarrow> h = infoHash
      | _ \<Rightarrow> False)"

text \<open>
  The client a row names: none when the row has no host, or an empty one, or no
  configured client has the host.
\<close>

definition rowClient :: "client list \<Rightarrow> client_searchee_row \<Rightarrow> client option" where
  "rowClient clients row =
     (case cs_client_host row of
        None \<Rightarrow> None
      | Some host \<Rightarrow> if host = [] then None else find (\<lambda>c. clientHost c = host) clients)"

text \<open>
  The requests of one pass of the loop of \<open>removeTorrentFromClients\<close>: none when the
  row names no client; else the removal without deletion of the data, followed by the
  check of presence when the removal succeeded.
\<close>

definition rowRequests :: "client list \<Rightarrow> string \<Rightarrow> client_searchee_row \<Rightarrow> io_event list" where
  "rowRequests clients infoHash row =
     (case rowClient clients row of
        None \<Rightarrow> []
      | Some cl \<Rightarrow>
          ClientRemoveTorrent (clientHost cl) infoHash False #
          (if removeTorrent cl infoHash = Ok True then [ClientIsTorrentInClient (clientHost cl) infoHash] else []))"

definition removeTorrentFromClients :: "client list \<Rightarrow> string \<Rightarrow> world \<Rightarrow> bool \<times> world" where
  "removeTorrentFromClients clients infoHash w =
     (let rows = filter (\<lambda>r. cs_info_hash r = infoHash) (tbl_client_searchee (w_db w)) in
      if rows = [] then (False, w) else removeLoop clients infoHash rows w)"

text \<open>
  \<open>resolveConflictRules\<close>. The searchee name only appears in log messages and is left
  out.
\<close>

definition resolveConflictRules :: "client list \<Rightarrow> string \<Rightarrow> string list \<Rightarrow> world \<Rightarrow> bool \<times> world" where
  "resolveConflictRules clients infoHash candidateTrackers w =
     (let rules = getConflictRules (w_db w) in
      if rules = [] then (False, w)
      else
        (let indexerTrackers = getIndexerTrackerSet (w_db w) in
         case getBestTrackerPriority candidateTrackers rules indexerTrackers of
           None \<Rightarrow> (False, w)
         | Some candidatePriority \<Rightarrow>
             (let rows = filter (\<lambda>r. cs_info_hash r = infoHash) (tbl_client_searchee (w_db w)) in
              if rows = [] then (False, w)
              else
                (let existingTrackers = concat (map (\<lambda>row. parseTrackersJson (cs_trackers row)) rows);
                     bestExistingPriority =
                       (case getBestTrackerPriority existingTrackers rules indexerTrackers of
                          None \<Rightarrow> length rules
                        | Some p \<Rightarrow> p)
                 in
                 if candidatePriority \<ge> bestExistingPriority then (False, w)
                 else removeTorrentFromClients clients infoHash w))))"

section \<open>Collision recorder\<close>

record TrackerMismatchInfo =
  candidateTrackers :: "string list"
  knownTrackers :: "string list"

text \<open>
  The query of \<open>upsertCollisionRecord\<close> for an equivalent row: \<open>collisions\<close> joined
  with \<open>decision\<close> and \<open>searchee\<close> (\<open>joinedCollision\<close>: the row's decision has the
  info-hash and its searchee the name), with the equalities on the two payloads and
  \<open>whereNot(collisions.decision_id, decisionId)\<close>.
\<close>

definition joinedCollision :: "db \<Rightarrow> collision_row \<Rightarrow> string \<Rightarrow> string \<Rightarrow> bool" where
  "joinedCollision d c infoHash searcheeName =
     list_ex (\<lambda>dr. co_decision_id c = de_id dr \<and> de_info_hash dr = Some infoHash \<and>
                list_ex (\<lambda>sr. de_searchee_id dr = se_id sr \<and> se_name sr = searcheeName) (tbl_searchee d))
       (tbl_decision d)"

definition equivalentCollision ::
  "db \<Rightarrow> nat \<Rightarrow> string \<Rightarrow> string \<Rightarrow> json_text \<Rightarrow> json_text \<Rightarrow> collision_row \<Rightarrow> bool" where
  "equivalentCollision d decisionId infoHash searcheeName cand known c =
     (joinedCollision d c infoHash searcheeName \<and>
      co_candidate_trackers c = cand \<and> co_known_trackers c = known \<and>
      co_decision_id c \<noteq> decisionId)"

text \<open>\<open>insert(payload).onConflict("decision_id").merge({...})\<close> on \<open>collisions\<close>.\<close>

definition insertCollisionMerge :: "collision_row \<Rightarrow> db \<Rightarrow> db" where
  "insertCollisionMerge payload d =
     (if list_ex (\<lambda>c. co_decision_id c = co_decision_id payload) (tbl_collisions d)
      then d\<lparr> tbl_collisions :=
                map (\<lambda>c. if co_decision_id c = co_decision_id payload
                          then c\<lparr> co_candidate_trackers := co_candidate_trackers payload,
                                  co_known_trackers := co_known_trackers payload,
                                  co_last_seen := co_last_seen payload,
                                  co_updated_at := co_updated_at payload \<rparr>
                          else c)
                  (tbl_collisions d) \<rparr>
      else d\<lparr> tbl_collisions := tbl_collisions d @ [payload] \<rparr>)"

definition deleteCollisionRecord :: "nat \<Rightarrow> db \<Rightarrow> db" where
  "deleteCollisionRecord decisionId d =
     d\<lparr> tbl_collisions := filter (\<lambda>c. co_decision_id c \<noteq> decisionId) (tbl_collisions d) \<rparr>"

definition refreshCollision :: "nat \<Rightarrow> int \<Rightarrow> int \<Rightarrow> db \<Rightarrow> db" where
  "refreshCollision existingId lastSeen updatedAt d =
     d\<lparr> tbl_collisions :=
          map (\<lambda>c. if co_decision_id c = existingId
                    then c\<lparr> co_last_seen := lastSeen, co_updated_at := updatedAt \<rparr>
                    else c)
            (tbl_collisions d) \<rparr>"

text \<open>
  The search of \<open>upsertCollisionRecord\<close> for an equivalent row of another decision:
  \<open>None\<close> when the decision row, its info-hash, its searchee or the searchee's name is
  missing (the search is then not made), or when no row matches.
\<close>

definition findEquivalent :: "nat \<Rightarrow> collision_row \<Rightarrow> db \<Rightarrow> collision_row option" where
  "findEquivalent decisionId payload d =
     (case find (\<lambda>dr. de_id dr = decisionId) (tbl_decision d) of
        None \<Rightarrow> None
      | Some decisionRow \<Rightarrow>
          if truthy (de_info_hash decisionRow) \<and> de_searchee_id decisionRow \<noteq> 0 then
            (case find (\<lambda>sr. se_id sr = de_searchee_id decisionRow) (tbl_searchee d) of
               None \<Rightarrow> None
             | Some searcheeRow \<Rightarrow>
                 if se_name searcheeRow \<noteq> [] then
                   find (equivalentCollision d decisionId (the (de_info_hash decisionRow))
                           (se_name searcheeRow) (co_candidate_trackers payload)
                           (co_known_trackers payload))
                     (tbl_collisions d)
                 else None)
          else None)"

text \<open>
  The \<open>payload\<close> of \<open>upsertCollisionRecord\<close>; \<open>now\<close> is the reading of
  \<open>Date.now()\<close> for \<open>updated_at\<close>.
\<close>

definition collisionPayload ::
  "int \<Rightarrow> nat \<Rightarrow> TrackerMismatchInfo \<Rightarrow> int \<Rightarrow> int \<Rightarrow> collision_row" where
  "collisionPayload now decisionId trackerMismatch firstSeen lastSeen =
     \<lparr> co_decision_id = decisionId,
       co_candidate_trackers = stringify (candidateTrackers trackerMismatch),
       co_known_trackers = stringify (knownTrackers trackerMismatch),
       co_first_seen = firstSeen,
       co_last_seen = lastSeen,
       co_updated_at = now \<rparr>"

definition upsertCollisionRecord ::
  "int \<Rightarrow> nat \<Rightarrow> TrackerMismatchInfo \<Rightarrow> int \<Rightarrow> int \<Rightarrow> db \<Rightarrow> db" where
  "upsertCollisionRecord now decisionId trackerMismatch firstSeen lastSeen d =
     (let payload = collisionPayload now decisionId trackerMismatch firstSeen lastSeen in
      case findEquivalent decisionId payload d of
        Some existing \<Rightarrow>
          if co_decision_id existing \<noteq> 0
          then deleteCollisionRecord decisionId
                 (refreshCollision (co_decision_id existing) (co_last_seen payload) (co_updated_at payload) d)
          else insertCollisionMerge payload d
      | None \<Rightarrow> insertCollisionMerge payload d)"

text \<open>
  Two collision rows are duplicates when they belong to different decisions with the
  same info-hash and the same searchee name and carry the same two payloads: what the
  search of \<open>upsertCollisionRecord\<close> calls equivalent.
\<close>

definition duplicateCollisions :: "db \<Rightarrow> collision_row \<Rightarrow> collision_row \<Rightarrow> bool" where
  "duplicateCollisions d c1 c2 =
     (co_decision_id c1 \<noteq> co_decision_id c2 \<and>
      co_candidate_trackers c1 = co_candidate_trackers c2 \<and>
      co_known_trackers c1 = co_known_trackers c2 \<and>
      (\<exists>infoHash searcheeName.
          joinedCollision d c1 infoHash searcheeName \<and> joinedCollision d c2 infoHash searcheeName))"

text \<open>
  What the schema and the writers of the tables give: the ids of \<open>decision\<close> and
  \<open>searchee\<close> are primary keys counted from 1, and no stored info-hash or searchee
  name is the empty string.
\<close>

definition wellFormedKeys :: "db \<Rightarrow> bool" where
  "wellFormedKeys d =
     (distinct (map de_id (tbl_decision d)) \<and> distinct (map se_id (tbl_searchee d)) \<and>
      list_all (\<lambda>dr. de_id dr \<noteq> 0 \<and> de_info_hash dr \<noteq> Some []) (tbl_decision d) \<and>
      list_all (\<lambda>sr. se_id sr \<noteq> 0 \<and> se_name sr \<noteq> []) (tbl_searchee d))"

section \<open>Metafiles, searchees and candidates\<close>

record File =
  fl_name :: string
  fl_path :: string
  fl_length :: int

text \<open>A bencoded value, as far as the private flag of an info dictionary needs it.\<close>

datatype bvalue = BInt int | BBytes string | BList | BDict

text \<open>\<open>mf_raw_info_private\<close> is \<open>meta.raw?.info?.private\<close>; \<open>None\<close> is \<open>undefined\<close>.\<close>

record Metafile =
  mf_infoHash :: string
  mf_name :: string
  mf_length :: int
  mf_pieceLength :: int
  mf_files :: "File list"
  mf_trackers :: "string list"
  mf_raw_info_private :: "bvalue option"

text \<open>
  Modelled from the spec: the provenance tags of a searchee ("\<open>SEARCH\<close>,
  \<open>ANNOUNCE\<close>, \<open>RSS\<close>, \<open>INJECT\<close>, \<open>WEBHOOK\<close>"), whose declaration is not among
  the sources.
\<close>

datatype Label = SEARCH | ANNOUNCE | RSS | INJECT | WEBHOOK

record Searchee =
  s_title :: string
  s_infoHash :: "string option"
  s_path :: "string option"
  s_files :: "File list"
  s_length :: int
  s_label :: Label

record Candidate =
  c_name :: string
  c_guid :: string
  c_link :: string
  c_tracker :: string
  c_indexerId :: "nat option"
  c_size :: "int option"

datatype MetaOrCandidate = Meta Metafile | Cand Candidate

text \<open>
  Modelled from the spec: the match modes (\<open>constants.ts\<close> is not among the sources);
  \<open>decide.ts\<close> compares with \<open>STRICT\<close> and \<open>PARTIAL\<close>, the specification names
  \<open>FLEXIBLE\<close>.
\<close>

datatype MatchMode = STRICT | FLEXIBLE | PARTIAL

text \<open>The fields of the runtime configuration that \<open>decide.ts\<close> reads.\<close>

record RuntimeConfig =
  includeSingleEpisodes :: bool
  matchMode :: MatchMode
  blockList :: "string list"

text \<open>
  Modelled from the spec: the errors of a snatch (\<open>SnatchError\<close> of \<open>torrent.ts\<close> is
  not among the sources): a magnet link, a rate limit, or any other failure.
\<close>

datatype SnatchError = SNATCH_MAGNET_LINK | SNATCH_RATE_LIMITED | SNATCH_UNKNOWN_ERROR

text \<open>
  What \<open>decide.ts\<close> imports from modules that are not part of the sources at hand, and
  the external collaborators it calls, as parameters:
  \<^item> \<open>getClients\<close>: the configured torrent clients;
  \<^item> \<open>getReleaseGroup\<close>, \<open>stripExtension\<close>, \<open>extractInt\<close>, \<open>parseSource\<close>,
    \<open>getFuzzySizeFactor\<close>, \<open>getMinSizeRatio\<close>: the functions of these names;
  \<^item> \<open>resStrict\<close>, \<open>animeGroup\<close>: the named group \<open>res\<close> (\<open>group\<close>) of a match of
    \<open>RES_STRICT_REGEX\<close> (\<open>ANIME_GROUP_REGEX\<close>), \<open>None\<close> when there is none;
  \<^item> \<open>repackProper\<close>, \<open>seasonRegex\<close>: \<open>REPACK_PROPER_REGEX.test\<close> and
    \<open>SEASON_REGEX.test\<close>;
  \<^item> \<open>isSingleEpisode\<close>: \<open>isSingleEpisode(metafile, getMediaType(metafile))\<close>;
  \<^item> \<open>blockedSearchee\<close>, \<open>blockedMetafile\<close>: \<open>findBlockedStringInReleaseMaybe\<close> on a
    searchee and on a metafile;
  \<^item> \<open>snatch\<close>: the download of the candidate's torrent file, retries included;
  \<^item> \<open>writeTorrentCache\<close>: whether the write of the cached torrent file succeeds;
  \<^item> \<open>readTorrentCache\<close>: the parsed torrent file cached for an info-hash, \<open>None\<close>
    when there is none or it does not parse;
  \<^item> \<open>torrentId\<close>: the first group of a match of the regular expression
    \<open>torrentIdRegex\<close> of \<open>guidLookup\<close>;
  \<^item> \<open>getKnownTrackersForInfoHash\<close>: the trackers known for an info-hash, \<open>None\<close>
    for \<open>null\<close>.
\<close>

record env =
  getClients :: "client list"
  getReleaseGroup :: "string \<Rightarrow> string option"
  stripExtension :: "string \<Rightarrow> string"
  extractInt :: "string \<Rightarrow> int"
  parseSource :: "string \<Rightarrow> string option"
  getFuzzySizeFactor :: "Searchee \<Rightarrow> real"
  getMinSizeRatio :: "Searchee \<Rightarrow> real"
  resStrict :: "string \<Rightarrow> string option"
  animeGroup :: "string \<Rightarrow> string option"
  repackProper :: "string \<Rightarrow> bool"
  seasonRegex :: "string \<Rightarrow> bool"
  isSingleEpisode :: "Metafile \<Rightarrow> bool"
  blockedSearchee :: "Searchee \<Rightarrow> string list \<Rightarrow> string option"
  blockedMetafile :: "Metafile \<Rightarrow> string list \<Rightarrow> string option"
  snatch :: "Candidate \<Rightarrow> Label \<Rightarrow> SnatchError + Metafile"
  writeTorrentCache :: "Metafile \<Rightarrow> bool"
  readTorrentCache :: "string \<Rightarrow> Metafile option"
  torrentId :: "string \<Rightarrow> string option"
  getKnownTrackersForInfoHash :: "db \<Rightarrow> string \<Rightarrow> string list option"

record ResultAssessment =
  ra_decision :: Decision
  ra_metafile :: "Metafile option"
  ra_metaCached :: "bool option"
  ra_trackerMismatch :: "TrackerMismatchInfo option"

section \<open>Private flag\<close>

definition getTorrentPrivateFlag :: "Metafile option \<Rightarrow> bool option" where
  "getTorrentPrivateFlag meta =
     (case meta of
        None \<Rightarrow> None
      | Some m \<Rightarrow>
          (case mf_raw_info_private m of
             Some (BInt flag) \<Rightarrow> if flag = 1 then Some True else if flag = 0 then Some False else None
           | _ \<Rightarrow> None))"

definition canRecordPrivateCollision :: "Metafile option \<Rightarrow> bool" where
  "canRecordPrivateCollision candidateMetafile =
     (if getTorrentPrivateFlag candidateMetafile \<noteq> Some True then False else True)"

section \<open>Tracker mismatch\<close>

definition trackersAreEqual :: "string list \<Rightarrow> string list \<Rightarrow> bool" where
  "trackersAreEqual a b =
     (if length a \<noteq> length b then False else list_all (\<lambda>(x, y). x = y) (zip a b))"

definition logAnnounceMismatch :: "env \<Rightarrow> db \<Rightarrow> Metafile \<Rightarrow> TrackerMismatchInfo option" where
  "logAnnounceMismatch e d metafile =
     (case getKnownTrackersForInfoHash e d (mf_infoHash metafile) of
        None \<Rightarrow> None
      | Some known \<Rightarrow>
          (let cts = normalizeTrackers (mf_trackers metafile);
               kts = normalizeTrackers known
           in
           if cts = [] \<and> kts = [] then None
           else if trackersAreEqual cts kts then None
           else Some \<lparr> candidateTrackers = cts, knownTrackers = kts \<rparr>))"

section \<open>File tree comparison\<close>

definition compareFileTrees :: "Metafile \<Rightarrow> Searchee \<Rightarrow> bool" where
  "compareFileTrees candidate searchee =
     (if \<not> truthy (s_infoHash searchee) \<and> \<not> truthy (s_path searchee)
      then list_all (\<lambda>elOfA. list_ex (\<lambda>elOfB. fl_length elOfB = fl_length elOfA \<and>
                                              fl_name elOfB = fl_name elOfA) (s_files searchee))
             (mf_files candidate)
      else list_all (\<lambda>elOfA. list_ex (\<lambda>elOfB. fl_length elOfB = fl_length elOfA \<and>
                                              fl_path elOfB = fl_path elOfA) (s_files searchee))
             (mf_files candidate))"

text \<open>
  The searchee files a candidate file may consume: those of its length, narrowed to
  those of its name when more than one has its length.
\<close>

definition matchedSearcheeFiles :: "File list \<Rightarrow> File \<Rightarrow> File list" where
  "matchedSearcheeFiles availableFiles candidateFile =
     (let matched = filter (\<lambda>searcheeFile. fl_length searcheeFile = fl_length candidateFile) availableFiles
      in
      if length matched > 1
      then filter (\<lambda>searcheeFile. fl_name searcheeFile = fl_name candidateFile) matched
      else matched)"

text \<open>The loop of \<open>compareFileTreesIgnoringNames\<close>.\<close>

fun ignoringNamesLoop :: "File list \<Rightarrow> File list \<Rightarrow> bool" where
  "ignoringNamesLoop availableFiles [] = True"
| "ignoringNamesLoop availableFiles (candidateFile # rest) =
     (case matchedSearcheeFiles availableFiles candidateFile of
        [] \<Rightarrow> False
      | first # others \<Rightarrow> ignoringNamesLoop (remove1 first availableFiles) rest)"

definition compareFileTreesIgnoringNames :: "Metafile \<Rightarrow> Searchee \<Rightarrow> bool" where
  "compareFileTreesIgnoringNames candidate searchee =
     ignoringNamesLoop (s_files searchee) (mf_files candidate)"

text \<open>
  Numbers are IEEE 754 doubles in the source. A finite double is modelled by the real
  number it stands for, and an arithmetic operation by the exact operation followed by
  \<open>roundDouble\<close>, the rounding to the nearest double, ties to the even significand:
  a real \<open>x\<close> with \<open>2^e \<le> |x| < 2^(e+1)\<close> is rounded to a multiple of
  \<open>2^(e-52)\<close>, the spacing of the doubles of that size (a significand of 53 bits).
  Overflow and subnormal numbers are not modelled, and lengths and sizes are taken to
  be below \<open>2^53\<close>, where every integer is a double.
\<close>

definition roundHalfEven :: "real \<Rightarrow> int" where
  "roundHalfEven y =
     (let n = \<lfloor>y\<rfloor>; r = y - real_of_int n in
      if r < 1 / 2 then n
      else if 1 / 2 < r then n + 1
      else if even n then n else n + 1)"

definition roundDouble :: "real \<Rightarrow> real" where
  "roundDouble x =
     (if x = 0 then 0
      else
        (let e = \<lfloor>log 2 \<bar>x\<bar>\<rfloor>;
             ulp = 2 powr (real_of_int e - 52)
         in real_of_int (roundHalfEven (x / ulp)) * ulp))"

text \<open>
  \<open>jsDivGe a b r\<close> is \<open>a / b >= r\<close> for finite \<open>r\<close> and \<open>b\<close> not negative: a
  division by zero gives infinity, or NaN at \<open>0 / 0\<close>, which no comparison
  satisfies.
\<close>

definition jsDivGe :: "real \<Rightarrow> real \<Rightarrow> real \<Rightarrow> bool" where
  "jsDivGe a b r = (if b = 0 then a > 0 else roundDouble (a / b) \<ge> r)"

fun matchedSizesAny :: "File list \<Rightarrow> File list \<Rightarrow> int" where
  "matchedSizesAny searcheeFiles [] = 0"
| "matchedSizesAny searcheeFiles (candidateFile # rest) =
     (if list_ex (\<lambda>searcheeFile. fl_length searcheeFile = fl_length candidateFile) searcheeFiles
      then fl_length candidateFile else 0) + matchedSizesAny searcheeFiles rest"

text \<open>\<open>getPartialSizeRatio(candidate, searchee) >= r\<close>.\<close>

definition partialSizeRatioGe :: "Metafile \<Rightarrow> Searchee \<Rightarrow> real \<Rightarrow> bool" where
  "partialSizeRatioGe candidate searchee r =
     jsDivGe (real_of_int (matchedSizesAny (s_files searchee) (mf_files candidate)))
       (real_of_int (mf_length candidate)) r"

text \<open>The loop of \<open>compareFileTreesPartial\<close>: the sum \<open>matchedSizes\<close>.\<close>

fun partialLoop :: "File list \<Rightarrow> File list \<Rightarrow> int" where
  "partialLoop availableFiles [] = 0"
| "partialLoop availableFiles (candidateFile # rest) =
     (case matchedSearcheeFiles availableFiles candidateFile of
        [] \<Rightarrow> partialLoop availableFiles rest
      | first # others \<Rightarrow> fl_length candidateFile + partialLoop (remove1 first availableFiles) rest)"

definition compareFileTreesPartial :: "env \<Rightarrow> Metafile \<Rightarrow> Searchee \<Rightarrow> bool" where
  "compareFileTreesPartial e candidate searchee =
     (let matchedSizes = partialLoop (s_files searchee) (mf_files candidate) in
      if mf_pieceLength candidate = 0 then False
      else
        (let totalPieces =
               ceiling (roundDouble (real_of_int (mf_length candidate) / real_of_int (mf_pieceLength candidate)));
             availablePieces =
               floor (roundDouble (real_of_int matchedSizes / real_of_int (mf_pieceLength candidate)))
         in jsDivGe (real_of_int availablePieces) (real_of_int totalPieces) (getMinSizeRatio e searchee)))"

section \<open>Pre-filters\<close>

text \<open>
  \<open>fuzzySizeDoesMatch\<close>: the product, the difference and the sum are each rounded
  to a double.
\<close>

definition fuzzySizeDoesMatch :: "env \<Rightarrow> int \<Rightarrow> Searchee \<Rightarrow> bool" where
  "fuzzySizeDoesMatch e resultSize searchee =
     (let fuzzySizeFactor = getFuzzySizeFactor e searchee;
          len = real_of_int (s_length searchee);
          lowerBound = roundDouble (len - roundDouble (fuzzySizeFactor * len));
          upperBound = roundDouble (len + roundDouble (fuzzySizeFactor * len))
      in real_of_int resultSize \<ge> lowerBound \<and> real_of_int resultSize \<le> upperBound)"

text \<open>
  The three roundings of \<open>fuzzySizeDoesMatch\<close> move a bound by at most
  \<open>roundingBand factor\<close>, relative to the length of the searchee: each rounding has a
  relative error of at most \<open>2^-53\<close>.
\<close>

definition roundingBand :: "real \<Rightarrow> real" where
  "roundingBand factor = (1 + 2 * factor + factor / 2 ^ 53) / 2 ^ 53"

definition startsWith :: "string \<Rightarrow> string \<Rightarrow> bool" where
  "startsWith s p = (take (length p) s = p)"

definition resolutionDoesMatch :: "env \<Rightarrow> string \<Rightarrow> string \<Rightarrow> bool" where
  "resolutionDoesMatch e searcheeTitle candidateName =
     (let searcheeRes = map_option (\<lambda>r. toLowerCase (trim r)) (resStrict e searcheeTitle);
          candidateRes = map_option (\<lambda>r. toLowerCase (trim r)) (resStrict e candidateName)
      in
      if \<not> truthy searcheeRes \<or> \<not> truthy candidateRes then True
      else extractInt e (the searcheeRes) = extractInt e (the candidateRes))"

definition releaseGroupDoesMatch :: "env \<Rightarrow> string \<Rightarrow> string \<Rightarrow> bool" where
  "releaseGroupDoesMatch e searcheeTitle candidateName =
     (let searcheeReleaseGroup = map_option toLowerCase (getReleaseGroup e (stripExtension e searcheeTitle));
          candidateReleaseGroup = map_option toLowerCase (getReleaseGroup e (stripExtension e candidateName))
      in
      if \<not> truthy searcheeReleaseGroup \<or> \<not> truthy candidateReleaseGroup then True
      else if startsWith (the searcheeReleaseGroup) (the candidateReleaseGroup) \<or>
              startsWith (the candidateReleaseGroup) (the searcheeReleaseGroup) then True
      else
        (let searcheeAnimeGroup = map_option (\<lambda>g. toLowerCase (trim g)) (animeGroup e searcheeTitle);
             candidateAnimeGroup = map_option (\<lambda>g. toLowerCase (trim g)) (animeGroup e candidateName)
         in
         if \<not> truthy searcheeAnimeGroup \<and> \<not> truthy candidateAnimeGroup then False
         else if searcheeAnimeGroup = candidateAnimeGroup then True
         else if truthy searcheeAnimeGroup \<and> searcheeAnimeGroup = candidateReleaseGroup then True
         else if truthy candidateAnimeGroup \<and> searcheeReleaseGroup = candidateAnimeGroup then True
         else False))"

definition sourceDoesMatch :: "env \<Rightarrow> string \<Rightarrow> string \<Rightarrow> bool" where
  "sourceDoesMatch e searcheeTitle candidateName =
     (let searcheeSource = parseSource e searcheeTitle;
          candidateSource = parseSource e candidateName
      in
      if \<not> truthy searcheeSource \<or> \<not> truthy candidateSource then True
      else searcheeSource = candidateSource)"

definition releaseVersionDoesMatch :: "env \<Rightarrow> string \<Rightarrow> string \<Rightarrow> bool" where
  "releaseVersionDoesMatch e searcheeName candidateName =
     (repackProper e searcheeName = repackProper e candidateName)"

section \<open>Torrent cache\<close>

text \<open>The loop of \<open>cacheTorrentFile\<close> that appends the trackers not yet stored.\<close>

fun addTrackers :: "json list \<Rightarrow> bool \<Rightarrow> string list \<Rightarrow> json list \<times> bool" where
  "addTrackers dbTrackers added [] = (dbTrackers, added)"
| "addTrackers dbTrackers added (tracker # rest) =
     (if JStr tracker \<in> set dbTrackers then addTrackers dbTrackers added rest
      else addTrackers (dbTrackers @ [JStr tracker]) True rest)"

definition updateIndexerTrackers :: "nat \<Rightarrow> json_text \<Rightarrow> db \<Rightarrow> db" where
  "updateIndexerTrackers indexerId v d =
     d\<lparr> tbl_indexer := map (\<lambda>r. if ix_id r = indexerId then r\<lparr> ix_trackers := v \<rparr> else r) (tbl_indexer d) \<rparr>"

text \<open>
  \<open>dbTrackers\<close> of \<open>cacheTorrentFile\<close>: \<open>None\<close> when \<open>JSON.parse\<close> or the use of its
  result as an array of strings throws.
\<close>

definition storedIndexerTrackers :: "nat \<Rightarrow> db \<Rightarrow> json list option" where
  "storedIndexerTrackers indexerId d =
     (case find (\<lambda>r. ix_id r = indexerId) (tbl_indexer d) of
        None \<Rightarrow> Some []
      | Some dbIndexer \<Rightarrow>
          (case ix_trackers dbIndexer of
             Absent \<Rightarrow> Some []
           | Malformed \<Rightarrow> None
           | Json (JArr xs) \<Rightarrow> Some xs
           | Json _ \<Rightarrow> None))"

text \<open>
  \<open>cacheTorrentFile\<close>: every exception is caught and the function returns \<open>cached\<close>
  as it is then.
\<close>

definition cacheTorrentFile :: "env \<Rightarrow> Metafile \<Rightarrow> Candidate \<Rightarrow> world \<Rightarrow> bool \<times> world" where
  "cacheTorrentFile e meta candidate w =
     (let w1 = emit (WriteTorrentCache (mf_infoHash meta)) w in
      if \<not> writeTorrentCache e meta then (False, w1)
      else
        (case c_indexerId candidate of
           None \<Rightarrow> (True, w1)
         | Some indexerId \<Rightarrow>
             if indexerId = 0 \<or> mf_trackers meta = [] then (True, w1)
             else
               (case storedIndexerTrackers indexerId (w_db w1) of
                  None \<Rightarrow> (True, w1)
                | Some dbTrackers \<Rightarrow>
                    (case addTrackers dbTrackers False (mf_trackers meta) of
                       (merged, added) \<Rightarrow>
                         if added
                         then (True, w1\<lparr> w_db := updateIndexerTrackers indexerId (Json (JArr merged)) (w_db w1) \<rparr>)
                         else (True, w1)))))"

section \<open>The decision engine\<close>

text \<open>
  The trackers handed to the conflict resolver: those of the mismatch when it has any,
  else the tracker of the candidate when there is one.
\<close>

definition conflictCandidateTrackers :: "TrackerMismatchInfo option \<Rightarrow> string option \<Rightarrow> string list" where
  "conflictCandidateTrackers tm candidateTracker =
     (let fallback = (if truthy candidateTracker then [the candidateTracker] else []) in
      case tm of
        None \<Rightarrow> fallback
      | Some t \<Rightarrow> if candidateTrackers t \<noteq> [] then candidateTrackers t else fallback)"

text \<open>The guard against single episodes matching season packs.\<close>

definition seasonPackGuard :: "env \<Rightarrow> RuntimeConfig \<Rightarrow> Metafile \<Rightarrow> Searchee \<Rightarrow> bool" where
  "seasonPackGuard e cfg metafile searchee =
     (\<not> includeSingleEpisodes cfg \<and> seasonRegex e (s_title searchee) \<and> isSingleEpisode e metafile)"

text \<open>Content matching: the end of \<open>assessCandidate\<close>, from \<open>perfectMatch\<close> on.\<close>

definition contentDecision :: "env \<Rightarrow> RuntimeConfig \<Rightarrow> Metafile \<Rightarrow> Searchee \<Rightarrow> Decision" where
  "contentDecision e cfg metafile searchee =
     (if compareFileTrees metafile searchee then MATCH
      else
        (let sizeMatch = compareFileTreesIgnoringNames metafile searchee in
         if sizeMatch \<and> matchMode cfg \<noteq> STRICT then MATCH_SIZE_ONLY
         else if matchMode cfg = PARTIAL then
           (if \<not> partialSizeRatioGe metafile searchee (getMinSizeRatio e searchee) then PARTIAL_SIZE_MISMATCH
            else if compareFileTreesPartial e metafile searchee then MATCH_PARTIAL
            else FILE_TREE_MISMATCH)
         else if \<not> sizeMatch then SIZE_MISMATCH
         else FILE_TREE_MISMATCH))"

definition assessment :: "Decision \<Rightarrow> Metafile option \<Rightarrow> bool option \<Rightarrow> TrackerMismatchInfo option \<Rightarrow> ResultAssessment" where
  "assessment dec metafile metaCached tm =
     \<lparr> ra_decision = dec, ra_metafile = metafile, ra_metaCached = metaCached, ra_trackerMismatch = tm \<rparr>"

text \<open>
  \<open>assessCandidate\<close> from the comparison of the info-hashes on, for the metafile at
  hand and the value of \<open>metaCached\<close>.
\<close>

definition assessMetafile ::
  "env \<Rightarrow> RuntimeConfig \<Rightarrow> Metafile \<Rightarrow> bool \<Rightarrow> Searchee \<Rightarrow> string list \<Rightarrow> string option \<Rightarrow> world
     \<Rightarrow> ResultAssessment \<times> world" where
  "assessMetafile e cfg metafile metaCached searchee blocked candidateTracker w =
     (if s_infoHash searchee = Some (mf_infoHash metafile) then
        (let tm = logAnnounceMismatch e (w_db w) metafile in
         (assessment (if tm \<noteq> None then INFO_HASH_ALREADY_EXISTS_ANOTHER_TRACKER else SAME_INFO_HASH)
            (Some metafile) (Some metaCached) tm, w))
      else
        (let tm = (if mf_infoHash metafile \<in> infoHashesToExclude w
                   then logAnnounceMismatch e (w_db w) metafile else None);
             cts = conflictCandidateTrackers tm candidateTracker;
             w1 = (if mf_infoHash metafile \<in> infoHashesToExclude w \<and> cts \<noteq> [] then
                     (case resolveConflictRules (getClients e) (mf_infoHash metafile) cts w of
                        (resolved, w') \<Rightarrow>
                          if resolved
                          then w'\<lparr> infoHashesToExclude := infoHashesToExclude w' - {mf_infoHash metafile} \<rparr>
                          else w')
                   else w)
         in
         if mf_infoHash metafile \<in> infoHashesToExclude w1 then
           (assessment (if tm \<noteq> None then INFO_HASH_ALREADY_EXISTS_ANOTHER_TRACKER else INFO_HASH_ALREADY_EXISTS)
              (Some metafile) (Some metaCached) tm, w1)
         else if truthy (blockedMetafile e metafile blocked) then
           (assessment BLOCKED_RELEASE (Some metafile) (Some metaCached) None, w1)
         else if seasonPackGuard e cfg metafile searchee then
           (assessment FILE_TREE_MISMATCH (Some metafile) (Some metaCached) None, w1)
         else
           (assessment (contentDecision e cfg metafile searchee) (Some metafile) (Some metaCached) None, w1)))"

text \<open>
  \<open>assessCandidate\<close>. The assignment of the metafile's length to \<open>candidate.size\<close>
  after the snatch is left out: nothing modelled here reads the size again.
\<close>

definition assessCandidate ::
  "env \<Rightarrow> RuntimeConfig \<Rightarrow> MetaOrCandidate \<Rightarrow> Searchee \<Rightarrow> string list \<Rightarrow> string option \<Rightarrow> world
     \<Rightarrow> ResultAssessment \<times> world" where
  "assessCandidate e cfg metaOrCandidate searchee blocked candidateTracker w =
     (case metaOrCandidate of
        Cand candidate \<Rightarrow>
          if \<not> releaseGroupDoesMatch e (s_title searchee) (c_name candidate) then
            (assessment RELEASE_GROUP_MISMATCH None None None, w)
          else if \<not> resolutionDoesMatch e (s_title searchee) (c_name candidate) then
            (assessment RESOLUTION_MISMATCH None None None, w)
          else if \<not> sourceDoesMatch e (s_title searchee) (c_name candidate) then
            (assessment SOURCE_MISMATCH None None None, w)
          else if \<not> releaseVersionDoesMatch e (s_title searchee) (c_name candidate) then
            (assessment PROPER_REPACK_MISMATCH None None None, w)
          else if (case c_size candidate of
                     None \<Rightarrow> False
                   | Some sz \<Rightarrow> sz \<noteq> 0 \<and> \<not> fuzzySizeDoesMatch e sz searchee) then
            (assessment FUZZY_SIZE_MISMATCH None None None, w)
          else if c_link candidate = [] then
            (assessment NO_DOWNLOAD_LINK None None None, w)
          else if truthy (blockedSearchee e searchee blocked) then
            (assessment BLOCKED_RELEASE None (Some False) None, w)
          else
            (let w1 = emit (Snatch (c_guid candidate)) w in
             case snatch e candidate (s_label searchee) of
               Inl err \<Rightarrow>
                 (assessment
                    (if err = SNATCH_MAGNET_LINK then MAGNET_LINK
                     else if err = SNATCH_RATE_LIMITED then RATE_LIMITED
                     else DOWNLOAD_FAILED) None None None, w1)
             | Inr metafile \<Rightarrow>
                 (case cacheTorrentFile e metafile candidate w1 of
                    (metaCached, w2) \<Rightarrow>
                      assessMetafile e cfg metafile metaCached searchee blocked candidateTracker w2))
      | Meta metafile \<Rightarrow>
          if truthy (blockedSearchee e searchee blocked) then
            (assessment BLOCKED_RELEASE (Some metafile) (Some True) None, w)
          else assessMetafile e cfg metafile True searchee blocked candidateTracker w)"

section \<open>Persisting an assessment\<close>

text \<open>
  \<open>insert(...).onConflict(["searchee_id", "guid"]).merge()\<close> on \<open>decision\<close>: a row of
  the pair takes the inserted columns and keeps its id.
\<close>

definition upsertDecision ::
  "nat \<Rightarrow> string \<Rightarrow> string \<Rightarrow> Decision \<Rightarrow> int \<Rightarrow> int \<Rightarrow> real \<Rightarrow> db \<Rightarrow> db" where
  "upsertDecision searcheeId guid infoHash dec firstSeen lastSeen factor d =
     (if list_ex (\<lambda>r. de_searchee_id r = searcheeId \<and> de_guid r = guid) (tbl_decision d)
      then d\<lparr> tbl_decision :=
                map (\<lambda>r. if de_searchee_id r = searcheeId \<and> de_guid r = guid
                          then r\<lparr> de_info_hash := Some infoHash,
                                  de_decision := dec,
                                  de_first_seen := Some firstSeen,
                                  de_last_seen := lastSeen,
                                  de_fuzzy_size_factor := factor \<rparr>
                          else r)
                  (tbl_decision d) \<rparr>
      else d\<lparr> tbl_decision :=
                tbl_decision d @
                  [\<lparr> de_id = Suc (decision_seq d),
                     de_searchee_id = searcheeId,
                     de_guid = guid,
                     de_info_hash = Some infoHash,
                     de_decision = dec,
                     de_first_seen = Some firstSeen,
                     de_last_seen = lastSeen,
                     de_fuzzy_size_factor = factor \<rparr>],
              decision_seq := Suc (decision_seq d) \<rparr>)"

text \<open>
  The transaction of \<open>assessAndSaveResults\<close> for an assessment with the metafile
  \<open>metafile\<close>. \<open>None\<close> is the exception of the non-null assertion on a searchee row
  that does not exist; the transaction is then rolled back.
\<close>

definition saveAssessment ::
  "env \<Rightarrow> int \<Rightarrow> ResultAssessment \<Rightarrow> Metafile \<Rightarrow> Searchee \<Rightarrow> string \<Rightarrow> int \<Rightarrow> db \<Rightarrow> db option" where
  "saveAssessment e now a metafile searchee guid firstSeen d =
     (case find (\<lambda>sr. se_name sr = s_title searchee) (tbl_searchee d) of
        None \<Rightarrow> None
      | Some searcheeRow \<Rightarrow>
          (let d1 = upsertDecision (se_id searcheeRow) guid (mf_infoHash metafile) (ra_decision a)
                      firstSeen now (getFuzzySizeFactor e searchee) d
           in
           case find (\<lambda>dr. de_searchee_id dr = se_id searcheeRow \<and> de_guid dr = guid) (tbl_decision d1) of
             None \<Rightarrow> Some d1
           | Some decisionRow \<Rightarrow>
               if de_id decisionRow = 0 then Some d1
               else if ra_decision a = INFO_HASH_ALREADY_EXISTS_ANOTHER_TRACKER \<and> ra_trackerMismatch a \<noteq> None then
                 (if canRecordPrivateCollision (Some metafile)
                  then Some (upsertCollisionRecord now (de_id decisionRow) (the (ra_trackerMismatch a)) firstSeen now d1)
                  else Some (deleteCollisionRecord (de_id decisionRow) d1))
               else Some (deleteCollisionRecord (de_id decisionRow) d1)))"

datatype 'a outcome = Returned 'a | Thrown

text \<open>\<open>Map.prototype.set\<close>: an existing key keeps its place.\<close>

fun mapSet :: "string \<Rightarrow> string \<Rightarrow> (string \<times> string) list \<Rightarrow> (string \<times> string) list" where
  "mapSet k v [] = [(k, v)]"
| "mapSet k v (p # ps) = (if fst p = k then (k, v) # ps else p # mapSet k v ps)"

definition assessAndSaveResults ::
  "env \<Rightarrow> RuntimeConfig \<Rightarrow> int \<Rightarrow> MetaOrCandidate \<Rightarrow> Searchee \<Rightarrow> string \<Rightarrow> int \<Rightarrow> string \<Rightarrow> world
     \<Rightarrow> ResultAssessment outcome \<times> world" where
  "assessAndSaveResults e cfg now metaOrCandidate searchee guid firstSeen candidateTracker w =
     (case assessCandidate e cfg metaOrCandidate searchee (blockList cfg) (Some candidateTracker) w of
        (a, w1) \<Rightarrow>
          (case ra_metafile a of
             None \<Rightarrow> (Returned a, w1)
           | Some metafile \<Rightarrow>
               if ra_metaCached a = Some True then
                 (let w2 = w1\<lparr> guidInfoHashMap := mapSet guid (mf_infoHash metafile) (guidInfoHashMap w1) \<rparr> in
                  case saveAssessment e now a metafile searchee guid firstSeen (w_db w2) of
                    None \<Rightarrow> (Thrown, w2)
                  | Some d' \<Rightarrow> (Returned a, w2\<lparr> w_db := d' \<rparr>))
               else (Returned a, w1)))"

section \<open>The caching wrapper\<close>

text \<open>
  Modelled from the spec: \<open>isAnyMatchedDecision\<close> of \<open>constants.ts\<close>, which is not among
  the sources. The caching wrapper rewrites the decision "preserving any
  previously-matched decision"; the matched decisions of the taxonomy are \<open>MATCH\<close>,
  \<open>MATCH_SIZE_ONLY\<close> and \<open>MATCH_PARTIAL\<close>.
\<close>

definition isAnyMatchedDecision :: "Decision \<Rightarrow> bool" where
  "isAnyMatchedDecision dec = (dec = MATCH \<or> dec = MATCH_SIZE_ONLY \<or> dec = MATCH_PARTIAL)"

text \<open>The second half of \<open>guidLookup\<close>: the loop over \<open>[guid, link]\<close>.\<close>

fun guidLookupLoop :: "env \<Rightarrow> string list \<Rightarrow> (string \<times> string) list \<Rightarrow> string option" where
  "guidLookupLoop e [] m = None"
| "guidLookupLoop e (guidOrLink # rest) m =
     (if \<not> truthy (torrentId e guidOrLink) then guidLookupLoop e rest m
      else
        (case find (\<lambda>kv. torrentId e (fst kv) = torrentId e guidOrLink) m of
           Some kv \<Rightarrow> Some (snd kv)
         | None \<Rightarrow> guidLookupLoop e rest m))"

definition guidLookup :: "env \<Rightarrow> string \<Rightarrow> string \<Rightarrow> (string \<times> string) list \<Rightarrow> string option" where
  "guidLookup e guid link m =
     (let infoHash = (case map_of m guid of Some h \<Rightarrow> Some h | None \<Rightarrow> map_of m link) in
      if truthy infoHash then infoHash else guidLookupLoop e [guid, link] m)"

definition getCachedTorrent :: "env \<Rightarrow> string option \<Rightarrow> world \<Rightarrow> Metafile option \<times> world" where
  "getCachedTorrent e infoHash w =
     (if \<not> truthy infoHash then (None, w)
      else (readTorrentCache e (the infoHash), emit (ReadTorrentCache (the infoHash)) w))"

definition updateDecision :: "nat \<Rightarrow> int \<Rightarrow> Decision \<Rightarrow> db \<Rightarrow> db" where
  "updateDecision decisionId lastSeen dec d =
     d\<lparr> tbl_decision :=
          map (\<lambda>r. if de_id r = decisionId then r\<lparr> de_last_seen := lastSeen, de_decision := dec \<rparr> else r)
            (tbl_decision d) \<rparr>"

text \<open>
  The row \<open>cacheEntry\<close> of \<open>assessCandidateCaching\<close>: \<open>decision\<close> joined with
  \<open>searchee\<close>, for the searchee's title and the guid.
\<close>

definition findCacheEntry :: "Searchee \<Rightarrow> string \<Rightarrow> db \<Rightarrow> decision_row option" where
  "findCacheEntry searchee guid d =
     find (\<lambda>dr. de_guid dr = guid \<and>
                list_ex (\<lambda>sr. de_searchee_id dr = se_id sr \<and> se_name sr = s_title searchee) (tbl_searchee d))
       (tbl_decision d)"

text \<open>
  The branch of \<open>assessCandidateCaching\<close> for a cached decision whose info-hash stays
  excluded ("already injected fast path").
\<close>

definition cachedCollision ::
  "int \<Rightarrow> decision_row \<Rightarrow> Metafile option \<Rightarrow> TrackerMismatchInfo option \<Rightarrow> world
     \<Rightarrow> ResultAssessment outcome \<times> world" where
  "cachedCollision now cacheEntry meta tm w =
     (let dec = (if tm \<noteq> None then INFO_HASH_ALREADY_EXISTS_ANOTHER_TRACKER else INFO_HASH_ALREADY_EXISTS);
          d1 = updateDecision (de_id cacheEntry) now
                 (if isAnyMatchedDecision (de_decision cacheEntry) then de_decision cacheEntry else dec)
                 (w_db w);
          firstSeen = (case de_first_seen cacheEntry of Some t \<Rightarrow> t | None \<Rightarrow> now);
          d2 = (case tm of
                  Some t \<Rightarrow>
                    if canRecordPrivateCollision meta
                    then upsertCollisionRecord now (de_id cacheEntry) t firstSeen now d1
                    else deleteCollisionRecord (de_id cacheEntry) d1
                | None \<Rightarrow> deleteCollisionRecord (de_id cacheEntry) d1)
      in (Returned (assessment dec None None tm), w\<lparr> w_db := d2 \<rparr>))"

definition assessCandidateCaching ::
  "env \<Rightarrow> RuntimeConfig \<Rightarrow> int \<Rightarrow> Candidate \<Rightarrow> Searchee \<Rightarrow> world \<Rightarrow> ResultAssessment outcome \<times> world" where
  "assessCandidateCaching e cfg now candidate searchee w0 =
     (let cacheEntry = findCacheEntry searchee (c_guid candidate) (w_db w0);
          infoHash = guidLookup e (c_guid candidate) (c_link candidate) (guidInfoHashMap w0)
      in
      case getCachedTorrent e infoHash w0 of
        (res, w) \<Rightarrow>
          (let metaOrCandidate = (case res of Some meta \<Rightarrow> Meta meta | None \<Rightarrow> Cand candidate);
               excluded = (case cacheEntry of
                             None \<Rightarrow> False
                           | Some entry \<Rightarrow>
                               (case de_info_hash entry of
                                  None \<Rightarrow> False
                                | Some h \<Rightarrow> h \<in> infoHashesToExclude w))
           in
           if excluded then
             (let entry = the cacheEntry;
                  h = the (de_info_hash entry);
                  firstSeen = (case de_first_seen entry of Some t \<Rightarrow> t | None \<Rightarrow> now);
                  tm = (case res of Some meta \<Rightarrow> logAnnounceMismatch e (w_db w) meta | None \<Rightarrow> None);
                  cts = conflictCandidateTrackers tm (Some (c_tracker candidate))
              in
              if cts \<noteq> [] then
                (case resolveConflictRules (getClients e) h cts w of
                   (resolved, w1) \<Rightarrow>
                     if resolved then
                       assessAndSaveResults e cfg now metaOrCandidate searchee (c_guid candidate) firstSeen
                         (c_tracker candidate)
                         (w1\<lparr> infoHashesToExclude := infoHashesToExclude w1 - {h} \<rparr>)
                     else cachedCollision now entry res tm w1)
              else cachedCollision now entry res tm w)
           else
             assessAndSaveResults e cfg now metaOrCandidate searchee (c_guid candidate)
               (case cacheEntry of
                  None \<Rightarrow> now
                | Some entry \<Rightarrow> (case de_first_seen entry of Some t \<Rightarrow> t | None \<Rightarrow> now))
               (c_tracker candidate) w))"

section \<open>Concrete scenarios\<close>

definition emptyDb :: db where
  "emptyDb =
     \<lparr> tbl_searchee = [], tbl_decision = [], decision_seq = 0, tbl_collisions = [],
       tbl_client_searchee = [], tbl_conflict_rules = [], conflict_rules_seq = 0, tbl_indexer = [] \<rparr>"

definition rulesAB :: "rule_input list" where
  "rulesAB =
     [\<lparr> ri_allIndexers = False, ri_trackers = [''b.example'', '' a.example ''] \<rparr>,
      \<lparr> ri_allIndexers = True, ri_trackers = [] \<rparr>]"

text \<open>The doubles written \<open>0.02\<close> and \<open>0.3\<close>.\<close>

definition double_0_02 :: real where
  "double_0_02 = 5764607523034235 / 2 ^ 58"

definition double_0_3 :: real where
  "double_0_3 = 5404319552844595 / 2 ^ 54"

text \<open>More rules than one insert takes.\<close>

definition manyRules :: "rule_input list" where
  "manyRules = replicate 501 \<lparr> ri_allIndexers = True, ri_trackers = [] \<rparr>"

definition demoEnv :: env where
  "demoEnv =
     \<lparr> getClients = [],
       getReleaseGroup = (\<lambda>t. None),
       stripExtension = (\<lambda>t. t),
       extractInt = (\<lambda>t. 0),
       parseSource = (\<lambda>t. None),
       getFuzzySizeFactor = (\<lambda>s. double_0_02),
       getMinSizeRatio = (\<lambda>s. 1),
       resStrict = (\<lambda>t. None),
       animeGroup = (\<lambda>t. None),
       repackProper = (\<lambda>t. False),
       seasonRegex = (\<lambda>t. False),
       isSingleEpisode = (\<lambda>m. False),
       blockedSearchee = (\<lambda>s b. None),
       blockedMetafile = (\<lambda>m b. None),
       snatch = (\<lambda>c l. Inl SNATCH_UNKNOWN_ERROR),
       writeTorrentCache = (\<lambda>m. True),
       readTorrentCache = (\<lambda>h. None),
       torrentId = (\<lambda>t. None),
       getKnownTrackersForInfoHash = (\<lambda>d h. None) \<rparr>"

text \<open>
  A database with one searchee, two decisions on it for the info-hash \<open>h1\<close> (guids
  \<open>g1\<close> and \<open>g2\<close>), and a collision row of the first decision.
\<close>

definition mismatchAB :: TrackerMismatchInfo where
  "mismatchAB = \<lparr> candidateTrackers = [''a.example''], knownTrackers = [''b.example''] \<rparr>"

definition collisionDb :: db where
  "collisionDb =
     emptyDb
       \<lparr> tbl_searchee := [\<lparr> se_id = 1, se_name = ''Show.S01'' \<rparr>],
         tbl_decision :=
           [\<lparr> de_id = 1, de_searchee_id = 1, de_guid = ''g1'', de_info_hash = Some ''h1'',
              de_decision = INFO_HASH_ALREADY_EXISTS_ANOTHER_TRACKER, de_first_seen = Some 10,
              de_last_seen = 10, de_fuzzy_size_factor = 2 / 100 \<rparr>,
            \<lparr> de_id = 2, de_searchee_id = 1, de_guid = ''g2'', de_info_hash = Some ''h1'',
              de_decision = INFO_HASH_ALREADY_EXISTS_ANOTHER_TRACKER, de_first_seen = Some 20,
              de_last_seen = 20, de_fuzzy_size_factor = 2 / 100 \<rparr>],
         decision_seq := 2,
         tbl_collisions :=
           [\<lparr> co_decision_id = 1, co_candidate_trackers = stringify [''a.example''],
              co_known_trackers = stringify [''b.example''],
              co_first_seen = 10, co_last_seen = 10, co_updated_at = 10 \<rparr>] \<rparr>"

text \<open>A searchee and three metafiles of the info-hash \<open>h1\<close> that differ in the private flag.\<close>

definition showSearchee :: Searchee where
  "showSearchee =
     \<lparr> s_title = ''Show.S01'', s_infoHash = Some ''h0'', s_path = None,
       s_files = [\<lparr> fl_name = ''a.mkv'', fl_path = ''Show.S01/a.mkv'', fl_length = 100 \<rparr>],
       s_length = 100, s_label = SEARCH \<rparr>"

definition metaPrivate :: "bvalue option \<Rightarrow> Metafile" where
  "metaPrivate flag =
     \<lparr> mf_infoHash = ''h1'', mf_name = ''Show.S01'', mf_length = 100, mf_pieceLength = 10,
       mf_files = [\<lparr> fl_name = ''a.mkv'', fl_path = ''Show.S01/a.mkv'', fl_length = 100 \<rparr>],
       mf_trackers = [''a.example''], mf_raw_info_private = flag \<rparr>"

definition worldOf :: "db \<Rightarrow> world" where
  "worldOf d = \<lparr> w_db = d, w_io = [], infoHashesToExclude = {''h1''}, guidInfoHashMap = [] \<rparr>"

text \<open>
  The conflict scenario: the rules \<open>[{trackers: [a.example]}, {allIndexers}]\<close>, the
  indexer tracker \<open>b.example\<close>, and the torrent \<open>h1\<close> held by the clients \<open>hostA\<close>
  and \<open>hostB\<close> on the tracker \<open>b.example\<close>.
\<close>

definition conflictDb :: db where
  "conflictDb =
     emptyDb
       \<lparr> tbl_conflict_rules :=
           [\<lparr> cr_id = 1, cr_priority = 1, cr_all_indexers = 0, cr_trackers = stringify [''a.example''],
              cr_created_at = 1, cr_updated_at = 1 \<rparr>,
            \<lparr> cr_id = 2, cr_priority = 2, cr_all_indexers = 1, cr_trackers = stringify [],
              cr_created_at = 1, cr_updated_at = 1 \<rparr>],
         conflict_rules_seq := 2,
         tbl_indexer := [\<lparr> ix_id = 1, ix_trackers = stringify [''b.example''] \<rparr>],
         tbl_client_searchee :=
           [\<lparr> cs_info_hash = ''h1'', cs_client_host = Some ''hostA'', cs_trackers = stringify [''b.example''] \<rparr>,
            \<lparr> cs_info_hash = ''h1'', cs_client_host = Some ''hostB'', cs_trackers = stringify [''b.example''] \<rparr>,
            \<lparr> cs_info_hash = ''h2'', cs_client_host = Some ''hostA'', cs_trackers = stringify [''b.example''] \<rparr>] \<rparr>"

definition clientOk :: "string \<Rightarrow> client" where
  "clientOk host =
     \<lparr> clientHost = host, removeTorrent = (\<lambda>h. Ok True), isTorrentInClient = (\<lambda>h. Ok False) \<rparr>"

definition clientFailing :: "string \<Rightarrow> client" where
  "clientFailing host =
     \<lparr> clientHost = host, removeTorrent = (\<lambda>h. Err ''timeout''), isTorrentInClient = (\<lambda>h. Ok True) \<rparr>"

text \<open>
  Modelled on the words of the specification for \<open>MATCH_SIZE_ONLY\<close>: "bijection on
  length only, names may differ". The candidate files and the searchee files admit a
  one-to-one correspondence that preserves the length of every file.
\<close>

definition sizeOnlyBijection :: "File list \<Rightarrow> File list \<Rightarrow> bool" where
  "sizeOnlyBijection candidateFiles searcheeFiles =
     (\<exists>f. bij_betw f {..< length candidateFiles} {..< length searcheeFiles} \<and>
          (\<forall>i < length candidateFiles. fl_length (searcheeFiles ! f i) = fl_length (candidateFiles ! i)))"

text \<open>Two files of the same length on each side, under different names.\<close>

definition twinSearchee :: Searchee where
  "twinSearchee =
     \<lparr> s_title = ''Album'', s_infoHash = Some ''h0'', s_path = None,
       s_files = [\<lparr> fl_name = ''a.flac'', fl_path = ''Album/a.flac'', fl_length = 100 \<rparr>,
                  \<lparr> fl_name = ''b.flac'', fl_path = ''Album/b.flac'', fl_length = 100 \<rparr>],
       s_length = 200, s_label = SEARCH \<rparr>"

definition twinMeta :: Metafile where
  "twinMeta =
     \<lparr> mf_infoHash = ''h9'', mf_name = ''Album'', mf_length = 200, mf_pieceLength = 10,
       mf_files = [\<lparr> fl_name = ''x.flac'', fl_path = ''Album/x.flac'', fl_length = 100 \<rparr>,
                   \<lparr> fl_name = ''y.flac'', fl_path = ''Album/y.flac'', fl_length = 100 \<rparr>],
       mf_trackers = [''a.example''], mf_raw_info_private = None \<rparr>"

text \<open>Files of distinct lengths under different names (scenario 2 of the specification).\<close>

definition pairSearchee :: Searchee where
  "pairSearchee =
     \<lparr> s_title = ''Album'', s_infoHash = Some ''h0'', s_path = None,
       s_files = [\<lparr> fl_name = ''a'', fl_path = ''a'', fl_length = 100 \<rparr>,
                  \<lparr> fl_name = ''b'', fl_path = ''b'', fl_length = 200 \<rparr>],
       s_length = 300, s_label = SEARCH \<rparr>"

definition pairMeta :: Metafile where
  "pairMeta =
     \<lparr> mf_infoHash = ''h9'', mf_name = ''Album'', mf_length = 300, mf_pieceLength = 10,
       mf_files = [\<lparr> fl_name = ''x'', fl_path = ''x'', fl_length = 100 \<rparr>,
                   \<lparr> fl_name = ''y'', fl_path = ''y'', fl_length = 200 \<rparr>],
       mf_trackers = [''a.example''], mf_raw_info_private = None \<rparr>"

definition configOf :: "MatchMode \<Rightarrow> RuntimeConfig" where
  "configOf mode = \<lparr> includeSingleEpisodes = False, matchMode = mode, blockList = [] \<rparr>"

definition freshWorld :: world where
  "freshWorld = \<lparr> w_db = emptyDb, w_io = [], infoHashesToExclude = {}, guidInfoHashMap = [] \<rparr>"

text \<open>A candidate for a searchee of length 1000 (scenario 3 of the specification).\<close>

definition bigSearchee :: Searchee where
  "bigSearchee =
     \<lparr> s_title = ''Movie.2020'', s_infoHash = Some ''h0'', s_path = None,
       s_files = [\<lparr> fl_name = ''m.mkv'', fl_path = ''m.mkv'', fl_length = 1000 \<rparr>],
       s_length = 1000, s_label = SEARCH \<rparr>"

text \<open>A searchee of length 10, and the environment with a given fuzzy size factor.\<close>

definition smallSearchee :: Searchee where
  "smallSearchee =
     \<lparr> s_title = ''Movie.2020'', s_infoHash = Some ''h0'', s_path = None,
       s_files = [\<lparr> fl_name = ''m.mkv'', fl_path = ''m.mkv'', fl_length = 10 \<rparr>],
       s_length = 10, s_label = SEARCH \<rparr>"

definition factorEnv :: "real \<Rightarrow> env" where
  "factorEnv factor = demoEnv\<lparr> getFuzzySizeFactor := (\<lambda>s. factor) \<rparr>"

definition candidateOf :: "string \<Rightarrow> int option \<Rightarrow> string \<Rightarrow> Candidate" where
  "candidateOf n sz link =
     \<lparr> c_name = n, c_guid = ''guid-1'', c_link = link, c_tracker = ''a.example'',
       c_indexerId = Some 1, c_size = sz \<rparr>"

text \<open>
  The cached scenario: the decision of the guid \<open>guid-1\<close> on the searchee \<open>Show.S01\<close>
  is stored as \<open>MATCH\<close> for the info-hash \<open>h1\<close>, which is excluded; the cached
  torrent is private and announces to \<open>a.example\<close>, the local torrent is known on
  \<open>b.example\<close>; there are no conflict rules.
\<close>

definition cachedEnv :: env where
  "cachedEnv =
     demoEnv\<lparr> readTorrentCache := (\<lambda>h. if h = ''h1'' then Some (metaPrivate (Some (BInt 1))) else None),
              getKnownTrackersForInfoHash := (\<lambda>d h. Some [''b.example'']) \<rparr>"

definition matchedDb :: db where
  "matchedDb =
     emptyDb
       \<lparr> tbl_searchee := [\<lparr> se_id = 1, se_name = ''Show.S01'' \<rparr>],
         tbl_decision :=
           [\<lparr> de_id = 1, de_searchee_id = 1, de_guid = ''guid-1'', de_info_hash = Some ''h1'',
              de_decision = MATCH, de_first_seen = Some 10, de_last_seen = 10,
              de_fuzzy_size_factor = 2 / 100 \<rparr>],
         decision_seq := 1 \<rparr>"

definition matchedWorld :: world where
  "matchedWorld =
     \<lparr> w_db = matchedDb, w_io = [], infoHashesToExclude = {''h1''},
       guidInfoHashMap = [(''guid-1'', ''h1'')] \<rparr>"

text \<open>
  The cached scenario with a collision row of the decision left from an earlier
  assessment.
\<close>

definition staleWorld :: world where
  "staleWorld =
     matchedWorld
       \<lparr> w_db := matchedDb
           \<lparr> tbl_collisions :=
               [\<lparr> co_decision_id = 1, co_candidate_trackers = stringify [''a.example''],
                  co_known_trackers = stringify [''b.example''],
                  co_first_seen = 10, co_last_seen = 10, co_updated_at = 10 \<rparr>] \<rparr> \<rparr>"

section \<open>Properties of saveRules\<close>

lemma rulesPayload_length: "length (rulesPayload now seq index rules) = length rules"
  by (induction rules arbitrary: index) auto

lemma rulesPayload_priority:
  "map cr_priority (rulesPayload now seq index rules) =
     map (\<lambda>i. int i + 1) [index ..< index + length rules]"
proof (induction rules arbitrary: index)
  case Nil
  then show ?case by simp
next
  case (Cons rule rules)
  have "[index ..< index + Suc (length rules)] = index # [Suc index ..< Suc index + length rules]"
    by (subst upt_rec) simp
  with Cons show ?case by simp
qed

lemma priorities_upto: "map (\<lambda>i. int i + 1) [0 ..< n] = [1 .. int n]"
proof (induction n)
  case 0
  then show ?case by simp
next
  case (Suc n)
  have "[1 .. int (Suc n)] = [1 .. int n] @ [int n + 1]"
    by (simp add: upto_rec2 add.commute)
  with Suc show ?case by simp
qed

lemma rulesPayload_contiguous:
  "map cr_priority (rulesPayload now seq 0 rules) = [1 .. int (length rules)]"
  by (simp add: rulesPayload_priority priorities_upto)

lemma rulesPayload_stored:
  "map (\<lambda>row. (cr_all_indexers row \<noteq> 0, cr_trackers row)) (rulesPayload now seq index rules) =
     map (\<lambda>rule. (ri_allIndexers rule, stringify (normalizeTrackers (ri_trackers rule)))) rules"
  by (induction rules arbitrary: index) auto

lemma rulesPayload_rules:
  "map (\<lambda>row. (cr_priority row, cr_all_indexers row, cr_trackers row)) (rulesPayload now seq index rules) =
   map (\<lambda>row. (cr_priority row, cr_all_indexers row, cr_trackers row)) (rulesPayload now' seq' index rules)"
  by (induction rules arbitrary: index) auto

lemma saveRules_commits:
  assumes "length rules \<le> maxInsertRows"
  shows "saveRules now rules d =
     Inr (d\<lparr> tbl_conflict_rules := rulesPayload now (conflict_rules_seq d) 0 rules,
             conflict_rules_seq := conflict_rules_seq d + length rules \<rparr>)"
proof (cases "rules = []")
  case True
  then show ?thesis by (simp add: saveRules_def)
next
  case False
  have "distinct [1 .. int (length rules)]" by simp
  then have "distinct (map cr_priority (rulesPayload now (conflict_rules_seq d) 0 rules))"
    by (simp only: rulesPayload_contiguous)
  with False assms show ?thesis
    by (simp add: saveRules_def insertConflictRules_def rulesPayload_length)
qed

lemma saveRules_refused:
  assumes "maxInsertRows < length rules"
  shows "saveRules now rules d = Inl TooManyRows"
proof -
  from assms have "rules \<noteq> []" by auto
  with assms show ?thesis
    by (simp add: saveRules_def insertConflictRules_def rulesPayload_length)
qed

lemma parse_stringify: "parseTrackersJson (stringify xs) = xs"
proof -
  have "stringItems (map JStr xs) = xs"
    by (induction xs) auto
  then show ?thesis by (simp add: stringify_def)
qed

lemma rulesPayload_loaded:
  "map (\<lambda>row. \<lparr> rule_priority = cr_priority row,
                rule_allIndexers = (cr_all_indexers row \<noteq> 0),
                rule_trackers = normalizeTrackers (parseTrackersJson (cr_trackers row)) \<rparr>)
     (rulesPayload now seq index rules) =
   map (\<lambda>row. \<lparr> rule_priority = cr_priority row,
                rule_allIndexers = (cr_all_indexers row \<noteq> 0),
                rule_trackers = normalizeTrackers (parseTrackersJson (cr_trackers row)) \<rparr>)
     (rulesPayload now' seq' index rules)"
  by (induction rules arbitrary: index) auto

lemma rulesPayload_sorted: "sort_key cr_priority (rulesPayload now seq 0 rules) = rulesPayload now seq 0 rules"
proof -
  have "sorted [1 .. int (length rules)]" by simp
  then have "sorted (map cr_priority (rulesPayload now seq 0 rules))"
    by (simp only: rulesPayload_contiguous)
  then show ?thesis by (rule sort_key_id_if_sorted)
qed

text \<open>\<open>getConflictRules\<close> loads the rules in ascending order of priority.\<close>

lemma getConflictRules_sorted: "sorted (map rule_priority (getConflictRules d))"
proof -
  have "map rule_priority (getConflictRules d) = map cr_priority (sort_key cr_priority (tbl_conflict_rules d))"
    by (simp add: getConflictRules_def comp_def)
  then show ?thesis by (simp only: sorted_sort_key)
qed

text \<open>
  C6, as amended. Let \<open>s1\<close> be the stored state after \<open>saveRules(R)\<close> on any state
  \<open>d\<close>, and \<open>s2\<close> the stored state after a second \<open>saveRules(R)\<close>. When \<open>R\<close>
  has at most \<open>maxInsertRows\<close> rules, both transactions commit, and the rows stored in
  \<open>s1\<close> are exactly one row per rule of \<open>R\<close>, in list order, with the priorities
  \<open>1..|R|\<close>, whatever was stored before. When \<open>R\<close> has more rules, the insert throws
  and the transaction is rolled back: the stored state is still \<open>d\<close>. In both cases
  priorities that were contiguous from 1 stay so, and the second save stores the same
  priorities, flags and trackers as the first, so that \<open>getConflictRules\<close> loads the
  same rules (only the row ids and the timestamps are new).
\<close>

theorem saveRules_contiguous_idempotent:
  assumes "s1 = afterTransaction d (saveRules now1 R d)"
    and "s2 = afterTransaction s1 (saveRules now2 R s1)"
  shows "(length R \<le> maxInsertRows \<longrightarrow>
            saveRules now1 R d = Inr s1 \<and> saveRules now2 R s1 = Inr s2 \<and>
            length (tbl_conflict_rules s1) = length R \<and>
            map cr_priority (tbl_conflict_rules s1) = [1 .. int (length R)] \<and>
            map (\<lambda>row. (cr_all_indexers row \<noteq> 0, cr_trackers row)) (tbl_conflict_rules s1) =
              map (\<lambda>rule. (ri_allIndexers rule, stringify (normalizeTrackers (ri_trackers rule)))) R) \<and>
         (maxInsertRows < length R \<longrightarrow>
            saveRules now1 R d = Inl TooManyRows \<and> saveRules now2 R s1 = Inl TooManyRows \<and>
            s1 = d \<and> s2 = d) \<and>
         ((\<exists>n. map cr_priority (tbl_conflict_rules d) = [1 .. int n]) \<longrightarrow>
            (\<exists>m. map cr_priority (tbl_conflict_rules s1) = [1 .. int m])) \<and>
         map (\<lambda>row. (cr_priority row, cr_all_indexers row, cr_trackers row)) (tbl_conflict_rules s2) =
           map (\<lambda>row. (cr_priority row, cr_all_indexers row, cr_trackers row)) (tbl_conflict_rules s1) \<and>
         getConflictRules s2 = getConflictRules s1"
proof (cases "length R \<le> maxInsertRows")
  case True
  define d1 where "d1 = d\<lparr> tbl_conflict_rules := rulesPayload now1 (conflict_rules_seq d) 0 R,
                           conflict_rules_seq := conflict_rules_seq d + length R \<rparr>"
  define d2 where "d2 = d1\<lparr> tbl_conflict_rules := rulesPayload now2 (conflict_rules_seq d1) 0 R,
                            conflict_rules_seq := conflict_rules_seq d1 + length R \<rparr>"
  have c1: "saveRules now1 R d = Inr d1"
    unfolding d1_def using True by (rule saveRules_commits)
  have c2: "saveRules now2 R d1 = Inr d2"
    unfolding d2_def using True by (rule saveRules_commits)
  from c1 assms(1) have s1: "s1 = d1" by (simp add: afterTransaction_def)
  from c2 assms(2) s1 have s2: "s2 = d2" by (simp add: afterTransaction_def)
  have r1: "tbl_conflict_rules d1 = rulesPayload now1 (conflict_rules_seq d) 0 R"
    by (simp add: d1_def)
  have r2: "tbl_conflict_rules d2 = rulesPayload now2 (conflict_rules_seq d1) 0 R"
    by (simp add: d2_def)
  have len: "length (tbl_conflict_rules d1) = length R"
    by (simp add: r1 rulesPayload_length)
  have prio: "map cr_priority (tbl_conflict_rules d1) = [1 .. int (length R)]"
    by (simp only: r1 rulesPayload_contiguous)
  then have inv: "\<exists>m. map cr_priority (tbl_conflict_rules d1) = [1 .. int m]" by blast
  have stored: "map (\<lambda>row. (cr_all_indexers row \<noteq> 0, cr_trackers row)) (tbl_conflict_rules d1) =
       map (\<lambda>rule. (ri_allIndexers rule, stringify (normalizeTrackers (ri_trackers rule)))) R"
    by (simp only: r1 rulesPayload_stored)
  have same: "map (\<lambda>row. (cr_priority row, cr_all_indexers row, cr_trackers row)) (tbl_conflict_rules d2) =
       map (\<lambda>row. (cr_priority row, cr_all_indexers row, cr_trackers row)) (tbl_conflict_rules d1)"
    unfolding r1 r2 by (rule rulesPayload_rules)
  have loaded: "getConflictRules d2 = getConflictRules d1"
    unfolding getConflictRules_def r1 r2 rulesPayload_sorted by (rule rulesPayload_loaded)
  from True c1 c2 len prio inv stored same loaded show ?thesis
    unfolding s1 s2 by simp
next
  case False
  then have big: "maxInsertRows < length R" by simp
  have f1: "saveRules now1 R d = Inl TooManyRows" using big by (rule saveRules_refused)
  with assms(1) have s1: "s1 = d" by (simp add: afterTransaction_def)
  have f2: "saveRules now2 R d = Inl TooManyRows" using big by (rule saveRules_refused)
  with assms(2) s1 have s2: "s2 = d" by (simp add: afterTransaction_def)
  from False f1 f2 show ?thesis unfolding s1 s2 by simp
qed

theorem saveRules_contiguous_idempotent_witness:
  "length rulesAB \<le> maxInsertRows \<and>
   saveRules 100 rulesAB emptyDb = Inr (afterTransaction emptyDb (saveRules 100 rulesAB emptyDb)) \<and>
   map cr_priority (tbl_conflict_rules (afterTransaction emptyDb (saveRules 100 rulesAB emptyDb))) = [1, 2] \<and>
   map (\<lambda>row. (cr_all_indexers row \<noteq> 0, cr_trackers row))
     (tbl_conflict_rules (afterTransaction emptyDb (saveRules 100 rulesAB emptyDb))) =
     [(False, stringify [''a.example'', ''b.example'']), (True, stringify [])] \<and>
   getConflictRules
     (afterTransaction (afterTransaction emptyDb (saveRules 100 rulesAB emptyDb))
        (saveRules 200 rulesAB (afterTransaction emptyDb (saveRules 100 rulesAB emptyDb)))) =
     getConflictRules (afterTransaction emptyDb (saveRules 100 rulesAB emptyDb)) \<and>
   maxInsertRows < length manyRules \<and>
   afterTransaction emptyDb (saveRules 100 manyRules emptyDb) = emptyDb"
proof -
  have l: "length rulesAB = 2" "length rulesAB \<le> maxInsertRows"
    by (simp_all add: rulesAB_def maxInsertRows_def)
  have m: "maxInsertRows < length manyRules"
    by (simp add: manyRules_def maxInsertRows_def)
  have u: "[1 .. int (length rulesAB)] = [1, 2]"
    unfolding l(1) by (simp add: upto.simps)
  have n: "map (\<lambda>rule. (ri_allIndexers rule, stringify (normalizeTrackers (ri_trackers rule)))) rulesAB =
     [(False, stringify [''a.example'', ''b.example'']), (True, stringify [])]"
    by (simp add: rulesAB_def normalizeTrackers_def trim_def isWhiteSpace_def)
  note a = saveRules_contiguous_idempotent [OF refl refl, where R = rulesAB and d = emptyDb
      and ?now1.0 = 100 and ?now2.0 = 200]
  note b = saveRules_contiguous_idempotent [OF refl refl, where R = manyRules and d = emptyDb
      and ?now1.0 = 100 and ?now2.0 = 200]
  from a l(2) have a1: "saveRules 100 rulesAB emptyDb = Inr (afterTransaction emptyDb (saveRules 100 rulesAB emptyDb))"
    and a2: "map cr_priority (tbl_conflict_rules (afterTransaction emptyDb (saveRules 100 rulesAB emptyDb))) =
        [1 .. int (length rulesAB)]"
    and a3: "map (\<lambda>row. (cr_all_indexers row \<noteq> 0, cr_trackers row))
       (tbl_conflict_rules (afterTransaction emptyDb (saveRules 100 rulesAB emptyDb))) =
       map (\<lambda>rule. (ri_allIndexers rule, stringify (normalizeTrackers (ri_trackers rule)))) rulesAB"
    and a4: "getConflictRules
       (afterTransaction (afterTransaction emptyDb (saveRules 100 rulesAB emptyDb))
          (saveRules 200 rulesAB (afterTransaction emptyDb (saveRules 100 rulesAB emptyDb)))) =
       getConflictRules (afterTransaction emptyDb (saveRules 100 rulesAB emptyDb))"
    by blast+
  from b m have b1: "afterTransaction emptyDb (saveRules 100 manyRules emptyDb) = emptyDb"
    by blast
  from l(2) a1 a2 [unfolded u] a3 [unfolded n] a4 m b1 show ?thesis by blast
qed

text \<open>
  C6 as stated fails for a list of 501 rules: with the two rules of \<open>rulesAB\<close>
  stored, \<open>saveRules\<close> of the 501 rules throws, and the stored set is still the two
  rules with the priorities 1 and 2, not the 501 rules.
\<close>

theorem saveRules_many_rules_counterexample:
  "length manyRules = 501 \<and>
   saveRules 200 manyRules (afterTransaction emptyDb (saveRules 100 rulesAB emptyDb)) = Inl TooManyRows \<and>
   map cr_priority
     (tbl_conflict_rules
        (afterTransaction (afterTransaction emptyDb (saveRules 100 rulesAB emptyDb))
           (saveRules 200 manyRules (afterTransaction emptyDb (saveRules 100 rulesAB emptyDb))))) = [1, 2]"
proof -
  have l: "length manyRules = 501" by (simp add: manyRules_def)
  then have ne: "manyRules \<noteq> []" by auto
  have f: "saveRules 200 manyRules d = Inl TooManyRows" for d
    using ne by (simp add: saveRules_def insertConflictRules_def rulesPayload_length l maxInsertRows_def)
  have s: "map cr_priority (tbl_conflict_rules (afterTransaction emptyDb (saveRules 100 rulesAB emptyDb))) = [1, 2]"
    by (simp add: saveRules_def insertConflictRules_def rulesAB_def maxInsertRows_def emptyDb_def
        afterTransaction_def)
  from l f s show ?thesis by (simp add: afterTransaction_def)
qed

section \<open>Properties of the collision recorder\<close>

lemma find_by_key:
  "distinct (map f xs) \<Longrightarrow> x \<in> set xs \<Longrightarrow> find (\<lambda>y. f y = f x) xs = Some x"
proof (induction xs)
  case Nil
  then show ?case by simp
next
  case (Cons a xs)
  then show ?case by (cases "a = x") (auto simp: image_iff)
qed

lemma find_Some_holds: "find P xs = Some x \<Longrightarrow> x \<in> set xs \<and> P x"
  by (induction xs) (auto split: if_splits)

lemma find_None_none: "find P xs = None \<Longrightarrow> x \<in> set xs \<Longrightarrow> \<not> P x"
  by (induction xs) (auto split: if_splits)

lemma findEquivalent_sound:
  assumes "findEquivalent decisionId payload d = Some existing"
  shows "\<exists>dr sr infoHash.
           find (\<lambda>dr. de_id dr = decisionId) (tbl_decision d) = Some dr \<and>
           de_info_hash dr = Some infoHash \<and> infoHash \<noteq> [] \<and> de_searchee_id dr \<noteq> 0 \<and>
           find (\<lambda>sr. se_id sr = de_searchee_id dr) (tbl_searchee d) = Some sr \<and> se_name sr \<noteq> [] \<and>
           existing \<in> set (tbl_collisions d) \<and>
           equivalentCollision d decisionId infoHash (se_name sr) (co_candidate_trackers payload)
             (co_known_trackers payload) existing"
  using assms
  by (auto simp: findEquivalent_def truthy_def split: option.splits if_splits dest: find_Some_holds)

lemma findEquivalent_complete:
  assumes "find (\<lambda>dr. de_id dr = decisionId) (tbl_decision d) = Some dr"
    and "de_info_hash dr = Some infoHash" "infoHash \<noteq> []" "de_searchee_id dr \<noteq> 0"
    and "find (\<lambda>sr. se_id sr = de_searchee_id dr) (tbl_searchee d) = Some sr" "se_name sr \<noteq> []"
    and "c \<in> set (tbl_collisions d)"
    and "equivalentCollision d decisionId infoHash (se_name sr) (co_candidate_trackers payload)
             (co_known_trackers payload) c"
  shows "\<exists>existing. findEquivalent decisionId payload d = Some existing"
proof (cases "findEquivalent decisionId payload d")
  case None
  with assms(1-6) have "find (equivalentCollision d decisionId infoHash (se_name sr)
       (co_candidate_trackers payload) (co_known_trackers payload)) (tbl_collisions d) = None"
    by (simp add: findEquivalent_def truthy_def)
  from find_None_none [OF this assms(7)] assms(8) show ?thesis by simp
next
  case (Some a)
  then show ?thesis by simp
qed


lemma joinedCollision_cong:
  "tbl_decision d' = tbl_decision d \<Longrightarrow> tbl_searchee d' = tbl_searchee d \<Longrightarrow>
   co_decision_id c' = co_decision_id c \<Longrightarrow>
   joinedCollision d' c' infoHash n = joinedCollision d c infoHash n"
  by (simp add: joinedCollision_def)

lemma duplicateCollisions_cong:
  assumes "tbl_decision d' = tbl_decision d" "tbl_searchee d' = tbl_searchee d"
    and "co_decision_id c1' = co_decision_id c1" "co_decision_id c2' = co_decision_id c2"
    and "co_candidate_trackers c1' = co_candidate_trackers c1" "co_candidate_trackers c2' = co_candidate_trackers c2"
    and "co_known_trackers c1' = co_known_trackers c1" "co_known_trackers c2' = co_known_trackers c2"
  shows "duplicateCollisions d' c1' c2' = duplicateCollisions d c1 c2"
  unfolding duplicateCollisions_def
  by (simp add: assms joinedCollision_cong [OF assms(1,2,3)] joinedCollision_cong [OF assms(1,2,4)])

lemma joined_findEquivalent:
  assumes wf: "wellFormedKeys d" and j: "joinedCollision d c infoHash n"
    and cid: "co_decision_id c = decisionId"
  shows "findEquivalent decisionId payload d =
           find (equivalentCollision d decisionId infoHash n (co_candidate_trackers payload)
                   (co_known_trackers payload)) (tbl_collisions d)"
proof -
  from j obtain dr sr where dr: "dr \<in> set (tbl_decision d)" "de_id dr = decisionId"
      "de_info_hash dr = Some infoHash"
    and sr: "sr \<in> set (tbl_searchee d)" "de_searchee_id dr = se_id sr" "se_name sr = n"
    unfolding joinedCollision_def list_ex_iff cid by auto
  from wf have dd: "distinct (map de_id (tbl_decision d))" and ds: "distinct (map se_id (tbl_searchee d))"
    by (simp_all add: wellFormedKeys_def)
  from wf dr(1) dr(3) have ne: "infoHash \<noteq> []"
    by (auto simp: wellFormedKeys_def list_all_iff)
  from wf sr(1) have sne: "se_id sr \<noteq> 0" "se_name sr \<noteq> []"
    by (auto simp: wellFormedKeys_def list_all_iff)
  have f1: "find (\<lambda>y. de_id y = decisionId) (tbl_decision d) = Some dr"
    using find_by_key [OF dd dr(1)] dr(2) by simp
  have f2: "find (\<lambda>y. se_id y = de_searchee_id dr) (tbl_searchee d) = Some sr"
    using find_by_key [OF ds sr(1)] sr(2) by simp
  show ?thesis
    using f1 f2 dr(3) ne sne sr(2,3) by (simp add: findEquivalent_def truthy_def)
qed

lemma equivalent_id_nonzero:
  assumes wf: "wellFormedKeys d"
    and e: "equivalentCollision d decisionId infoHash n cand known c"
  shows "co_decision_id c \<noteq> 0"
proof -
  from e obtain dr where "dr \<in> set (tbl_decision d)" "co_decision_id c = de_id dr"
    unfolding equivalentCollision_def joinedCollision_def list_ex_iff by auto
  with wf show ?thesis by (auto simp: wellFormedKeys_def list_all_iff)
qed


lemma insertCollisionMerge_rows:
  assumes "c \<in> set (tbl_collisions (insertCollisionMerge payload d))"
  shows "(co_decision_id c \<noteq> co_decision_id payload \<and> c \<in> set (tbl_collisions d)) \<or>
         (co_decision_id c = co_decision_id payload \<and>
          co_candidate_trackers c = co_candidate_trackers payload \<and>
          co_known_trackers c = co_known_trackers payload)"
  using assms by (auto simp: insertCollisionMerge_def list_ex_iff split: if_splits)

lemma insertCollisionMerge_tables:
  "tbl_decision (insertCollisionMerge payload d) = tbl_decision d"
  "tbl_searchee (insertCollisionMerge payload d) = tbl_searchee d"
  by (simp_all add: insertCollisionMerge_def)

lemma dedup_rows:
  assumes "c \<in> set (tbl_collisions (deleteCollisionRecord decisionId (refreshCollision x ls ua d)))"
  shows "\<exists>c0 \<in> set (tbl_collisions d). co_decision_id c0 \<noteq> decisionId \<and>
           co_decision_id c = co_decision_id c0 \<and>
           co_candidate_trackers c = co_candidate_trackers c0 \<and>
           co_known_trackers c = co_known_trackers c0"
  using assms by (auto simp: deleteCollisionRecord_def refreshCollision_def split: if_splits)

lemma dedup_tables:
  "tbl_decision (deleteCollisionRecord decisionId (refreshCollision x ls ua d)) = tbl_decision d"
  "tbl_searchee (deleteCollisionRecord decisionId (refreshCollision x ls ua d)) = tbl_searchee d"
  by (simp_all add: deleteCollisionRecord_def refreshCollision_def)

lemma upsert_no_duplicates:
  assumes wf: "wellFormedKeys d"
    and pre: "\<forall>c1 \<in> set (tbl_collisions d). \<forall>c2 \<in> set (tbl_collisions d).
                co_decision_id c1 \<noteq> decisionId \<longrightarrow> co_decision_id c2 \<noteq> decisionId \<longrightarrow>
                \<not> duplicateCollisions d c1 c2"
    and c1: "c1 \<in> set (tbl_collisions (upsertCollisionRecord now decisionId tm firstSeen lastSeen d))"
    and c2: "c2 \<in> set (tbl_collisions (upsertCollisionRecord now decisionId tm firstSeen lastSeen d))"
  shows "\<not> duplicateCollisions (upsertCollisionRecord now decisionId tm firstSeen lastSeen d) c1 c2"
proof (cases "findEquivalent decisionId (collisionPayload now decisionId tm firstSeen lastSeen) d")
  case None
  let ?p = "collisionPayload now decisionId tm firstSeen lastSeen"
  let ?d' = "insertCollisionMerge ?p d"
  have up: "upsertCollisionRecord now decisionId tm firstSeen lastSeen d = ?d'"
    using None by (simp add: upsertCollisionRecord_def)
  have pid: "co_decision_id ?p = decisionId" by (simp add: collisionPayload_def)
  have key: "\<not> duplicateCollisions d a b"
    if a: "co_decision_id a = decisionId" "co_candidate_trackers a = co_candidate_trackers ?p"
          "co_known_trackers a = co_known_trackers ?p"
      and b: "co_decision_id b \<noteq> decisionId" "b \<in> set (tbl_collisions d)" for a b
  proof
    assume "duplicateCollisions d a b"
    then obtain infoHash n where ja: "joinedCollision d a infoHash n" and jb: "joinedCollision d b infoHash n"
      and same: "co_candidate_trackers a = co_candidate_trackers b" "co_known_trackers a = co_known_trackers b"
      unfolding duplicateCollisions_def by auto
    from joined_findEquivalent [OF wf ja a(1), of ?p] None
    have "find (equivalentCollision d decisionId infoHash n (co_candidate_trackers ?p)
                   (co_known_trackers ?p)) (tbl_collisions d) = None" by simp
    from find_None_none [OF this b(2)] jb same a b(1) show False
      by (simp add: equivalentCollision_def)
  qed
  have sym: "duplicateCollisions d a b = duplicateCollisions d b a" for a b
    unfolding duplicateCollisions_def by auto
  from c1 have r1: "(co_decision_id c1 \<noteq> decisionId \<and> c1 \<in> set (tbl_collisions d)) \<or>
         (co_decision_id c1 = decisionId \<and> co_candidate_trackers c1 = co_candidate_trackers ?p \<and>
          co_known_trackers c1 = co_known_trackers ?p)"
    unfolding up using insertCollisionMerge_rows [of c1 ?p d] pid by simp
  from c2 have r2: "(co_decision_id c2 \<noteq> decisionId \<and> c2 \<in> set (tbl_collisions d)) \<or>
         (co_decision_id c2 = decisionId \<and> co_candidate_trackers c2 = co_candidate_trackers ?p \<and>
          co_known_trackers c2 = co_known_trackers ?p)"
    unfolding up using insertCollisionMerge_rows [of c2 ?p d] pid by simp
  have dd: "duplicateCollisions ?d' c1 c2 = duplicateCollisions d c1 c2"
    by (rule duplicateCollisions_cong) (simp_all add: insertCollisionMerge_tables)
  have "\<not> duplicateCollisions d c1 c2"
  proof (cases "co_decision_id c1 = decisionId")
    case True
    note t1 = this
    show ?thesis
    proof (cases "co_decision_id c2 = decisionId")
      case True
      with t1 show ?thesis by (simp add: duplicateCollisions_def)
    next
      case False
      with r1 r2 t1 key [of c1 c2] show ?thesis by simp
    qed
  next
    case False
    note f1 = this
    show ?thesis
    proof (cases "co_decision_id c2 = decisionId")
      case True
      with r1 r2 f1 key [of c2 c1] sym [of c1 c2] show ?thesis by simp
    next
      case False
      with r1 r2 f1 pre show ?thesis by blast
    qed
  qed
  with dd up show ?thesis by simp
next
  case (Some existing)
  let ?p = "collisionPayload now decisionId tm firstSeen lastSeen"
  from findEquivalent_sound [OF Some] obtain infoHash n where
    "equivalentCollision d decisionId infoHash n (co_candidate_trackers ?p) (co_known_trackers ?p) existing"
    by blast
  from equivalent_id_nonzero [OF wf this] have nz: "co_decision_id existing \<noteq> 0" .
  let ?d' = "deleteCollisionRecord decisionId
               (refreshCollision (co_decision_id existing) (co_last_seen ?p) (co_updated_at ?p) d)"
  have up: "upsertCollisionRecord now decisionId tm firstSeen lastSeen d = ?d'"
    using Some nz by (simp add: upsertCollisionRecord_def Let_def)
  from c1 obtain a where a: "a \<in> set (tbl_collisions d)" "co_decision_id a \<noteq> decisionId"
      "co_decision_id c1 = co_decision_id a" "co_candidate_trackers c1 = co_candidate_trackers a"
      "co_known_trackers c1 = co_known_trackers a"
    unfolding up using dedup_rows [of c1] by blast
  from c2 obtain b where b: "b \<in> set (tbl_collisions d)" "co_decision_id b \<noteq> decisionId"
      "co_decision_id c2 = co_decision_id b" "co_candidate_trackers c2 = co_candidate_trackers b"
      "co_known_trackers c2 = co_known_trackers b"
    unfolding up using dedup_rows [of c2] by blast
  have "duplicateCollisions ?d' c1 c2 = duplicateCollisions d a b"
    by (rule duplicateCollisions_cong) (simp_all add: dedup_tables a b)
  moreover from pre a(1,2) b(1,2) have "\<not> duplicateCollisions d a b" by blast
  ultimately show ?thesis using up by simp
qed

lemma insertCollisionMerge_existing:
  assumes "list_ex (\<lambda>c. co_decision_id c = co_decision_id payload) (tbl_collisions d)"
  shows "insertCollisionMerge payload d =
           d\<lparr> tbl_collisions :=
                map (\<lambda>c. if co_decision_id c = co_decision_id payload
                          then c\<lparr> co_candidate_trackers := co_candidate_trackers payload,
                                  co_known_trackers := co_known_trackers payload,
                                  co_last_seen := co_last_seen payload,
                                  co_updated_at := co_updated_at payload \<rparr>
                          else c)
                  (tbl_collisions d) \<rparr>"
  using assms by (simp add: insertCollisionMerge_def)

lemma upsert_without_equivalent:
  assumes "\<forall>existing. findEquivalent decisionId (collisionPayload now decisionId tm firstSeen lastSeen) d = Some existing
             \<longrightarrow> co_decision_id existing = 0"
  shows "upsertCollisionRecord now decisionId tm firstSeen lastSeen d =
           insertCollisionMerge (collisionPayload now decisionId tm firstSeen lastSeen) d"
  using assms by (auto simp: upsertCollisionRecord_def Let_def split: option.splits)

text \<open>
  C10. When \<open>upsertCollisionRecord\<close> reaches the insert with on-conflict merge (no
  equivalent row of another decision was found) and the decision already has a collision
  row, the rows of that decision take the new \<open>candidate_trackers\<close>,
  \<open>known_trackers\<close>, \<open>last_seen\<close> and \<open>updated_at\<close>; every other column of every
  row, \<open>first_seen\<close> in particular, and every other table stay as they were.
\<close>

theorem upsertCollisionRecord_merge_keeps_first_seen:
  fixes d :: db
  assumes "\<forall>existing. findEquivalent decisionId (collisionPayload now decisionId tm firstSeen lastSeen) d = Some existing
             \<longrightarrow> co_decision_id existing = 0"
    and "list_ex (\<lambda>c. co_decision_id c = decisionId) (tbl_collisions d)"
  shows "upsertCollisionRecord now decisionId tm firstSeen lastSeen d =
           d\<lparr> tbl_collisions :=
                map (\<lambda>c. if co_decision_id c = decisionId
                          then c\<lparr> co_candidate_trackers := stringify (candidateTrackers tm),
                                  co_known_trackers := stringify (knownTrackers tm),
                                  co_last_seen := lastSeen,
                                  co_updated_at := now \<rparr>
                          else c)
                  (tbl_collisions d) \<rparr> \<and>
         map co_first_seen (tbl_collisions (upsertCollisionRecord now decisionId tm firstSeen lastSeen d)) =
           map co_first_seen (tbl_collisions d) \<and>
         map co_decision_id (tbl_collisions (upsertCollisionRecord now decisionId tm firstSeen lastSeen d)) =
           map co_decision_id (tbl_collisions d)"
proof -
  let ?p = "collisionPayload now decisionId tm firstSeen lastSeen"
  have ex: "list_ex (\<lambda>c. co_decision_id c = co_decision_id ?p) (tbl_collisions d)"
    using assms(2) by (simp add: collisionPayload_def)
  have "upsertCollisionRecord now decisionId tm firstSeen lastSeen d = insertCollisionMerge ?p d"
    using assms(1) by (rule upsert_without_equivalent)
  also have "\<dots> = d\<lparr> tbl_collisions :=
                map (\<lambda>c. if co_decision_id c = decisionId
                          then c\<lparr> co_candidate_trackers := stringify (candidateTrackers tm),
                                  co_known_trackers := stringify (knownTrackers tm),
                                  co_last_seen := lastSeen,
                                  co_updated_at := now \<rparr>
                          else c)
                  (tbl_collisions d) \<rparr>"
    unfolding insertCollisionMerge_existing [OF ex] by (simp add: collisionPayload_def)
  finally have eq: "upsertCollisionRecord now decisionId tm firstSeen lastSeen d =
           d\<lparr> tbl_collisions :=
                map (\<lambda>c. if co_decision_id c = decisionId
                          then c\<lparr> co_candidate_trackers := stringify (candidateTrackers tm),
                                  co_known_trackers := stringify (knownTrackers tm),
                                  co_last_seen := lastSeen,
                                  co_updated_at := now \<rparr>
                          else c)
                  (tbl_collisions d) \<rparr>" .
  have fs: "map co_first_seen (tbl_collisions (upsertCollisionRecord now decisionId tm firstSeen lastSeen d)) =
           map co_first_seen (tbl_collisions d)"
    unfolding eq by (simp add: comp_def if_distrib [of co_first_seen] cong: if_cong)
  have ids: "map co_decision_id (tbl_collisions (upsertCollisionRecord now decisionId tm firstSeen lastSeen d)) =
           map co_decision_id (tbl_collisions d)"
    unfolding eq by (simp add: comp_def if_distrib [of co_decision_id] cong: if_cong)
  from eq fs ids show ?thesis by blast
qed

theorem upsertCollisionRecord_merge_keeps_first_seen_witness:
  "findEquivalent 1 (collisionPayload 31 1 mismatchAB 99 30) collisionDb = None \<and>
   list_ex (\<lambda>c. co_decision_id c = 1) (tbl_collisions collisionDb) \<and>
   map co_first_seen (tbl_collisions collisionDb) = [10] \<and>
   map co_first_seen (tbl_collisions (upsertCollisionRecord 31 1 mismatchAB 99 30 collisionDb)) = [10] \<and>
   map co_last_seen (tbl_collisions (upsertCollisionRecord 31 1 mismatchAB 99 30 collisionDb)) = [30]"
proof -
  have h1: "findEquivalent 1 (collisionPayload 31 1 mismatchAB 99 30) collisionDb = None"
    by (simp add: findEquivalent_def collisionDb_def emptyDb_def truthy_def equivalentCollision_def joinedCollision_def
        collisionPayload_def)
  have h2: "list_ex (\<lambda>c. co_decision_id c = 1) (tbl_collisions collisionDb)"
    by (simp add: collisionDb_def)
  have h3: "map co_first_seen (tbl_collisions collisionDb) = [10]"
    by (simp add: collisionDb_def)
  from upsertCollisionRecord_merge_keeps_first_seen
         [where d = collisionDb and decisionId = 1 and now = 31 and tm = mismatchAB
            and firstSeen = 99 and lastSeen = 30]
       h1 h2
  have "upsertCollisionRecord 31 1 mismatchAB 99 30 collisionDb =
           collisionDb\<lparr> tbl_collisions :=
                map (\<lambda>c. if co_decision_id c = 1
                          then c\<lparr> co_candidate_trackers := stringify (candidateTrackers mismatchAB),
                                  co_known_trackers := stringify (knownTrackers mismatchAB),
                                  co_last_seen := 30,
                                  co_updated_at := 31 \<rparr>
                          else c)
                  (tbl_collisions collisionDb) \<rparr>"
    by simp
  then have h4: "map co_first_seen (tbl_collisions (upsertCollisionRecord 31 1 mismatchAB 99 30 collisionDb)) = [10]"
    and h5: "map co_last_seen (tbl_collisions (upsertCollisionRecord 31 1 mismatchAB 99 30 collisionDb)) = [30]"
    by (simp_all add: collisionDb_def)
  from h1 h2 h3 h4 h5 show ?thesis by blast
qed

text \<open>
  C7. In a database with well-formed keys, let the decision \<open>decisionId\<close> have the
  info-hash \<open>infoHash\<close> and the searchee \<open>sr\<close>. When some collision row \<open>c\<close> of
  another decision with the same info-hash and searchee name carries the two payloads
  about to be written, \<open>upsertCollisionRecord\<close> finds such a row \<open>existing\<close>, sets the
  \<open>last_seen\<close> and \<open>updated_at\<close> of the rows of its decision, deletes the rows of
  \<open>decisionId\<close> and inserts nothing. As a consequence the recorder never leaves
  duplicates: when no two rows of decisions other than \<open>decisionId\<close> are duplicates
  before the call, no two rows at all are duplicates after it.
\<close>

theorem upsertCollisionRecord_deduplicates:
  fixes d :: db
  assumes wf: "wellFormedKeys d"
  shows "(dr \<in> set (tbl_decision d) \<and> de_id dr = decisionId \<and> de_info_hash dr = Some infoHash \<and>
          sr \<in> set (tbl_searchee d) \<and> se_id sr = de_searchee_id dr \<and>
          c \<in> set (tbl_collisions d) \<and>
          equivalentCollision d decisionId infoHash (se_name sr)
            (stringify (candidateTrackers tm)) (stringify (knownTrackers tm)) c
          \<longrightarrow>
          (\<exists>existing \<in> set (tbl_collisions d).
              equivalentCollision d decisionId infoHash (se_name sr)
                (stringify (candidateTrackers tm)) (stringify (knownTrackers tm)) existing \<and>
              upsertCollisionRecord now decisionId tm firstSeen lastSeen d =
                d\<lparr> tbl_collisions :=
                     filter (\<lambda>r. co_decision_id r \<noteq> decisionId)
                       (map (\<lambda>r. if co_decision_id r = co_decision_id existing
                                 then r\<lparr> co_last_seen := lastSeen, co_updated_at := now \<rparr>
                                 else r)
                          (tbl_collisions d)) \<rparr>)) \<and>
         ((\<forall>c1 \<in> set (tbl_collisions d). \<forall>c2 \<in> set (tbl_collisions d).
              co_decision_id c1 \<noteq> decisionId \<longrightarrow> co_decision_id c2 \<noteq> decisionId \<longrightarrow>
              \<not> duplicateCollisions d c1 c2)
          \<longrightarrow>
          (\<forall>c1 \<in> set (tbl_collisions (upsertCollisionRecord now decisionId tm firstSeen lastSeen d)).
           \<forall>c2 \<in> set (tbl_collisions (upsertCollisionRecord now decisionId tm firstSeen lastSeen d)).
              \<not> duplicateCollisions (upsertCollisionRecord now decisionId tm firstSeen lastSeen d) c1 c2))"
proof (intro conjI impI)
  let ?p = "collisionPayload now decisionId tm firstSeen lastSeen"
  let ?cand = "stringify (candidateTrackers tm)"
  let ?known = "stringify (knownTrackers tm)"
  assume h: "dr \<in> set (tbl_decision d) \<and> de_id dr = decisionId \<and> de_info_hash dr = Some infoHash \<and>
          sr \<in> set (tbl_searchee d) \<and> se_id sr = de_searchee_id dr \<and>
          c \<in> set (tbl_collisions d) \<and>
          equivalentCollision d decisionId infoHash (se_name sr) ?cand ?known c"
  have pc: "co_candidate_trackers ?p = ?cand" "co_known_trackers ?p = ?known"
    "co_last_seen ?p = lastSeen" "co_updated_at ?p = now"
    by (simp_all add: collisionPayload_def)
  from wf have dd: "distinct (map de_id (tbl_decision d))" and ds: "distinct (map se_id (tbl_searchee d))"
    by (simp_all add: wellFormedKeys_def)
  from wf h have ne: "infoHash \<noteq> []" "se_id sr \<noteq> 0" "se_name sr \<noteq> []"
    by (auto simp: wellFormedKeys_def list_all_iff)
  have f1: "find (\<lambda>y. de_id y = decisionId) (tbl_decision d) = Some dr"
    using find_by_key [OF dd, of dr] h by auto
  have f2: "find (\<lambda>y. se_id y = de_searchee_id dr) (tbl_searchee d) = Some sr"
    using find_by_key [OF ds, of sr] h by auto
  from h ne have "\<exists>existing. findEquivalent decisionId ?p d = Some existing"
    by (intro findEquivalent_complete [OF f1 _ _ _ f2, of infoHash c]) (simp_all add: pc)
  then obtain existing where ex: "findEquivalent decisionId ?p d = Some existing" ..
  from ex f1 f2 h ne have found: "find (equivalentCollision d decisionId infoHash (se_name sr) ?cand ?known)
      (tbl_collisions d) = Some existing"
    by (simp add: findEquivalent_def truthy_def pc)
  from find_Some_holds [OF found] have mem: "existing \<in> set (tbl_collisions d)"
    and eqv: "equivalentCollision d decisionId infoHash (se_name sr) ?cand ?known existing"
    by simp_all
  from equivalent_id_nonzero [OF wf eqv] have nz: "co_decision_id existing \<noteq> 0" .
  have "upsertCollisionRecord now decisionId tm firstSeen lastSeen d =
          d\<lparr> tbl_collisions :=
               filter (\<lambda>r. co_decision_id r \<noteq> decisionId)
                 (map (\<lambda>r. if co_decision_id r = co_decision_id existing
                           then r\<lparr> co_last_seen := lastSeen, co_updated_at := now \<rparr>
                           else r)
                    (tbl_collisions d)) \<rparr>"
    using ex nz
    by (simp add: upsertCollisionRecord_def Let_def pc deleteCollisionRecord_def refreshCollision_def)
  with mem eqv
  show "\<exists>existing \<in> set (tbl_collisions d).
              equivalentCollision d decisionId infoHash (se_name sr) ?cand ?known existing \<and>
              upsertCollisionRecord now decisionId tm firstSeen lastSeen d =
                d\<lparr> tbl_collisions :=
                     filter (\<lambda>r. co_decision_id r \<noteq> decisionId)
                       (map (\<lambda>r. if co_decision_id r = co_decision_id existing
                                 then r\<lparr> co_last_seen := lastSeen, co_updated_at := now \<rparr>
                                 else r)
                          (tbl_collisions d)) \<rparr>"
    by blast
next
  assume pre: "\<forall>c1 \<in> set (tbl_collisions d). \<forall>c2 \<in> set (tbl_collisions d).
              co_decision_id c1 \<noteq> decisionId \<longrightarrow> co_decision_id c2 \<noteq> decisionId \<longrightarrow>
              \<not> duplicateCollisions d c1 c2"
  show "\<forall>c1 \<in> set (tbl_collisions (upsertCollisionRecord now decisionId tm firstSeen lastSeen d)).
        \<forall>c2 \<in> set (tbl_collisions (upsertCollisionRecord now decisionId tm firstSeen lastSeen d)).
              \<not> duplicateCollisions (upsertCollisionRecord now decisionId tm firstSeen lastSeen d) c1 c2"
    using upsert_no_duplicates [OF wf pre] by blast
qed

lemma wf_collisionDb: "wellFormedKeys collisionDb"
  by (simp add: wellFormedKeys_def collisionDb_def emptyDb_def)

theorem upsertCollisionRecord_deduplicates_witness:
  "wellFormedKeys collisionDb \<and>
   tbl_collisions (upsertCollisionRecord 31 2 mismatchAB 20 30 collisionDb) =
     [\<lparr> co_decision_id = 1, co_candidate_trackers = stringify [''a.example''],
        co_known_trackers = stringify [''b.example''],
        co_first_seen = 10, co_last_seen = 30, co_updated_at = 31 \<rparr>] \<and>
   list_all (\<lambda>c1. list_all (\<lambda>c2.
       \<not> duplicateCollisions (upsertCollisionRecord 31 2 mismatchAB 20 30 collisionDb) c1 c2)
         (tbl_collisions (upsertCollisionRecord 31 2 mismatchAB 20 30 collisionDb)))
     (tbl_collisions (upsertCollisionRecord 31 2 mismatchAB 20 30 collisionDb))"
proof -
  let ?row = "\<lparr> co_decision_id = 1, co_candidate_trackers = stringify [''a.example''],
        co_known_trackers = stringify [''b.example''],
        co_first_seen = 10, co_last_seen = 10, co_updated_at = 10 \<rparr>"
  let ?dr = "\<lparr> de_id = 2, de_searchee_id = 1, de_guid = ''g2'', de_info_hash = Some ''h1'',
              de_decision = INFO_HASH_ALREADY_EXISTS_ANOTHER_TRACKER, de_first_seen = Some 20,
              de_last_seen = 20, de_fuzzy_size_factor = 2 / 100 \<rparr>"
  let ?sr = "\<lparr> se_id = 1, se_name = ''Show.S01'' \<rparr>"
  note wf = wf_collisionDb
  note inst = upsertCollisionRecord_deduplicates [OF wf, where decisionId = 2 and now = 31
      and tm = mismatchAB and firstSeen = 20 and lastSeen = 30 and dr = ?dr and sr = ?sr
      and c = ?row and infoHash = "''h1''"]
  have hyp: "?dr \<in> set (tbl_decision collisionDb) \<and> de_id ?dr = 2 \<and> de_info_hash ?dr = Some ''h1'' \<and>
          ?sr \<in> set (tbl_searchee collisionDb) \<and> se_id ?sr = de_searchee_id ?dr \<and>
          ?row \<in> set (tbl_collisions collisionDb) \<and>
          equivalentCollision collisionDb 2 ''h1'' (se_name ?sr)
            (stringify (candidateTrackers mismatchAB)) (stringify (knownTrackers mismatchAB)) ?row"
    by (simp add: collisionDb_def emptyDb_def equivalentCollision_def joinedCollision_def mismatchAB_def)
  from inst hyp have "\<exists>existing \<in> set (tbl_collisions collisionDb).
      upsertCollisionRecord 31 2 mismatchAB 20 30 collisionDb =
                collisionDb\<lparr> tbl_collisions :=
                     filter (\<lambda>r. co_decision_id r \<noteq> 2)
                       (map (\<lambda>r. if co_decision_id r = co_decision_id existing
                                 then r\<lparr> co_last_seen := 30, co_updated_at := 31 \<rparr>
                                 else r)
                          (tbl_collisions collisionDb)) \<rparr>"
    by blast
  then have rows: "tbl_collisions (upsertCollisionRecord 31 2 mismatchAB 20 30 collisionDb) =
     [\<lparr> co_decision_id = 1, co_candidate_trackers = stringify [''a.example''],
        co_known_trackers = stringify [''b.example''],
        co_first_seen = 10, co_last_seen = 30, co_updated_at = 31 \<rparr>]"
    by (simp add: collisionDb_def)
  have pre: "\<forall>c1 \<in> set (tbl_collisions collisionDb). \<forall>c2 \<in> set (tbl_collisions collisionDb).
              co_decision_id c1 \<noteq> 2 \<longrightarrow> co_decision_id c2 \<noteq> 2 \<longrightarrow>
              \<not> duplicateCollisions collisionDb c1 c2"
    by (simp add: collisionDb_def duplicateCollisions_def)
  from inst pre have "\<forall>c1 \<in> set (tbl_collisions (upsertCollisionRecord 31 2 mismatchAB 20 30 collisionDb)).
           \<forall>c2 \<in> set (tbl_collisions (upsertCollisionRecord 31 2 mismatchAB 20 30 collisionDb)).
              \<not> duplicateCollisions (upsertCollisionRecord 31 2 mismatchAB 20 30 collisionDb) c1 c2"
    by blast
  then have nodup: "list_all (\<lambda>c1. list_all (\<lambda>c2.
       \<not> duplicateCollisions (upsertCollisionRecord 31 2 mismatchAB 20 30 collisionDb) c1 c2)
         (tbl_collisions (upsertCollisionRecord 31 2 mismatchAB 20 30 collisionDb)))
     (tbl_collisions (upsertCollisionRecord 31 2 mismatchAB 20 30 collisionDb))"
    by (simp add: list_all_iff)
  from wf rows nodup show ?thesis by blast
qed

section \<open>Properties of the private-collision policy\<close>

lemma canRecord_iff:
  "canRecordPrivateCollision m \<longleftrightarrow> (\<exists>meta. m = Some meta \<and> mf_raw_info_private meta = Some (BInt 1))"
  by (auto simp: canRecordPrivateCollision_def getTorrentPrivateFlag_def
      split: option.splits bvalue.splits)

section \<open>Properties of the conflict resolver\<close>

lemma getTrackerPriorityFrom_Some:
  "getTrackerPriorityFrom k (normalizeTrackerKey t) rules ix = Some i \<longleftrightarrow>
     k \<le> i \<and> i - k < length rules \<and> ruleMatches (rules ! (i - k)) ix t \<and>
     (\<forall>j < i - k. \<not> ruleMatches (rules ! j) ix t)"
proof (induction rules arbitrary: k)
  case Nil
  then show ?case by simp
next
  case (Cons rule rules)
  show ?case
  proof (cases "ruleMatches rule ix t")
    case True
    then have "getTrackerPriorityFrom k (normalizeTrackerKey t) (rule # rules) ix = Some k"
      by (auto simp: ruleMatches_def)
    moreover have "(k \<le> i \<and> i - k < length (rule # rules) \<and> ruleMatches ((rule # rules) ! (i - k)) ix t \<and>
       (\<forall>j < i - k. \<not> ruleMatches ((rule # rules) ! j) ix t)) \<longleftrightarrow> i = k"
    proof
      assume a: "k \<le> i \<and> i - k < length (rule # rules) \<and> ruleMatches ((rule # rules) ! (i - k)) ix t \<and>
       (\<forall>j < i - k. \<not> ruleMatches ((rule # rules) ! j) ix t)"
      show "i = k"
      proof (rule ccontr)
        assume "i \<noteq> k"
        with a have "0 < i - k" by simp
        with a have "\<not> ruleMatches ((rule # rules) ! 0) ix t" by blast
        with True show False by simp
      qed
    next
      assume "i = k"
      with True show "k \<le> i \<and> i - k < length (rule # rules) \<and> ruleMatches ((rule # rules) ! (i - k)) ix t \<and>
       (\<forall>j < i - k. \<not> ruleMatches ((rule # rules) ! j) ix t)" by simp
    qed
    ultimately show ?thesis by auto
  next
    case False
    then have step: "getTrackerPriorityFrom k (normalizeTrackerKey t) (rule # rules) ix =
        getTrackerPriorityFrom (Suc k) (normalizeTrackerKey t) rules ix"
      by (auto simp: ruleMatches_def)
    have "(Suc k \<le> i \<and> i - Suc k < length rules \<and> ruleMatches (rules ! (i - Suc k)) ix t \<and>
            (\<forall>j < i - Suc k. \<not> ruleMatches (rules ! j) ix t)) \<longleftrightarrow>
          (k \<le> i \<and> i - k < length (rule # rules) \<and> ruleMatches ((rule # rules) ! (i - k)) ix t \<and>
            (\<forall>j < i - k. \<not> ruleMatches ((rule # rules) ! j) ix t))" (is "?L \<longleftrightarrow> ?R")
    proof
      assume l: ?L
      then have "Suc k \<le> i" by blast
      then have ik: "i - k = Suc (i - Suc k)" by arith
      have "\<not> ruleMatches ((rule # rules) ! j) ix t" if "j < i - k" for j
      proof (cases j)
        case 0
        with False show ?thesis by simp
      next
        case (Suc j')
        with that ik l show ?thesis by simp
      qed
      with l ik show ?R by simp
    next
      assume r: ?R
      have "i \<noteq> k"
      proof
        assume "i = k"
        with r False show False by simp
      qed
      moreover from r have "k \<le> i" by blast
      ultimately have ki: "Suc k \<le> i" and ik: "i - k = Suc (i - Suc k)" by arith+
      have "\<not> ruleMatches (rules ! j) ix t" if "j < i - Suc k" for j
      proof -
        from that ik have "Suc j < i - k" by simp
        with r have "\<not> ruleMatches ((rule # rules) ! Suc j) ix t" by blast
        then show ?thesis by simp
      qed
      with r ki ik show ?L by simp
    qed
    with step Cons.IH [of "Suc k"] show ?thesis by simp
  qed
qed

lemma getTrackerPriority_first_match:
  "getTrackerPriority t rules ix = Some i \<longleftrightarrow>
     i < length rules \<and> ruleMatches (rules ! i) ix t \<and> (\<forall>j < i. \<not> ruleMatches (rules ! j) ix t)"
  using getTrackerPriorityFrom_Some [of 0 t rules ix i] by (simp add: getTrackerPriority_def)

lemma bestPriorityLoop_None:
  "bestPriorityLoop acc ts rules ix = None \<longleftrightarrow>
     acc = None \<and> (\<forall>t \<in> set ts. getTrackerPriority t rules ix = None)"
  by (induction ts arbitrary: acc) (auto split: option.splits)

lemma bestPriorityLoop_Some:
  "bestPriorityLoop acc ts rules ix = Some c \<Longrightarrow>
     (acc = Some c \<or> (\<exists>t \<in> set ts. getTrackerPriority t rules ix = Some c)) \<and>
     (\<forall>b. acc = Some b \<longrightarrow> c \<le> b) \<and>
     (\<forall>t \<in> set ts. \<forall>p. getTrackerPriority t rules ix = Some p \<longrightarrow> c \<le> p)"
proof (induction ts arbitrary: acc)
  case Nil
  then show ?case by simp
next
  case (Cons t ts)
  show ?case
  proof (cases "getTrackerPriority t rules ix")
    case None
    with Cons.prems have "bestPriorityLoop acc ts rules ix = Some c" by simp
    from Cons.IH [OF this] None show ?thesis by auto
  next
    case (Some p)
    let ?acc = "Some (case acc of None \<Rightarrow> p | Some b \<Rightarrow> min b p)"
    from Cons.prems Some have "bestPriorityLoop ?acc ts rules ix = Some c" by simp
    from Cons.IH [OF this] Some show ?thesis
      by (cases acc) (auto simp: min_def split: if_splits)
  qed
qed

lemma getBestTrackerPriority_min:
  "(getBestTrackerPriority ts rules ix = None \<longleftrightarrow> (\<forall>t \<in> set ts. getTrackerPriority t rules ix = None)) \<and>
   (getBestTrackerPriority ts rules ix = Some c \<longrightarrow>
      (\<exists>t \<in> set ts. getTrackerPriority t rules ix = Some c) \<and>
      (\<forall>t \<in> set ts. \<forall>p. getTrackerPriority t rules ix = Some p \<longrightarrow> c \<le> p))"
  using bestPriorityLoop_None [of None ts rules ix] bestPriorityLoop_Some [of None ts rules ix c]
  by (auto simp: getBestTrackerPriority_def)

lemma getBest_no_rules: "getBestTrackerPriority ts [] ix = None"
  using getBestTrackerPriority_min [of ts "[]" ix] by (simp add: getTrackerPriority_def)

lemma resolveConflictRules_char:
  "resolveConflictRules clients infoHash cts w =
     (let rules = getConflictRules (w_db w);
          ix = getIndexerTrackerSet (w_db w);
          existing = concat (map (\<lambda>row. parseTrackersJson (cs_trackers row))
                       (filter (\<lambda>r. cs_info_hash r = infoHash) (tbl_client_searchee (w_db w))));
          incumbent = (case getBestTrackerPriority existing rules ix of None \<Rightarrow> length rules | Some p \<Rightarrow> p)
      in
      case getBestTrackerPriority cts rules ix of
        None \<Rightarrow> (False, w)
      | Some c \<Rightarrow> if c < incumbent then removeTorrentFromClients clients infoHash w else (False, w))"
  by (auto simp: resolveConflictRules_def Let_def getBest_no_rules removeTorrentFromClients_def
      split: option.splits)

text \<open>
  C3. With \<open>rules\<close> the stored rules in priority order and \<open>incumbent\<close> the best
  priority of the trackers of the client rows of the info-hash, or the number of rules
  when none of them matches a rule: the priority of a tracker is the index of the first
  rule that matches it; the best priority of a list of trackers is the least of their
  priorities, and there is none when no tracker has one (always so when there are no
  rules); and \<open>resolveConflictRules\<close> returns false without any request and with
  the state unchanged unless the candidate has a best priority strictly less than
  \<open>incumbent\<close>, in which case its result is that of the removal from the clients.
\<close>

theorem resolveConflictRules_strict_priority:
  assumes "rules = getConflictRules (w_db w)"
    and "ix = getIndexerTrackerSet (w_db w)"
    and "existing = concat (map (\<lambda>row. parseTrackersJson (cs_trackers row))
                       (filter (\<lambda>r. cs_info_hash r = infoHash) (tbl_client_searchee (w_db w))))"
    and "incumbent = (case getBestTrackerPriority existing rules ix of None \<Rightarrow> length rules | Some p \<Rightarrow> p)"
  shows "(getTrackerPriority t rules ix = Some i \<longleftrightarrow>
            i < length rules \<and> ruleMatches (rules ! i) ix t \<and> (\<forall>j < i. \<not> ruleMatches (rules ! j) ix t)) \<and>
         (getBestTrackerPriority ts rules ix = None \<longleftrightarrow>
            (\<forall>t \<in> set ts. getTrackerPriority t rules ix = None)) \<and>
         (getBestTrackerPriority ts rules ix = Some c \<longrightarrow>
            (\<exists>t \<in> set ts. getTrackerPriority t rules ix = Some c) \<and>
            (\<forall>t \<in> set ts. \<forall>p. getTrackerPriority t rules ix = Some p \<longrightarrow> c \<le> p)) \<and>
         (rules = [] \<longrightarrow> getBestTrackerPriority cts rules ix = None) \<and>
         resolveConflictRules clients infoHash cts w =
           (case getBestTrackerPriority cts rules ix of
              None \<Rightarrow> (False, w)
            | Some candidatePriority \<Rightarrow>
                if candidatePriority < incumbent then removeTorrentFromClients clients infoHash w
                else (False, w))"
proof -
  have a: "getTrackerPriority t rules ix = Some i \<longleftrightarrow>
            i < length rules \<and> ruleMatches (rules ! i) ix t \<and> (\<forall>j < i. \<not> ruleMatches (rules ! j) ix t)"
    by (rule getTrackerPriority_first_match)
  have b: "getBestTrackerPriority ts rules ix = None \<longleftrightarrow>
            (\<forall>t \<in> set ts. getTrackerPriority t rules ix = None)"
    using getBestTrackerPriority_min [of ts rules ix c] by blast
  have c: "getBestTrackerPriority ts rules ix = Some c \<longrightarrow>
            (\<exists>t \<in> set ts. getTrackerPriority t rules ix = Some c) \<and>
            (\<forall>t \<in> set ts. \<forall>p. getTrackerPriority t rules ix = Some p \<longrightarrow> c \<le> p)"
    using getBestTrackerPriority_min [of ts rules ix c] by blast
  have d: "rules = [] \<longrightarrow> getBestTrackerPriority cts rules ix = None"
    by (simp add: getBest_no_rules)
  have e: "resolveConflictRules clients infoHash cts w =
           (case getBestTrackerPriority cts rules ix of
              None \<Rightarrow> (False, w)
            | Some candidatePriority \<Rightarrow>
                if candidatePriority < incumbent then removeTorrentFromClients clients infoHash w
                else (False, w))"
    unfolding assms resolveConflictRules_char [of clients infoHash cts w] by (simp add: Let_def)
  from a b c d e show ?thesis by blast
qed

lemma conflict_rules_loaded:
  "getConflictRules conflictDb =
     [\<lparr> rule_priority = 1, rule_allIndexers = False, rule_trackers = [''a.example''] \<rparr>,
      \<lparr> rule_priority = 2, rule_allIndexers = True, rule_trackers = [] \<rparr>]"
  by (simp add: getConflictRules_def conflictDb_def emptyDb_def normalizeTrackers_def stringify_def
      trim_def isWhiteSpace_def)

lemma conflict_indexers: "getIndexerTrackerSet conflictDb = {''b.example''}"
  by (simp add: getIndexerTrackerSet_def conflictDb_def emptyDb_def stringify_def normalizeTrackerKey_def
      trim_def isWhiteSpace_def toLowerCase_def lowerChar_def)

lemma key_A: "normalizeTrackerKey '' A.Example '' = ''a.example''"
  by (simp add: normalizeTrackerKey_def trim_def isWhiteSpace_def toLowerCase_def lowerChar_def)


lemma best_conflict:
  "getBestTrackerPriority ['' A.Example ''] (getConflictRules conflictDb) (getIndexerTrackerSet conflictDb) = Some 0"
  "getBestTrackerPriority [''b.example''] (getConflictRules conflictDb) (getIndexerTrackerSet conflictDb) = Some 1"
  "getBestTrackerPriority [''c.example''] (getConflictRules conflictDb) (getIndexerTrackerSet conflictDb) = None"
  by (simp_all add: conflict_rules_loaded conflict_indexers getBestTrackerPriority_def getTrackerPriority_def
      normalizeTrackerKey_def trim_def isWhiteSpace_def toLowerCase_def lowerChar_def)

lemma existing_conflict:
  "concat (map (\<lambda>row. parseTrackersJson (cs_trackers row))
       (filter (\<lambda>r. cs_info_hash r = ''h1'') (tbl_client_searchee conflictDb))) = [''b.example'', ''b.example'']"
  by (simp add: conflictDb_def emptyDb_def stringify_def)

lemma remove_conflict_ok:
  "removeTorrentFromClients [clientOk ''hostA'', clientOk ''hostB''] ''h1'' (worldOf conflictDb) =
     (True, (worldOf conflictDb)
        \<lparr> w_db := conflictDb\<lparr> tbl_client_searchee :=
             [\<lparr> cs_info_hash = ''h2'', cs_client_host = Some ''hostA'', cs_trackers = stringify [''b.example''] \<rparr>] \<rparr>,
          w_io := [ClientRemoveTorrent ''hostA'' ''h1'' False, ClientIsTorrentInClient ''hostA'' ''h1'',
                   ClientRemoveTorrent ''hostB'' ''h1'' False, ClientIsTorrentInClient ''hostB'' ''h1''] \<rparr>)"
  by (simp add: removeTorrentFromClients_def worldOf_def conflictDb_def emptyDb_def clientOk_def emit_def
      deleteClientSearchee_def)

theorem resolveConflictRules_strict_priority_witness:
  "fst (resolveConflictRules [clientOk ''hostA'', clientOk ''hostB''] ''h1'' ['' A.Example '']
          (worldOf conflictDb)) = True \<and>
   resolveConflictRules [clientOk ''hostA'', clientOk ''hostB''] ''h1'' [''b.example''] (worldOf conflictDb) =
     (False, worldOf conflictDb) \<and>
   resolveConflictRules [clientOk ''hostA'', clientOk ''hostB''] ''h1'' [''c.example''] (worldOf conflictDb) =
     (False, worldOf conflictDb)"
proof -
  let ?cl = "[clientOk ''hostA'', clientOk ''hostB'']"
  let ?w = "worldOf conflictDb"
  have db: "w_db ?w = conflictDb" by (simp add: worldOf_def)
  have inc: "(1::nat) = (case getBestTrackerPriority [''b.example'', ''b.example''] (getConflictRules conflictDb)
                 (getIndexerTrackerSet conflictDb) of None \<Rightarrow> length (getConflictRules conflictDb) | Some p \<Rightarrow> p)"
    by (simp add: conflict_rules_loaded conflict_indexers getBestTrackerPriority_def getTrackerPriority_def
      normalizeTrackerKey_def trim_def isWhiteSpace_def toLowerCase_def lowerChar_def)
  note inst = resolveConflictRules_strict_priority
      [where w = ?w and rules = "getConflictRules conflictDb" and ix = "getIndexerTrackerSet conflictDb"
         and existing = "[''b.example'', ''b.example'']" and incumbent = 1 and infoHash = "''h1''"
         and clients = ?cl, unfolded db, OF refl refl existing_conflict [symmetric] inc]
  have r1: "fst (resolveConflictRules ?cl ''h1'' ['' A.Example ''] ?w) = True"
    using inst [where cts = "['' A.Example '']"] by (simp add: best_conflict remove_conflict_ok)
  have r2: "resolveConflictRules ?cl ''h1'' [''b.example''] ?w = (False, ?w)"
    using inst [where cts = "[''b.example'']"] by (simp add: best_conflict)
  have r3: "resolveConflictRules ?cl ''h1'' [''c.example''] ?w = (False, ?w)"
    using inst [where cts = "[''c.example'']"] by (simp add: best_conflict)
  from r1 r2 r3 show ?thesis by blast
qed

section \<open>Properties of the removal from the clients\<close>

lemma removeLoop_result:
  "fst (removeLoop clients h rows w) = list_all (confirmsRemoval clients h) rows"
  by (induction rows arbitrary: w)
     (auto simp: confirmsRemoval_def Let_def split: option.splits call_result.splits bool.splits)

lemma removeLoop_frame:
  "infoHashesToExclude (snd (removeLoop clients h rows w)) = infoHashesToExclude w \<and>
   guidInfoHashMap (snd (removeLoop clients h rows w)) = guidInfoHashMap w"
  by (induction rows arbitrary: w)
     (auto simp: Let_def emit_def split: option.splits call_result.splits bool.splits)

lemma rowRequests_confirmed:
  assumes "confirmsRemoval clients h row"
  shows "rowRequests clients h row =
           [ClientRemoveTorrent (the (cs_client_host row)) h False,
            ClientIsTorrentInClient (the (cs_client_host row)) h]"
proof -
  from assms obtain host cl where hc: "cs_client_host row = Some host" "host \<noteq> []"
      "find (\<lambda>c. clientHost c = host) clients = Some cl"
      "removeTorrent cl h = Ok True" "isTorrentInClient cl h = Ok False"
    by (auto simp: confirmsRemoval_def split: option.splits)
  from find_Some_holds [OF hc(3)] have "clientHost cl = host" by simp
  with hc show ?thesis by (simp add: rowRequests_def rowClient_def)
qed

lemma rowRequests_removal: "list_all (removalRequest h) (rowRequests clients h row)"
  by (simp add: rowRequests_def removalRequest_def split: option.splits)

lemma removeLoop_requests:
  "w_io (snd (removeLoop clients h rows w)) =
     w_io w @ concat (map (rowRequests clients h)
                        (takeWhile (confirmsRemoval clients h) rows @
                         take 1 (dropWhile (confirmsRemoval clients h) rows)))"
proof (induction rows arbitrary: w)
  case Nil
  then show ?case by simp
next
  case (Cons row rows)
  show ?case
  proof (cases "confirmsRemoval clients h row")
    case True
    then obtain host cl where hc: "cs_client_host row = Some host" "host \<noteq> []"
        "find (\<lambda>c. clientHost c = host) clients = Some cl"
        "removeTorrent cl h = Ok True" "isTorrentInClient cl h = Ok False"
      by (auto simp: confirmsRemoval_def split: option.splits)
    let ?w2 = "emit (ClientIsTorrentInClient (clientHost cl) h) (emit (ClientRemoveTorrent (clientHost cl) h False) w)"
    let ?w3 = "?w2\<lparr> w_db := deleteClientSearchee h host (w_db ?w2) \<rparr>"
    from hc have step: "removeLoop clients h (row # rows) w = removeLoop clients h rows ?w3"
      by (simp add: Let_def)
    from hc have req: "rowRequests clients h row =
        [ClientRemoveTorrent (clientHost cl) h False, ClientIsTorrentInClient (clientHost cl) h]"
      by (simp add: rowRequests_def rowClient_def)
    have io3: "w_io ?w3 = w_io w @ rowRequests clients h row"
      by (simp add: emit_def req)
    show ?thesis
      unfolding step Cons.IH [of ?w3] io3 using True by simp
  next
    case False
    have "w_io (snd (removeLoop clients h (row # rows) w)) = w_io w @ rowRequests clients h row"
      using False
      by (auto simp: confirmsRemoval_def rowRequests_def rowClient_def Let_def emit_def
          split: option.splits call_result.splits bool.splits)
    with False show ?thesis by simp
  qed
qed

lemma removeLoop_db:
  "w_db (snd (removeLoop clients h rows w)) =
     (w_db w)\<lparr> tbl_client_searchee :=
        filter (\<lambda>r. \<not> (cs_info_hash r = h \<and>
                       cs_client_host r \<in> set (map cs_client_host (takeWhile (confirmsRemoval clients h) rows))))
          (tbl_client_searchee (w_db w)) \<rparr>"
proof (induction rows arbitrary: w)
  case Nil
  then show ?case by simp
next
  case (Cons row rows)
  show ?case
  proof (cases "confirmsRemoval clients h row")
    case True
    then obtain host cl where hc: "cs_client_host row = Some host" "host \<noteq> []"
        "find (\<lambda>c. clientHost c = host) clients = Some cl"
        "removeTorrent cl h = Ok True" "isTorrentInClient cl h = Ok False"
      by (auto simp: confirmsRemoval_def split: option.splits)
    let ?w2 = "emit (ClientIsTorrentInClient (clientHost cl) h) (emit (ClientRemoveTorrent (clientHost cl) h False) w)"
    let ?w3 = "?w2\<lparr> w_db := deleteClientSearchee h host (w_db ?w2) \<rparr>"
    from hc have step: "removeLoop clients h (row # rows) w = removeLoop clients h rows ?w3"
      by (simp add: Let_def)
    have db3: "w_db ?w3 = deleteClientSearchee h host (w_db w)"
      by (simp add: emit_def)
    have feq: "filter (\<lambda>r. \<not> (cs_info_hash r = h \<and>
                       cs_client_host r \<in> set (map cs_client_host (takeWhile (confirmsRemoval clients h) rows))))
                 (filter (\<lambda>r. \<not> (cs_info_hash r = h \<and> cs_client_host r = Some host))
                    (tbl_client_searchee (w_db w))) =
               filter (\<lambda>r. \<not> (cs_info_hash r = h \<and>
                       cs_client_host r \<in> set (map cs_client_host (takeWhile (confirmsRemoval clients h) (row # rows)))))
                 (tbl_client_searchee (w_db w))"
      unfolding filter_filter using True hc(1) by (intro filter_cong) auto
    show ?thesis
      unfolding step Cons.IH [of ?w3] db3 using feq
      by (simp add: deleteClientSearchee_def)
  next
    case False
    then have "w_db (snd (removeLoop clients h (row # rows) w)) = w_db w"
      by (auto simp: confirmsRemoval_def Let_def emit_def split: option.splits call_result.splits bool.splits)
    with False show ?thesis by simp
  qed
qed

text \<open>
  C1, as amended. \<open>removeTorrentFromClients\<close> works through the client rows of the
  info-hash in order. The requests it makes are exactly: for every row confirmed
  before the first failure (\<open>confirmed\<close>), the removal from the row's client with
  \<open>deleteData\<close> false followed by the check of presence; then, for the first row that
  is not confirmed, the removal and, if that succeeded, the check (none when the row
  names no client); and nothing for the rows after it. The confirmed rows have their
  \<open>client_searchee\<close> rows deleted, one client at a time, and nothing else of the state
  changes; a failure at the first row leaves the database as it was. The result is
  true exactly when there are rows and every row is confirmed, and then no row of the
  info-hash remains.
\<close>

theorem removeTorrentFromClients_per_client:
  assumes "rows = filter (\<lambda>r. cs_info_hash r = infoHash) (tbl_client_searchee (w_db w))"
    and "confirmed = takeWhile (confirmsRemoval clients infoHash) rows"
    and "failed = take 1 (dropWhile (confirmsRemoval clients infoHash) rows)"
    and "removeTorrentFromClients clients infoHash w = (ok, w')"
  shows "ok = (rows \<noteq> [] \<and> list_all (confirmsRemoval clients infoHash) rows) \<and>
         w_io w' = w_io w @ concat (map (rowRequests clients infoHash) (confirmed @ failed)) \<and>
         list_all (\<lambda>row. rowRequests clients infoHash row =
                      [ClientRemoveTorrent (the (cs_client_host row)) infoHash False,
                       ClientIsTorrentInClient (the (cs_client_host row)) infoHash]) confirmed \<and>
         list_all (removalRequest infoHash) (concat (map (rowRequests clients infoHash) (confirmed @ failed))) \<and>
         w_db w' =
           (w_db w)\<lparr> tbl_client_searchee :=
              filter (\<lambda>r. \<not> (cs_info_hash r = infoHash \<and>
                             cs_client_host r \<in> set (map cs_client_host confirmed)))
                (tbl_client_searchee (w_db w)) \<rparr> \<and>
         (ok \<longrightarrow> \<not> list_ex (\<lambda>r. cs_info_hash r = infoHash) (tbl_client_searchee (w_db w'))) \<and>
         (confirmed = [] \<longrightarrow> w_db w' = w_db w) \<and>
         infoHashesToExclude w' = infoHashesToExclude w \<and>
         guidInfoHashMap w' = guidInfoHashMap w"
proof -
  have conf: "list_all (\<lambda>row. rowRequests clients infoHash row =
                      [ClientRemoveTorrent (the (cs_client_host row)) infoHash False,
                       ClientIsTorrentInClient (the (cs_client_host row)) infoHash]) confirmed"
    unfolding list_all_iff assms(2)
  proof
    fix row
    assume "row \<in> set (takeWhile (confirmsRemoval clients infoHash) rows)"
    then have "confirmsRemoval clients infoHash row" by (rule set_takeWhileD [THEN conjunct2])
    then show "rowRequests clients infoHash row =
                      [ClientRemoveTorrent (the (cs_client_host row)) infoHash False,
                       ClientIsTorrentInClient (the (cs_client_host row)) infoHash]"
      by (rule rowRequests_confirmed)
  qed
  have reqs: "list_all (removalRequest infoHash) (concat (map (rowRequests clients infoHash) xs))" for xs
    by (induction xs) (simp_all add: rowRequests_removal)
  show ?thesis
  proof (cases "rows = []")
    case True
    with assms have "ok = False" "w' = w" "confirmed = []" "failed = []"
      by (simp_all add: removeTorrentFromClients_def)
    with True show ?thesis by simp
  next
    case False
    with assms(1,4) have run: "removeLoop clients infoHash rows w = (ok, w')"
      by (simp add: removeTorrentFromClients_def Let_def)
    then have ok: "ok = list_all (confirmsRemoval clients infoHash) rows"
      using removeLoop_result [of clients infoHash rows w] by simp
    from run have io: "w_io w' = w_io w @ concat (map (rowRequests clients infoHash) (confirmed @ failed))"
      using removeLoop_requests [of clients infoHash rows w] assms(2,3) by simp
    from run have db: "w_db w' =
             (w_db w)\<lparr> tbl_client_searchee :=
                filter (\<lambda>r. \<not> (cs_info_hash r = infoHash \<and>
                               cs_client_host r \<in> set (map cs_client_host confirmed)))
                  (tbl_client_searchee (w_db w)) \<rparr>"
      using removeLoop_db [of clients infoHash rows w] assms(2) by simp
    have gone: "\<not> list_ex (\<lambda>r. cs_info_hash r = infoHash) (tbl_client_searchee (w_db w'))" if ok
    proof -
      from that ok have "confirmed = rows"
        unfolding assms(2) by (simp add: list_all_iff takeWhile_eq_all_conv)
      then show ?thesis
        unfolding db list_ex_iff by (auto simp: assms(1))
    qed
    have same: "w_db w' = w_db w" if "confirmed = []"
      unfolding db that by simp
    from run have frame: "infoHashesToExclude w' = infoHashesToExclude w" "guidInfoHashMap w' = guidInfoHashMap w"
      using removeLoop_frame [of clients infoHash rows w] by simp_all
    from False ok io conf reqs db gone same frame show ?thesis by blast
  qed
qed

text \<open>
  C1 as stated fails: with the torrent \<open>h1\<close> on \<open>hostA\<close>, which removes it, and on
  \<open>hostB\<close>, whose removal request fails, the call returns false and the row of
  \<open>hostA\<close> is gone from \<open>client_searchee\<close>.
\<close>

theorem removeTorrentFromClients_partial_counterexample:
  "fst (removeTorrentFromClients [clientOk ''hostA'', clientFailing ''hostB''] ''h1'' (worldOf conflictDb)) = False \<and>
   map cs_client_host (filter (\<lambda>r. cs_info_hash r = ''h1'') (tbl_client_searchee (w_db (worldOf conflictDb)))) =
     [Some ''hostA'', Some ''hostB''] \<and>
   map cs_client_host (filter (\<lambda>r. cs_info_hash r = ''h1'')
     (tbl_client_searchee (w_db (snd (removeTorrentFromClients [clientOk ''hostA'', clientFailing ''hostB''] ''h1''
        (worldOf conflictDb)))))) = [Some ''hostB''] \<and>
   w_io (snd (removeTorrentFromClients [clientOk ''hostA'', clientFailing ''hostB''] ''h1'' (worldOf conflictDb))) =
     [ClientRemoveTorrent ''hostA'' ''h1'' False, ClientIsTorrentInClient ''hostA'' ''h1'',
      ClientRemoveTorrent ''hostB'' ''h1'' False]"
  by (simp add: removeTorrentFromClients_def worldOf_def conflictDb_def emptyDb_def clientOk_def
      clientFailing_def emit_def deleteClientSearchee_def)


theorem removeTorrentFromClients_per_client_witness:
  "takeWhile (confirmsRemoval [clientOk ''hostA'', clientFailing ''hostB''] ''h1'')
     (filter (\<lambda>r. cs_info_hash r = ''h1'') (tbl_client_searchee (w_db (worldOf conflictDb)))) =
     [\<lparr> cs_info_hash = ''h1'', cs_client_host = Some ''hostA'', cs_trackers = stringify [''b.example''] \<rparr>] \<and>
   take 1 (dropWhile (confirmsRemoval [clientOk ''hostA'', clientFailing ''hostB''] ''h1'')
     (filter (\<lambda>r. cs_info_hash r = ''h1'') (tbl_client_searchee (w_db (worldOf conflictDb))))) =
     [\<lparr> cs_info_hash = ''h1'', cs_client_host = Some ''hostB'', cs_trackers = stringify [''b.example''] \<rparr>] \<and>
   fst (removeTorrentFromClients [clientOk ''hostA'', clientFailing ''hostB''] ''h1'' (worldOf conflictDb)) = False \<and>
   w_io (snd (removeTorrentFromClients [clientOk ''hostA'', clientFailing ''hostB''] ''h1'' (worldOf conflictDb))) =
     [ClientRemoveTorrent ''hostA'' ''h1'' False, ClientIsTorrentInClient ''hostA'' ''h1'',
      ClientRemoveTorrent ''hostB'' ''h1'' False] \<and>
   w_db (snd (removeTorrentFromClients [clientOk ''hostA'', clientFailing ''hostB''] ''h1'' (worldOf conflictDb))) =
     conflictDb\<lparr> tbl_client_searchee :=
       [\<lparr> cs_info_hash = ''h1'', cs_client_host = Some ''hostB'', cs_trackers = stringify [''b.example''] \<rparr>,
        \<lparr> cs_info_hash = ''h2'', cs_client_host = Some ''hostA'', cs_trackers = stringify [''b.example''] \<rparr>] \<rparr>"
proof -
  let ?cl = "[clientOk ''hostA'', clientFailing ''hostB'']"
  let ?w = "worldOf conflictDb"
  let ?rows = "filter (\<lambda>r. cs_info_hash r = ''h1'') (tbl_client_searchee (w_db ?w))"
  have rows: "?rows =
     [\<lparr> cs_info_hash = ''h1'', cs_client_host = Some ''hostA'', cs_trackers = stringify [''b.example''] \<rparr>,
      \<lparr> cs_info_hash = ''h1'', cs_client_host = Some ''hostB'', cs_trackers = stringify [''b.example''] \<rparr>]"
    by (simp add: worldOf_def conflictDb_def emptyDb_def)
  have conf: "takeWhile (confirmsRemoval ?cl ''h1'') ?rows =
     [\<lparr> cs_info_hash = ''h1'', cs_client_host = Some ''hostA'', cs_trackers = stringify [''b.example''] \<rparr>]"
    unfolding rows by (simp add: confirmsRemoval_def clientOk_def clientFailing_def)
  have fail: "take 1 (dropWhile (confirmsRemoval ?cl ''h1'') ?rows) =
     [\<lparr> cs_info_hash = ''h1'', cs_client_host = Some ''hostB'', cs_trackers = stringify [''b.example''] \<rparr>]"
    unfolding rows by (simp add: confirmsRemoval_def clientOk_def clientFailing_def)
  note inst = removeTorrentFromClients_per_client
      [where clients = ?cl and infoHash = "''h1''" and w = ?w and rows = ?rows
         and confirmed = "takeWhile (confirmsRemoval ?cl ''h1'') ?rows"
         and failed = "take 1 (dropWhile (confirmsRemoval ?cl ''h1'') ?rows)"
         and ok = "fst (removeTorrentFromClients ?cl ''h1'' ?w)"
         and w' = "snd (removeTorrentFromClients ?cl ''h1'' ?w)", OF refl refl refl]
  have ok: "fst (removeTorrentFromClients ?cl ''h1'' ?w) = False"
    using inst unfolding rows by (simp add: confirmsRemoval_def clientOk_def clientFailing_def)
  have io: "w_io (snd (removeTorrentFromClients ?cl ''h1'' ?w)) =
     [ClientRemoveTorrent ''hostA'' ''h1'' False, ClientIsTorrentInClient ''hostA'' ''h1'',
      ClientRemoveTorrent ''hostB'' ''h1'' False]"
    using inst unfolding conf fail
    by (simp add: worldOf_def rowRequests_def rowClient_def clientOk_def clientFailing_def)
  have db: "w_db (snd (removeTorrentFromClients ?cl ''h1'' ?w)) =
     conflictDb\<lparr> tbl_client_searchee :=
       [\<lparr> cs_info_hash = ''h1'', cs_client_host = Some ''hostB'', cs_trackers = stringify [''b.example''] \<rparr>,
        \<lparr> cs_info_hash = ''h2'', cs_client_host = Some ''hostA'', cs_trackers = stringify [''b.example''] \<rparr>] \<rparr>"
    using inst unfolding conf by (simp add: worldOf_def conflictDb_def emptyDb_def)
  from conf fail ok io db show ?thesis by blast
qed

section \<open>Properties of the double arithmetic\<close>

lemma roundHalfEven_int: "roundHalfEven (real_of_int n) = n"
  by (simp add: roundHalfEven_def)

lemma roundHalfEven_near: "\<bar>real_of_int (roundHalfEven y) - y\<bar> \<le> 1 / 2"
proof -
  have "real_of_int \<lfloor>y\<rfloor> \<le> y" "y < real_of_int \<lfloor>y\<rfloor> + 1" by linarith+
  then show ?thesis by (auto simp: roundHalfEven_def Let_def)
qed

lemma binade_exponent:
  assumes "2 powr real_of_int k \<le> \<bar>x\<bar>" "\<bar>x\<bar> < 2 powr (real_of_int k + 1)"
  shows "\<lfloor>log 2 \<bar>x\<bar>\<rfloor> = k"
proof -
  have "0 < (2::real) powr real_of_int k" by simp
  with assms(1) have pos: "0 < \<bar>x\<bar>" by linarith
  have "real_of_int k \<le> log 2 \<bar>x\<bar>" using assms(1) pos by (simp add: le_log_iff)
  moreover have "log 2 \<bar>x\<bar> < real_of_int k + 1" using assms(2) pos by (simp add: log_less_iff)
  ultimately show ?thesis by linarith
qed

lemma ulp_power:
  assumes "e \<le> 52" and "j = nat (52 - e)"
  shows "2 powr (real_of_int e - 52) = 1 / (2::real) ^ j"
proof -
  have eq: "real_of_int e - 52 = - real j" using assms by simp
  have "2 powr (- real j) = 1 / (2::real) ^ j"
    by (simp add: powr_minus powr_realpow inverse_eq_divide)
  then show ?thesis by (simp only: eq)
qed

text \<open>
  The value of \<open>roundDouble\<close> at a number of known size: for
  \<open>2^k \<le> |x| < 2^(k+1)\<close> it is \<open>x\<close> rounded to a multiple of \<open>2^(k-52)\<close>.
\<close>

lemma roundDouble_binade:
  assumes "2 ^ k \<le> \<bar>x\<bar>" "\<bar>x\<bar> < 2 ^ Suc k" "k \<le> 52"
  shows "roundDouble x = real_of_int (roundHalfEven (x * 2 ^ (52 - k))) / 2 ^ (52 - k)"
proof -
  have "0 < (2::real) ^ k" by simp
  with assms(1) have "0 < \<bar>x\<bar>" by linarith
  then have x0: "x \<noteq> 0" by simp
  have a: "2 powr real_of_int (int k) \<le> \<bar>x\<bar>" using assms(1) by (simp add: powr_realpow)
  have "2 powr (real_of_int (int k) + 1) = (2::real) ^ Suc k"
    by (simp add: powr_add powr_realpow)
  with assms(2) have b: "\<bar>x\<bar> < 2 powr (real_of_int (int k) + 1)" by simp
  have e: "\<lfloor>log 2 \<bar>x\<bar>\<rfloor> = int k" using a b by (rule binade_exponent)
  have "int k \<le> 52" "52 - k = nat (52 - int k)" using assms(3) by simp_all
  then have u: "2 powr (real_of_int (int k) - 52) = 1 / (2::real) ^ (52 - k)"
    by (rule ulp_power)
  have "roundDouble x =
      real_of_int (roundHalfEven (x / 2 powr (real_of_int (int k) - 52))) * 2 powr (real_of_int (int k) - 52)"
    using x0 by (simp add: roundDouble_def e Let_def)
  then show ?thesis unfolding u by simp
qed

text \<open>The integers below \<open>2^53\<close> are doubles.\<close>

lemma roundDouble_int:
  assumes "\<bar>n\<bar> < 2 ^ 53"
  shows "roundDouble (real_of_int n) = real_of_int n"
proof (cases "n = 0")
  case True
  then show ?thesis by (simp add: roundDouble_def)
next
  case False
  define e where "e = \<lfloor>log 2 \<bar>real_of_int n\<bar>\<rfloor>"
  have one: "1 \<le> \<bar>real_of_int n\<bar>" using False by (simp flip: of_int_abs)
  have lt: "\<bar>real_of_int n\<bar> < 2 ^ 53" using assms by (simp flip: of_int_abs)
  have "0 \<le> log 2 \<bar>real_of_int n\<bar>" using one by simp
  then have e0: "0 \<le> e" unfolding e_def by simp
  have "log 2 \<bar>real_of_int n\<bar> < 53"
    using lt one by (simp add: log_less_iff powr_realpow [symmetric])
  then have e52: "e \<le> 52" unfolding e_def by linarith
  define j where "j = nat (52 - e)"
  from e52 j_def have u: "2 powr (real_of_int e - 52) = 1 / (2::real) ^ j"
    by (rule ulp_power)
  have "real_of_int n / (1 / 2 ^ j) = real_of_int (n * 2 ^ j)" by simp
  then have r: "roundHalfEven (real_of_int n / (1 / 2 ^ j)) = n * 2 ^ j"
    by (simp only: roundHalfEven_int)
  have "roundDouble (real_of_int n) =
      real_of_int (roundHalfEven (real_of_int n / 2 powr (real_of_int e - 52))) * 2 powr (real_of_int e - 52)"
    using False by (simp add: roundDouble_def e_def Let_def)
  then show ?thesis unfolding u r by simp
qed

text \<open>The relative error of a rounding is at most \<open>2^-53\<close>.\<close>

lemma roundDouble_error: "\<bar>roundDouble x - x\<bar> \<le> \<bar>x\<bar> / 2 ^ 53"
proof (cases "x = 0")
  case True
  then show ?thesis by (simp add: roundDouble_def)
next
  case False
  define e where "e = \<lfloor>log 2 \<bar>x\<bar>\<rfloor>"
  define u where "u = 2 powr (real_of_int e - 52)"
  define q where "q = real_of_int (roundHalfEven (x / u))"
  have upos: "0 < u" by (simp add: u_def)
  have rd: "roundDouble x = q * u"
    using False by (simp add: roundDouble_def e_def u_def q_def Let_def)
  have near: "\<bar>q - x / u\<bar> \<le> 1 / 2" unfolding q_def by (rule roundHalfEven_near)
  have "\<bar>q * u - x\<bar> = \<bar>(q - x / u) * u\<bar>"
    using upos by (simp add: left_diff_distrib)
  also have "\<dots> = \<bar>q - x / u\<bar> * u"
    using upos by (simp add: abs_mult)
  also have "\<dots> \<le> 1 / 2 * u"
    using near upos by (intro mult_right_mono) simp_all
  finally have err: "\<bar>roundDouble x - x\<bar> \<le> u / 2" by (simp add: rd)
  have "real_of_int e \<le> log 2 \<bar>x\<bar>" unfolding e_def by linarith
  then have "2 powr real_of_int e \<le> 2 powr log 2 \<bar>x\<bar>" by simp
  also have "\<dots> = \<bar>x\<bar>" using False by simp
  finally have low: "2 powr real_of_int e \<le> \<bar>x\<bar>" .
  have "u = 2 powr real_of_int e / 2 ^ 52"
    by (simp add: u_def powr_diff)
  then have "u / 2 = 2 powr real_of_int e / 2 ^ 53" by simp
  also have "\<dots> \<le> \<bar>x\<bar> / 2 ^ 53" using low by (simp add: divide_right_mono)
  finally show ?thesis using err by linarith
qed

lemma band_core:
  fixes a L s p lo up :: real
  assumes "0 \<le> a" "0 < L"
    and "\<bar>p - a\<bar> \<le> \<bar>a\<bar> / 2 ^ 53"
    and "\<bar>lo - (L - p)\<bar> \<le> \<bar>L - p\<bar> / 2 ^ 53"
    and "\<bar>up - (L + p)\<bar> \<le> \<bar>L + p\<bar> / 2 ^ 53"
  shows "\<bar>s - L\<bar> \<le> a - (L + 2 * a + a / 2 ^ 53) / 2 ^ 53 \<longrightarrow> lo \<le> s \<and> s \<le> up"
    and "lo \<le> s \<and> s \<le> up \<longrightarrow> \<bar>s - L\<bar> \<le> a + (L + 2 * a + a / 2 ^ 53) / 2 ^ 53"
proof -
  from assms(1) have "\<bar>a\<bar> = a" by simp
  with assms(3) have pa: "\<bar>p - a\<bar> \<le> a / 2 ^ 53" by simp
  from assms(1) have "a / 2 ^ 53 \<le> a" by (simp add: divide_le_eq)
  with pa have p0: "0 \<le> p" by linarith
  from p0 assms(2) have "\<bar>L - p\<bar> \<le> L + p" "\<bar>L + p\<bar> = L + p" by simp_all
  then have "\<bar>L - p\<bar> / 2 ^ 53 \<le> (L + p) / 2 ^ 53" "\<bar>L + p\<bar> / 2 ^ 53 = (L + p) / 2 ^ 53"
    by (simp_all add: divide_right_mono)
  with assms(4,5) have b: "\<bar>lo - (L - p)\<bar> \<le> (L + p) / 2 ^ 53" "\<bar>up - (L + p)\<bar> \<le> (L + p) / 2 ^ 53"
    by linarith+
  from pa have "L + p \<le> L + a + a / 2 ^ 53" by linarith
  then have "(L + p) / 2 ^ 53 \<le> (L + a + a / 2 ^ 53) / 2 ^ 53"
    by (rule divide_right_mono) simp
  with b have c: "\<bar>lo - (L - p)\<bar> \<le> (L + a + a / 2 ^ 53) / 2 ^ 53"
    "\<bar>up - (L + p)\<bar> \<le> (L + a + a / 2 ^ 53) / 2 ^ 53"
    by linarith+
  have d: "(L + 2 * a + a / 2 ^ 53) / 2 ^ 53 = (L + a + a / 2 ^ 53) / 2 ^ 53 + a / 2 ^ 53"
    by (simp add: add_divide_distrib)
  show "\<bar>s - L\<bar> \<le> a - (L + 2 * a + a / 2 ^ 53) / 2 ^ 53 \<longrightarrow> lo \<le> s \<and> s \<le> up"
    unfolding d using pa c by linarith
  show "lo \<le> s \<and> s \<le> up \<longrightarrow> \<bar>s - L\<bar> \<le> a + (L + 2 * a + a / 2 ^ 53) / 2 ^ 53"
    unfolding d using pa c by linarith
qed

lemma band_scale:
  fixes f L :: real
  assumes "0 < L"
  shows "(x / L \<le> f - roundingBand f) = (x \<le> f * L - (L + 2 * (f * L) + f * L / 2 ^ 53) / 2 ^ 53)"
    and "(x / L \<le> f + roundingBand f) = (x \<le> f * L + (L + 2 * (f * L) + f * L / 2 ^ 53) / 2 ^ 53)"
proof -
  have r: "roundingBand f * L = (L + 2 * (f * L) + f * L / 2 ^ 53) / 2 ^ 53"
    by (simp add: roundingBand_def field_simps)
  have "(x / L \<le> f - roundingBand f) = (x \<le> (f - roundingBand f) * L)"
    using assms by (simp add: pos_divide_le_eq)
  also have "(f - roundingBand f) * L = f * L - roundingBand f * L" by (simp add: left_diff_distrib)
  finally show "(x / L \<le> f - roundingBand f) = (x \<le> f * L - (L + 2 * (f * L) + f * L / 2 ^ 53) / 2 ^ 53)"
    unfolding r .
  have "(x / L \<le> f + roundingBand f) = (x \<le> (f + roundingBand f) * L)"
    using assms by (simp add: pos_divide_le_eq)
  also have "(f + roundingBand f) * L = f * L + roundingBand f * L" by (simp add: distrib_right)
  finally show "(x / L \<le> f + roundingBand f) = (x \<le> f * L + (L + 2 * (f * L) + f * L / 2 ^ 53) / 2 ^ 53)"
    unfolding r .
qed

text \<open>
  The test of \<open>fuzzySizeDoesMatch\<close> against the exact relative difference: it holds
  when the difference is at most the factor less the band, and only when it is at most
  the factor plus the band.
\<close>

lemma fuzzySize_band:
  assumes "0 < s_length searchee" and "0 \<le> getFuzzySizeFactor e searchee"
  shows "\<bar>real_of_int sz - real_of_int (s_length searchee)\<bar> / real_of_int (s_length searchee)
           \<le> getFuzzySizeFactor e searchee - roundingBand (getFuzzySizeFactor e searchee)
         \<longrightarrow> fuzzySizeDoesMatch e sz searchee"
    and "fuzzySizeDoesMatch e sz searchee \<longrightarrow>
         \<bar>real_of_int sz - real_of_int (s_length searchee)\<bar> / real_of_int (s_length searchee)
           \<le> getFuzzySizeFactor e searchee + roundingBand (getFuzzySizeFactor e searchee)"
proof -
  let ?L = "real_of_int (s_length searchee)"
  let ?f = "getFuzzySizeFactor e searchee"
  let ?p = "roundDouble (?f * ?L)"
  let ?lo = "roundDouble (?L - ?p)"
  let ?up = "roundDouble (?L + ?p)"
  from assms(1) have L: "0 < ?L" by simp
  with assms(2) have a: "0 \<le> ?f * ?L" by simp
  have fz: "fuzzySizeDoesMatch e sz searchee = (?lo \<le> real_of_int sz \<and> real_of_int sz \<le> ?up)"
    by (simp add: fuzzySizeDoesMatch_def Let_def)
  note core = band_core [OF a L roundDouble_error [of "?f * ?L"] roundDouble_error [of "?L - ?p"]
      roundDouble_error [of "?L + ?p"], of "real_of_int sz"]
  show "\<bar>real_of_int sz - ?L\<bar> / ?L \<le> ?f - roundingBand ?f \<longrightarrow> fuzzySizeDoesMatch e sz searchee"
    unfolding fz band_scale(1) [OF L] by (rule core(1))
  show "fuzzySizeDoesMatch e sz searchee \<longrightarrow> \<bar>real_of_int sz - ?L\<bar> / ?L \<le> ?f + roundingBand ?f"
    unfolding fz band_scale(2) [OF L] by (rule core(2))
qed

text \<open>Where nothing is rounded, the test is the comparison of the relative difference.\<close>

lemma fuzzySize_exact:
  assumes "0 < s_length searchee"
    and "roundDouble (getFuzzySizeFactor e searchee * real_of_int (s_length searchee)) =
           getFuzzySizeFactor e searchee * real_of_int (s_length searchee)"
    and "roundDouble (real_of_int (s_length searchee) -
                      getFuzzySizeFactor e searchee * real_of_int (s_length searchee)) =
           real_of_int (s_length searchee) - getFuzzySizeFactor e searchee * real_of_int (s_length searchee)"
    and "roundDouble (real_of_int (s_length searchee) +
                      getFuzzySizeFactor e searchee * real_of_int (s_length searchee)) =
           real_of_int (s_length searchee) + getFuzzySizeFactor e searchee * real_of_int (s_length searchee)"
  shows "fuzzySizeDoesMatch e sz searchee \<longleftrightarrow>
           \<bar>real_of_int sz - real_of_int (s_length searchee)\<bar> / real_of_int (s_length searchee)
             \<le> getFuzzySizeFactor e searchee"
proof -
  let ?l = "real_of_int (s_length searchee)"
  let ?f = "getFuzzySizeFactor e searchee"
  from assms(1) have pos: "0 < ?l" by simp
  have "\<bar>real_of_int sz - ?l\<bar> / ?l \<le> ?f \<longleftrightarrow> \<bar>real_of_int sz - ?l\<bar> \<le> ?f * ?l"
    using pos by (simp add: pos_divide_le_eq)
  also have "\<dots> \<longleftrightarrow> ?l - ?f * ?l \<le> real_of_int sz \<and> real_of_int sz \<le> ?l + ?f * ?l"
    by (auto simp: abs_le_iff)
  finally show ?thesis by (simp add: fuzzySizeDoesMatch_def Let_def assms(2,3,4))
qed

text \<open>The factor \<open>0.02\<close>: the bounds for the length 1000 are 980 and 1020.\<close>

lemma double_0_02_times_1000: "roundDouble (double_0_02 * 1000) = 20"
proof -
  have "roundDouble (double_0_02 * 1000) =
      real_of_int (roundHalfEven (double_0_02 * 1000 * 2 ^ (52 - 4))) / 2 ^ (52 - 4)"
    by (rule roundDouble_binade) (simp_all add: double_0_02_def)
  also have "\<dots> = 20"
    by (simp add: double_0_02_def roundHalfEven_def Let_def)
  finally show ?thesis .
qed

lemma fuzzy_bounds_1000:
  "fuzzySizeDoesMatch demoEnv sz bigSearchee \<longleftrightarrow> 980 \<le> sz \<and> sz \<le> 1020"
proof -
  have f: "getFuzzySizeFactor demoEnv bigSearchee = double_0_02" "s_length bigSearchee = 1000"
    by (simp_all add: demoEnv_def bigSearchee_def)
  have lo: "roundDouble 980 = 980" using roundDouble_int [of 980] by simp
  have up: "roundDouble 1020 = 1020" using roundDouble_int [of 1020] by simp
  show ?thesis
    by (simp add: fuzzySizeDoesMatch_def Let_def f double_0_02_times_1000 lo up)
qed

section \<open>Properties of the decision engine\<close>

lemma assessMetafile_cases:
  "ra_metafile (fst (assessMetafile e cfg m mc s bl ct w)) = Some m \<and>
   (ra_decision (fst (assessMetafile e cfg m mc s bl ct w)) \<in>
       {SAME_INFO_HASH, INFO_HASH_ALREADY_EXISTS, INFO_HASH_ALREADY_EXISTS_ANOTHER_TRACKER, BLOCKED_RELEASE} \<or>
    (seasonPackGuard e cfg m s \<and> ra_decision (fst (assessMetafile e cfg m mc s bl ct w)) = FILE_TREE_MISMATCH) \<or>
    ra_decision (fst (assessMetafile e cfg m mc s bl ct w)) = contentDecision e cfg m s)"
  by (simp add: assessMetafile_def Let_def assessment_def)

lemma contentDecision_range:
  "contentDecision e cfg m s \<in>
     {MATCH, MATCH_SIZE_ONLY, PARTIAL_SIZE_MISMATCH, MATCH_PARTIAL, SIZE_MISMATCH, FILE_TREE_MISMATCH}"
  by (simp add: contentDecision_def Let_def)

lemma contentDecision_strict: "matchMode cfg = STRICT \<Longrightarrow> contentDecision e cfg m s \<noteq> MATCH_SIZE_ONLY"
  by (simp add: contentDecision_def Let_def)

lemma contentDecision_size_only:
  "\<not> compareFileTrees m s \<Longrightarrow> compareFileTreesIgnoringNames m s \<Longrightarrow>
   contentDecision e cfg m s = (if matchMode cfg = STRICT then FILE_TREE_MISMATCH else MATCH_SIZE_ONLY)"
  by (simp add: contentDecision_def Let_def)

lemma assessCandidate_cases:
  assumes "assessCandidate e cfg moc s bl ct w = (r, w')" and "ra_metafile r = Some m"
  shows "ra_decision r \<in> {SAME_INFO_HASH, INFO_HASH_ALREADY_EXISTS, INFO_HASH_ALREADY_EXISTS_ANOTHER_TRACKER, BLOCKED_RELEASE} \<or>
         (seasonPackGuard e cfg m s \<and> ra_decision r = FILE_TREE_MISMATCH) \<or>
         ra_decision r = contentDecision e cfg m s"
proof (cases moc)
  case (Meta m0)
  show ?thesis
  proof (cases "truthy (blockedSearchee e s bl)")
    case True
    with Meta assms show ?thesis by (auto simp: assessCandidate_def assessment_def)
  next
    case False
    with Meta assms have r: "r = fst (assessMetafile e cfg m0 True s bl ct w)"
      by (auto simp: assessCandidate_def)
    with assms(2) assessMetafile_cases [of e cfg m0 True s bl ct w] have "m0 = m" by simp
    with r assessMetafile_cases [of e cfg m True s bl ct w] show ?thesis by simp
  qed
next
  case (Cand c)
  from assms Cand obtain m0 mc w2 where "assessMetafile e cfg m0 mc s bl ct w2 = (r, w')"
    by (auto simp: assessCandidate_def assessment_def Let_def split: if_splits sum.splits prod.splits)
  then have r: "r = fst (assessMetafile e cfg m0 mc s bl ct w2)" by simp
  with assms(2) assessMetafile_cases [of e cfg m0 mc s bl ct w2] have "m0 = m" by simp
  with r assessMetafile_cases [of e cfg m mc s bl ct w2] show ?thesis by simp
qed

lemma assessMetafile_not_prefilter:
  "ra_decision (fst (assessMetafile e cfg m mc s bl ct w)) \<notin>
     {RELEASE_GROUP_MISMATCH, RESOLUTION_MISMATCH, SOURCE_MISMATCH, PROPER_REPACK_MISMATCH,
      FUZZY_SIZE_MISMATCH, NO_DOWNLOAD_LINK}"
  using assessMetafile_cases [of e cfg m mc s bl ct w] contentDecision_range [of e cfg m s]
  by auto

lemma assessCandidate_strict_never_size_only:
  assumes "matchMode cfg = STRICT"
  shows "ra_decision (fst (assessCandidate e cfg moc s bl ct w)) \<noteq> MATCH_SIZE_ONLY"
proof -
  have am: "ra_decision (fst (assessMetafile e cfg m mc s bl ct w2)) \<noteq> MATCH_SIZE_ONLY" for m mc w2
    using assessMetafile_cases [of e cfg m mc s bl ct w2] contentDecision_strict [OF assms, of e m s]
    by auto
  show ?thesis
  proof (cases moc)
    case (Meta m0)
    with am [of m0 True w] show ?thesis
      by (simp add: assessCandidate_def assessment_def)
  next
    case (Cand c)
    show ?thesis
      unfolding Cand assessCandidate_def using am
      by (auto simp: assessment_def Let_def split: sum.splits prod.splits)
  qed
qed

lemma contentDecision_size_only_iff:
  "contentDecision e cfg m s = MATCH_SIZE_ONLY \<longleftrightarrow>
     \<not> compareFileTrees m s \<and> compareFileTreesIgnoringNames m s \<and> matchMode cfg \<noteq> STRICT"
  by (simp add: contentDecision_def Let_def)

lemma filter_distinct_key:
  assumes "distinct (map f xs)" and "x \<in> set xs"
  shows "filter (\<lambda>y. f y = f x) xs = [x]"
  using assms
proof (induction xs)
  case Nil
  then show ?case by simp
next
  case (Cons a xs)
  show ?case
  proof (cases "a = x")
    case True
    from Cons.prems(1) have "f x \<notin> f ` set xs" using True by simp
    then have "\<forall>y \<in> set xs. f y \<noteq> f x" by (metis imageI)
    then have "filter (\<lambda>y. f y = f x) xs = []"
      by (simp add: filter_empty_conv)
    with True show ?thesis by simp
  next
    case False
    with Cons.prems(2) have mem: "x \<in> set xs" by simp
    from Cons.prems(1) have "f a \<notin> f ` set xs" by simp
    with mem have "f a \<noteq> f x" by (metis imageI)
    moreover from Cons.prems(1) have "distinct (map f xs)" by simp
    ultimately show ?thesis using Cons.IH mem by simp
  qed
qed

lemma matched_single:
  assumes "distinct (map fl_length availableFiles)" and "x \<in> set availableFiles"
    and "fl_length x = fl_length candidateFile"
  shows "matchedSearcheeFiles availableFiles candidateFile = [x]"
proof -
  from filter_distinct_key [OF assms(1,2)] assms(3)
  have "filter (\<lambda>searcheeFile. fl_length searcheeFile = fl_length candidateFile) availableFiles = [x]"
    by simp
  then show ?thesis by (simp add: matchedSearcheeFiles_def)
qed

text \<open>
  When no two available files have the same length, the loop of
  \<open>compareFileTreesIgnoringNames\<close> succeeds for candidate files of pairwise distinct
  lengths that all occur among the available files.
\<close>

lemma ignoringNamesLoop_distinct:
  assumes "distinct (map fl_length availableFiles)" and "distinct (map fl_length candidateFiles)"
    and "fl_length ` set candidateFiles \<subseteq> fl_length ` set availableFiles"
  shows "ignoringNamesLoop availableFiles candidateFiles"
  using assms
proof (induction candidateFiles arbitrary: availableFiles)
  case Nil
  then show ?case by simp
next
  case (Cons cf rest)
  from Cons.prems(3) obtain x where x: "x \<in> set availableFiles" "fl_length x = fl_length cf"
    by auto
  from matched_single [OF Cons.prems(1) x] have m: "matchedSearcheeFiles availableFiles cf = [x]" .
  from Cons.prems(1) have da: "distinct availableFiles" and inj: "inj_on fl_length (set availableFiles)"
    by (simp_all add: distinct_map)
  have sub: "set (remove1 x availableFiles) = set availableFiles - {x}"
    using da by (rule set_remove1_eq)
  have d1: "distinct (map fl_length (remove1 x availableFiles))"
    unfolding distinct_map using da inj sub by (auto intro: inj_on_subset)
  from Cons.prems(2) have d2: "distinct (map fl_length rest)" and nin: "fl_length cf \<notin> fl_length ` set rest"
    by simp_all
  have s: "fl_length ` set rest \<subseteq> fl_length ` set (remove1 x availableFiles)"
  proof
    fix n
    assume n: "n \<in> fl_length ` set rest"
    with Cons.prems(3) obtain y where y: "y \<in> set availableFiles" "fl_length y = n" by auto
    from n nin have "n \<noteq> fl_length cf" by metis
    with y x(2) have "y \<noteq> x" by metis
    with y(1) sub have "y \<in> set (remove1 x availableFiles)" by simp
    with y(2) show "n \<in> fl_length ` set (remove1 x availableFiles)" by auto
  qed
  from Cons.IH [OF d1 d2 s] m show ?case by simp
qed

lemma bijection_distinct:
  assumes "sizeOnlyBijection candidateFiles searcheeFiles" and "distinct (map fl_length searcheeFiles)"
  shows "distinct (map fl_length candidateFiles)"
    and "fl_length ` set candidateFiles \<subseteq> fl_length ` set searcheeFiles"
proof -
  from assms(1) obtain f where bij: "bij_betw f {..< length candidateFiles} {..< length searcheeFiles}"
    and len: "\<forall>i < length candidateFiles. fl_length (searcheeFiles ! f i) = fl_length (candidateFiles ! i)"
    unfolding sizeOnlyBijection_def by blast
  from bij have inj: "inj_on f {..< length candidateFiles}"
    and img: "f ` {..< length candidateFiles} = {..< length searcheeFiles}"
    by (simp_all add: bij_betw_def)
  have range: "f i < length searcheeFiles" if "i < length candidateFiles" for i
    using img that by blast
  show "distinct (map fl_length candidateFiles)"
    unfolding distinct_conv_nth
  proof (intro allI impI)
    fix i j
    assume i: "i < length (map fl_length candidateFiles)" and j: "j < length (map fl_length candidateFiles)"
      and ne: "i \<noteq> j"
    from i j have i': "i < length candidateFiles" and j': "j < length candidateFiles" by simp_all
    show "map fl_length candidateFiles ! i \<noteq> map fl_length candidateFiles ! j"
    proof
      assume "map fl_length candidateFiles ! i = map fl_length candidateFiles ! j"
      with i' j' have "fl_length (candidateFiles ! i) = fl_length (candidateFiles ! j)" by simp
      with len i' j' have "fl_length (searcheeFiles ! f i) = fl_length (searcheeFiles ! f j)" by simp
      with nth_eq_iff_index_eq [OF assms(2), of "f i" "f j"] range [OF i'] range [OF j']
      have "f i = f j" by simp
      with inj i' j' have "i = j" by (auto dest: inj_onD)
      with ne show False by simp
    qed
  qed
  show "fl_length ` set candidateFiles \<subseteq> fl_length ` set searcheeFiles"
  proof
    fix n
    assume "n \<in> fl_length ` set candidateFiles"
    then obtain i where i: "i < length candidateFiles" "n = fl_length (candidateFiles ! i)"
      by (auto simp: in_set_conv_nth)
    with len have "n = fl_length (searcheeFiles ! f i)" by simp
    moreover from range [OF i(1)] have "searcheeFiles ! f i \<in> set searcheeFiles" by simp
    ultimately show "n \<in> fl_length ` set searcheeFiles" by blast
  qed
qed

lemma compareFileTreesIgnoringNames_bijection:
  assumes "sizeOnlyBijection (mf_files m) (s_files s)" and "distinct (map fl_length (s_files s))"
  shows "compareFileTreesIgnoringNames m s"
  unfolding compareFileTreesIgnoringNames_def
  using assms(2) bijection_distinct [OF assms] by (rule ignoringNamesLoop_distinct)

lemma count_list_remove1:
  assumes "x \<in> set xs"
  shows "count_list (map f xs) n = count_list (map f (remove1 x xs)) n + (if f x = n then 1 else 0)"
  using assms by (induction xs) auto

lemma matched_member:
  assumes "matchedSearcheeFiles availableFiles candidateFile = first # others"
  shows "first \<in> set availableFiles \<and> fl_length first = fl_length candidateFile"
proof -
  have "set (matchedSearcheeFiles availableFiles candidateFile) \<subseteq>
          {f \<in> set availableFiles. fl_length f = fl_length candidateFile}"
    by (auto simp: matchedSearcheeFiles_def Let_def)
  with assms show ?thesis by auto
qed

text \<open>
  Every candidate file consumes an available file of its length: when the loop
  succeeds, the candidate has of every length at most as many files as are available.
\<close>

lemma ignoringNamesLoop_counts:
  assumes "ignoringNamesLoop availableFiles candidateFiles"
  shows "count_list (map fl_length candidateFiles) n \<le> count_list (map fl_length availableFiles) n"
  using assms
proof (induction candidateFiles arbitrary: availableFiles)
  case Nil
  then show ?case by simp
next
  case (Cons cf rest)
  from Cons.prems obtain first others where m: "matchedSearcheeFiles availableFiles cf = first # others"
    and loop: "ignoringNamesLoop (remove1 first availableFiles) rest"
    by (auto split: list.splits)
  from matched_member [OF m] have mem: "first \<in> set availableFiles" and len: "fl_length first = fl_length cf"
    by simp_all
  from Cons.IH [OF loop]
  have "count_list (map fl_length rest) n \<le> count_list (map fl_length (remove1 first availableFiles)) n" .
  with count_list_remove1 [OF mem, of fl_length n] len show ?case by simp
qed

text \<open>
  C4, as amended. Whenever an assessment carries a metafile and was not decided by the
  block list, the identity checks or the season-pack guard (so that it reached content
  matching), no two files of the searchee have the same length, the files of the
  candidate and of the searchee correspond one to one by length and the full tree
  comparison fails, the decision is \<open>MATCH_SIZE_ONLY\<close> when \<open>matchMode\<close> is not
  \<open>STRICT\<close> and \<open>FILE_TREE_MISMATCH\<close> when it is. No assessment under \<open>STRICT\<close>
  is \<open>MATCH_SIZE_ONLY\<close>. And an assessment is \<open>MATCH_SIZE_ONLY\<close> only outside
  \<open>STRICT\<close>, when the full tree comparison fails and the candidate has, of every
  length, at most as many files as the searchee.
\<close>

theorem assessCandidate_size_only:
  assumes "assessCandidate e cfg metaOrCandidate searchee blocked candidateTracker w = (r, w')"
  shows "(ra_metafile r = Some m \<and>
          ra_decision r \<notin> {SAME_INFO_HASH, INFO_HASH_ALREADY_EXISTS,
                            INFO_HASH_ALREADY_EXISTS_ANOTHER_TRACKER, BLOCKED_RELEASE} \<and>
          \<not> seasonPackGuard e cfg m searchee \<and>
          distinct (map fl_length (s_files searchee)) \<and>
          sizeOnlyBijection (mf_files m) (s_files searchee) \<and>
          \<not> compareFileTrees m searchee
          \<longrightarrow> ra_decision r = (if matchMode cfg = STRICT then FILE_TREE_MISMATCH else MATCH_SIZE_ONLY)) \<and>
         (matchMode cfg = STRICT \<longrightarrow> ra_decision r \<noteq> MATCH_SIZE_ONLY) \<and>
         (ra_metafile r = Some m \<and> ra_decision r = MATCH_SIZE_ONLY
          \<longrightarrow> matchMode cfg \<noteq> STRICT \<and> \<not> compareFileTrees m searchee \<and>
              (\<forall>n. count_list (map fl_length (mf_files m)) n \<le>
                    count_list (map fl_length (s_files searchee)) n))"
proof -
  have p1: "ra_decision r = (if matchMode cfg = STRICT then FILE_TREE_MISMATCH else MATCH_SIZE_ONLY)"
    if h: "ra_metafile r = Some m \<and>
          ra_decision r \<notin> {SAME_INFO_HASH, INFO_HASH_ALREADY_EXISTS,
                            INFO_HASH_ALREADY_EXISTS_ANOTHER_TRACKER, BLOCKED_RELEASE} \<and>
          \<not> seasonPackGuard e cfg m searchee \<and>
          distinct (map fl_length (s_files searchee)) \<and>
          sizeOnlyBijection (mf_files m) (s_files searchee) \<and>
          \<not> compareFileTrees m searchee"
  proof -
    from h have m: "ra_metafile r = Some m" by blast
    from h have "compareFileTreesIgnoringNames m searchee"
      by (blast intro: compareFileTreesIgnoringNames_bijection)
    moreover from assessCandidate_cases [OF assms m] h
    have "ra_decision r = contentDecision e cfg m searchee" by blast
    ultimately show ?thesis
      using h contentDecision_size_only [of m searchee e cfg] by simp
  qed
  have p2: "ra_decision r \<noteq> MATCH_SIZE_ONLY" if "matchMode cfg = STRICT"
    using assessCandidate_strict_never_size_only [OF that, of e metaOrCandidate searchee blocked candidateTracker w]
      assms
    by simp
  have p3: "matchMode cfg \<noteq> STRICT \<and> \<not> compareFileTrees m searchee \<and>
              (\<forall>n. count_list (map fl_length (mf_files m)) n \<le>
                    count_list (map fl_length (s_files searchee)) n)"
    if h: "ra_metafile r = Some m \<and> ra_decision r = MATCH_SIZE_ONLY"
  proof -
    from h have m: "ra_metafile r = Some m" and d: "ra_decision r = MATCH_SIZE_ONLY" by simp_all
    from assessCandidate_cases [OF assms m] d
    have "contentDecision e cfg m searchee = MATCH_SIZE_ONLY" by auto
    then have c: "\<not> compareFileTrees m searchee" "compareFileTreesIgnoringNames m searchee"
      "matchMode cfg \<noteq> STRICT"
      by (simp_all add: contentDecision_size_only_iff)
    from c(2) have "count_list (map fl_length (mf_files m)) n \<le>
                      count_list (map fl_length (s_files searchee)) n" for n
      unfolding compareFileTreesIgnoringNames_def by (rule ignoringNamesLoop_counts)
    with c show ?thesis by blast
  qed
  from p1 p2 p3 show ?thesis by blast
qed

lemma pair_run:
  "assessCandidate demoEnv (configOf mode) (Meta pairMeta) pairSearchee [] None freshWorld =
     (assessment (if mode = STRICT then FILE_TREE_MISMATCH else MATCH_SIZE_ONLY) (Some pairMeta) (Some True) None,
      freshWorld)"
  by (simp add: assessCandidate_def assessMetafile_def demoEnv_def configOf_def pairMeta_def pairSearchee_def
      freshWorld_def truthy_def conflictCandidateTrackers_def seasonPackGuard_def contentDecision_def
      compareFileTrees_def compareFileTreesIgnoringNames_def matchedSearcheeFiles_def Let_def)

theorem assessCandidate_size_only_witness:
  "distinct (map fl_length (s_files pairSearchee)) \<and>
   sizeOnlyBijection (mf_files pairMeta) (s_files pairSearchee) \<and>
   \<not> compareFileTrees pairMeta pairSearchee \<and>
   ra_decision (fst (assessCandidate demoEnv (configOf FLEXIBLE) (Meta pairMeta) pairSearchee [] None freshWorld)) =
     MATCH_SIZE_ONLY \<and>
   ra_decision (fst (assessCandidate demoEnv (configOf STRICT) (Meta pairMeta) pairSearchee [] None freshWorld)) =
     FILE_TREE_MISMATCH \<and>
   count_list (map fl_length (mf_files pairMeta)) 100 \<le> count_list (map fl_length (s_files pairSearchee)) 100"
proof -
  have a: "\<not> compareFileTrees pairMeta pairSearchee"
    by (simp add: compareFileTrees_def pairMeta_def pairSearchee_def truthy_def)
  have dl: "distinct (map fl_length (s_files pairSearchee))"
    by (simp add: pairSearchee_def)
  have "bij_betw id {..< length (mf_files pairMeta)} {..< length (s_files pairSearchee)}"
    by (simp add: pairMeta_def pairSearchee_def)
  moreover have "\<forall>i < length (mf_files pairMeta).
      fl_length (s_files pairSearchee ! id i) = fl_length (mf_files pairMeta ! i)"
    by (simp add: pairMeta_def pairSearchee_def less_Suc_eq numeral_2_eq_2)
  ultimately have b: "sizeOnlyBijection (mf_files pairMeta) (s_files pairSearchee)"
    unfolding sizeOnlyBijection_def by blast
  have g: "\<not> seasonPackGuard demoEnv (configOf mode) pairMeta pairSearchee" for mode
    by (simp add: seasonPackGuard_def demoEnv_def)
  have run: "assessCandidate demoEnv (configOf mode) (Meta pairMeta) pairSearchee [] None freshWorld =
      (fst (assessCandidate demoEnv (configOf mode) (Meta pairMeta) pairSearchee [] None freshWorld),
       snd (assessCandidate demoEnv (configOf mode) (Meta pairMeta) pairSearchee [] None freshWorld))" for mode
    by simp
  have meta: "ra_metafile (fst (assessCandidate demoEnv (configOf mode) (Meta pairMeta) pairSearchee [] None freshWorld)) =
      Some pairMeta" for mode
    by (simp add: pair_run assessment_def)
  have dec: "ra_decision (fst (assessCandidate demoEnv (configOf mode) (Meta pairMeta) pairSearchee [] None freshWorld))
      \<in> {MATCH_SIZE_ONLY, FILE_TREE_MISMATCH}" for mode
    by (simp add: pair_run assessment_def)
  have c: "ra_decision (fst (assessCandidate demoEnv (configOf FLEXIBLE) (Meta pairMeta) pairSearchee [] None freshWorld)) =
     MATCH_SIZE_ONLY"
    using assessCandidate_size_only [OF run [of FLEXIBLE], where m = pairMeta] a b dl g [of FLEXIBLE]
      meta [of FLEXIBLE] dec [of FLEXIBLE]
    by (auto simp: configOf_def)
  have d: "ra_decision (fst (assessCandidate demoEnv (configOf STRICT) (Meta pairMeta) pairSearchee [] None freshWorld)) =
     FILE_TREE_MISMATCH"
    using assessCandidate_size_only [OF run [of STRICT], where m = pairMeta] a b dl g [of STRICT]
      meta [of STRICT] dec [of STRICT]
    by (auto simp: configOf_def)
  have k: "count_list (map fl_length (mf_files pairMeta)) 100 \<le> count_list (map fl_length (s_files pairSearchee)) 100"
    using assessCandidate_size_only [OF run [of FLEXIBLE], where m = pairMeta] meta [of FLEXIBLE] c
    by blast
  from dl b a c d k show ?thesis by blast
qed

text \<open>
  C4 as stated fails for a size-only bijection in the plain sense: two candidate files
  of length 100 against two searchee files of length 100 under other names correspond
  one to one by length, yet \<open>compareFileTreesIgnoringNames\<close> asks for an equal name
  as soon as two searchee files share the length, and the assessment is
  \<open>SIZE_MISMATCH\<close> in both modes.
\<close>

theorem assessCandidate_twin_sizes_counterexample:
  "sizeOnlyBijection (mf_files twinMeta) (s_files twinSearchee) \<and>
   \<not> compareFileTrees twinMeta twinSearchee \<and>
   \<not> compareFileTreesIgnoringNames twinMeta twinSearchee \<and>
   ra_decision (fst (assessCandidate demoEnv (configOf FLEXIBLE) (Meta twinMeta) twinSearchee [] None freshWorld)) =
     SIZE_MISMATCH \<and>
   ra_decision (fst (assessCandidate demoEnv (configOf STRICT) (Meta twinMeta) twinSearchee [] None freshWorld)) =
     SIZE_MISMATCH"
proof -
  have "bij_betw id {..< length (mf_files twinMeta)} {..< length (s_files twinSearchee)}"
    by (simp add: twinMeta_def twinSearchee_def)
  moreover have "\<forall>i < length (mf_files twinMeta).
      fl_length (s_files twinSearchee ! id i) = fl_length (mf_files twinMeta ! i)"
    by (simp add: twinMeta_def twinSearchee_def less_Suc_eq numeral_2_eq_2)
  ultimately have bij: "sizeOnlyBijection (mf_files twinMeta) (s_files twinSearchee)"
    unfolding sizeOnlyBijection_def by blast
  have a: "\<not> compareFileTrees twinMeta twinSearchee"
    by (simp add: compareFileTrees_def twinMeta_def twinSearchee_def truthy_def)
  have b: "\<not> compareFileTreesIgnoringNames twinMeta twinSearchee"
    by (simp add: compareFileTreesIgnoringNames_def matchedSearcheeFiles_def twinMeta_def twinSearchee_def)
  have hs: "s_infoHash twinSearchee \<noteq> Some (mf_infoHash twinMeta)"
    by (simp add: twinMeta_def twinSearchee_def)
  have cd: "contentDecision demoEnv (configOf mode) twinMeta twinSearchee = SIZE_MISMATCH"
    if "mode \<noteq> PARTIAL" for mode
    using a b that by (simp add: contentDecision_def configOf_def)
  have run: "ra_decision (fst (assessCandidate demoEnv (configOf mode) (Meta twinMeta) twinSearchee [] None freshWorld)) =
     SIZE_MISMATCH" if "mode \<noteq> PARTIAL" for mode
    using hs cd [OF that]
    by (simp add: assessCandidate_def assessMetafile_def demoEnv_def
      freshWorld_def truthy_def conflictCandidateTrackers_def seasonPackGuard_def Let_def
      assessment_def)
  from bij a b run [of FLEXIBLE] run [of STRICT] show ?thesis by simp
qed

lemma assessCandidate_past_prefilters:
  assumes "releaseGroupDoesMatch e (s_title s) (c_name c)" "resolutionDoesMatch e (s_title s) (c_name c)"
    "sourceDoesMatch e (s_title s) (c_name c)" "releaseVersionDoesMatch e (s_title s) (c_name c)"
    "case c_size c of None \<Rightarrow> True | Some sz \<Rightarrow> sz = 0 \<or> fuzzySizeDoesMatch e sz s"
  shows "ra_decision (fst (assessCandidate e cfg (Cand c) s bl ct w)) \<noteq> FUZZY_SIZE_MISMATCH"
proof -
  have am: "ra_decision (fst (assessMetafile e cfg m mc s bl ct w2)) \<noteq> FUZZY_SIZE_MISMATCH" for m mc w2
    using assessMetafile_not_prefilter [of e cfg m mc s bl ct w2] by simp
  have nf: "\<not> (case c_size c of None \<Rightarrow> False | Some sz \<Rightarrow> sz \<noteq> 0 \<and> \<not> fuzzySizeDoesMatch e sz s)"
    using assms(5) by (simp split: option.splits)
  show ?thesis
    unfolding assessCandidate_def using assms(1-4) nf am
    by (auto simp: assessment_def Let_def split: sum.splits prod.splits)
qed

text \<open>
  C5. For a candidate, \<open>assessCandidate\<close> applies the pre-filters in the order
  release group, resolution, source, proper/repack, fuzzy size, download link: the
  first of them that fails decides, with the decision of its name, no metafile and the
  state (database, request log, exclusion set, guid map) exactly as before the call.
  So the state differs after the call, and in particular a snatch was requested, only
  if all six passed; and when all six pass, the decision is none of their six.
\<close>

theorem assessCandidate_prefilter_order:
  assumes "t = s_title searchee" and "n = c_name candidate"
    and "rg = releaseGroupDoesMatch e t n"
    and "res = resolutionDoesMatch e t n"
    and "src = sourceDoesMatch e t n"
    and "ver = releaseVersionDoesMatch e t n"
    and "fz = (case c_size candidate of None \<Rightarrow> True | Some sz \<Rightarrow> sz = 0 \<or> fuzzySizeDoesMatch e sz searchee)"
    and "lnk = (c_link candidate \<noteq> [])"
    and "result = assessCandidate e cfg (Cand candidate) searchee blocked candidateTracker w"
  shows "(\<not> rg \<longrightarrow> result = (assessment RELEASE_GROUP_MISMATCH None None None, w)) \<and>
         (rg \<and> \<not> res \<longrightarrow> result = (assessment RESOLUTION_MISMATCH None None None, w)) \<and>
         (rg \<and> res \<and> \<not> src \<longrightarrow> result = (assessment SOURCE_MISMATCH None None None, w)) \<and>
         (rg \<and> res \<and> src \<and> \<not> ver \<longrightarrow> result = (assessment PROPER_REPACK_MISMATCH None None None, w)) \<and>
         (rg \<and> res \<and> src \<and> ver \<and> \<not> fz \<longrightarrow> result = (assessment FUZZY_SIZE_MISMATCH None None None, w)) \<and>
         (rg \<and> res \<and> src \<and> ver \<and> fz \<and> \<not> lnk \<longrightarrow> result = (assessment NO_DOWNLOAD_LINK None None None, w)) \<and>
         (snd result \<noteq> w \<longrightarrow> rg \<and> res \<and> src \<and> ver \<and> fz \<and> lnk) \<and>
         (rg \<and> res \<and> src \<and> ver \<and> fz \<and> lnk \<longrightarrow>
            ra_decision (fst result) \<notin> {RELEASE_GROUP_MISMATCH, RESOLUTION_MISMATCH, SOURCE_MISMATCH,
              PROPER_REPACK_MISMATCH, FUZZY_SIZE_MISMATCH, NO_DOWNLOAD_LINK})"
proof -
  have nf: "(case c_size candidate of None \<Rightarrow> False
              | Some sz \<Rightarrow> sz \<noteq> 0 \<and> \<not> fuzzySizeDoesMatch e sz searchee) = (\<not> fz)"
    unfolding assms(7) by (simp split: option.splits)
  have p1: "\<not> rg \<longrightarrow> result = (assessment RELEASE_GROUP_MISMATCH None None None, w)"
    unfolding assms by (simp add: assessCandidate_def)
  have p2: "rg \<and> \<not> res \<longrightarrow> result = (assessment RESOLUTION_MISMATCH None None None, w)"
    unfolding assms by (simp add: assessCandidate_def)
  have p3: "rg \<and> res \<and> \<not> src \<longrightarrow> result = (assessment SOURCE_MISMATCH None None None, w)"
    unfolding assms by (simp add: assessCandidate_def)
  have p4: "rg \<and> res \<and> src \<and> \<not> ver \<longrightarrow> result = (assessment PROPER_REPACK_MISMATCH None None None, w)"
    unfolding assms by (simp add: assessCandidate_def)
  have p5: "rg \<and> res \<and> src \<and> ver \<and> \<not> fz \<longrightarrow> result = (assessment FUZZY_SIZE_MISMATCH None None None, w)"
    using nf unfolding assms(1-6,8,9) by (simp add: assessCandidate_def)
  have p6: "rg \<and> res \<and> src \<and> ver \<and> fz \<and> \<not> lnk \<longrightarrow> result = (assessment NO_DOWNLOAD_LINK None None None, w)"
    using nf unfolding assms(1-6,8,9) by (simp add: assessCandidate_def)
  from p1 p2 p3 p4 p5 p6 have p7: "snd result \<noteq> w \<longrightarrow> rg \<and> res \<and> src \<and> ver \<and> fz \<and> lnk"
    by (metis snd_conv)
  have p8: "rg \<and> res \<and> src \<and> ver \<and> fz \<and> lnk \<longrightarrow>
            ra_decision (fst result) \<notin> {RELEASE_GROUP_MISMATCH, RESOLUTION_MISMATCH, SOURCE_MISMATCH,
              PROPER_REPACK_MISMATCH, FUZZY_SIZE_MISMATCH, NO_DOWNLOAD_LINK}"
  proof
    assume a: "rg \<and> res \<and> src \<and> ver \<and> fz \<and> lnk"
    have am: "ra_decision (fst (assessMetafile e cfg m mc searchee blocked candidateTracker w2)) \<notin>
        {RELEASE_GROUP_MISMATCH, RESOLUTION_MISMATCH, SOURCE_MISMATCH,
              PROPER_REPACK_MISMATCH, FUZZY_SIZE_MISMATCH, NO_DOWNLOAD_LINK}" for m mc w2
      by (rule assessMetafile_not_prefilter)
    from a nf have x: "releaseGroupDoesMatch e (s_title searchee) (c_name candidate)"
      "resolutionDoesMatch e (s_title searchee) (c_name candidate)"
      "sourceDoesMatch e (s_title searchee) (c_name candidate)"
      "releaseVersionDoesMatch e (s_title searchee) (c_name candidate)"
      "\<not> (case c_size candidate of None \<Rightarrow> False
              | Some sz \<Rightarrow> sz \<noteq> 0 \<and> \<not> fuzzySizeDoesMatch e sz searchee)"
      "c_link candidate \<noteq> []"
      unfolding assms(1-6,8) by simp_all
    show "ra_decision (fst result) \<notin> {RELEASE_GROUP_MISMATCH, RESOLUTION_MISMATCH, SOURCE_MISMATCH,
              PROPER_REPACK_MISMATCH, FUZZY_SIZE_MISMATCH, NO_DOWNLOAD_LINK}"
      unfolding assms(9) assessCandidate_def using x am
      by (auto simp: assessment_def Let_def split: sum.splits prod.splits)
  qed
  from p1 p2 p3 p4 p5 p6 p7 p8 show ?thesis by blast
qed

lemma demo_prefilters:
  "releaseGroupDoesMatch demoEnv t n" "resolutionDoesMatch demoEnv t n" "sourceDoesMatch demoEnv t n"
  "releaseVersionDoesMatch demoEnv t n"
  by (simp_all add: releaseGroupDoesMatch_def resolutionDoesMatch_def sourceDoesMatch_def
      releaseVersionDoesMatch_def demoEnv_def truthy_def)

theorem assessCandidate_prefilter_order_witness:
  "assessCandidate (demoEnv\<lparr> repackProper := (\<lambda>t. t = ''Movie.2020.REPACK'') \<rparr>) (configOf FLEXIBLE)
     (Cand (candidateOf ''Movie.2020.REPACK'' (Some 2000) [])) bigSearchee [] None freshWorld =
     (assessment PROPER_REPACK_MISMATCH None None None, freshWorld) \<and>
   assessCandidate demoEnv (configOf FLEXIBLE)
     (Cand (candidateOf ''Movie.2020'' (Some 2000) [])) bigSearchee [] None freshWorld =
     (assessment FUZZY_SIZE_MISMATCH None None None, freshWorld) \<and>
   assessCandidate demoEnv (configOf FLEXIBLE)
     (Cand (candidateOf ''Movie.2020'' (Some 1000) [])) bigSearchee [] None freshWorld =
     (assessment NO_DOWNLOAD_LINK None None None, freshWorld)"
proof -
  let ?e = "demoEnv\<lparr> repackProper := (\<lambda>t. t = ''Movie.2020.REPACK'') \<rparr>"
  have pre: "releaseGroupDoesMatch ?e t n" "resolutionDoesMatch ?e t n" "sourceDoesMatch ?e t n" for t n
    by (simp_all add: releaseGroupDoesMatch_def resolutionDoesMatch_def sourceDoesMatch_def
      demoEnv_def truthy_def)
  have ver: "\<not> releaseVersionDoesMatch ?e (s_title bigSearchee) (c_name (candidateOf ''Movie.2020.REPACK'' (Some 2000) []))"
    by (simp add: releaseVersionDoesMatch_def bigSearchee_def candidateOf_def)
  have a: "assessCandidate ?e (configOf FLEXIBLE)
     (Cand (candidateOf ''Movie.2020.REPACK'' (Some 2000) [])) bigSearchee [] None freshWorld =
     (assessment PROPER_REPACK_MISMATCH None None None, freshWorld)"
    using assessCandidate_prefilter_order [OF refl refl refl refl refl refl refl refl refl,
        where e = ?e and searchee = bigSearchee
          and candidate = "candidateOf ''Movie.2020.REPACK'' (Some 2000) []"
          and cfg = "configOf FLEXIBLE" and blocked = "[]" and candidateTracker = None and w = freshWorld]
      pre ver
    by blast
  have fz: "\<not> fuzzySizeDoesMatch demoEnv 2000 bigSearchee" "fuzzySizeDoesMatch demoEnv 1000 bigSearchee"
    by (simp_all add: fuzzy_bounds_1000)
  have b: "assessCandidate demoEnv (configOf FLEXIBLE)
     (Cand (candidateOf ''Movie.2020'' (Some 2000) [])) bigSearchee [] None freshWorld =
     (assessment FUZZY_SIZE_MISMATCH None None None, freshWorld)"
    using assessCandidate_prefilter_order [OF refl refl refl refl refl refl refl refl refl,
        where e = demoEnv and searchee = bigSearchee
          and candidate = "candidateOf ''Movie.2020'' (Some 2000) []"
          and cfg = "configOf FLEXIBLE" and blocked = "[]" and candidateTracker = None and w = freshWorld]
      demo_prefilters fz
    by (simp add: candidateOf_def)
  have c: "assessCandidate demoEnv (configOf FLEXIBLE)
     (Cand (candidateOf ''Movie.2020'' (Some 1000) [])) bigSearchee [] None freshWorld =
     (assessment NO_DOWNLOAD_LINK None None None, freshWorld)"
    using assessCandidate_prefilter_order [OF refl refl refl refl refl refl refl refl refl,
        where e = demoEnv and searchee = bigSearchee
          and candidate = "candidateOf ''Movie.2020'' (Some 1000) []"
          and cfg = "configOf FLEXIBLE" and blocked = "[]" and candidateTracker = None and w = freshWorld]
      demo_prefilters fz
    by (simp add: candidateOf_def)
  from a b c show ?thesis by blast
qed

text \<open>
  C8, as amended. For a candidate with an advertised size that passes the four
  pre-filters before, the assessment is \<open>FUZZY_SIZE_MISMATCH\<close> exactly when the size
  is not zero and \<open>fuzzySizeDoesMatch\<close> fails, and the state is then unchanged: no
  snatch was requested. \<open>fuzzySizeDoesMatch\<close> is the test of the size against the
  inclusive bounds, the product, the difference and the sum each rounded to a double.
  For a searchee of positive length and a factor that is not negative, the test holds
  when the relative difference of the sizes is at most the factor less
  \<open>roundingBand\<close>, and only when it is at most the factor plus \<open>roundingBand\<close>; and
  where the product, the difference and the sum are doubles themselves, it holds
  exactly when the relative difference is at most the factor.
\<close>

theorem fuzzySize_prefilter:
  assumes "c_size candidate = Some sz"
    and "releaseGroupDoesMatch e (s_title searchee) (c_name candidate)"
    and "resolutionDoesMatch e (s_title searchee) (c_name candidate)"
    and "sourceDoesMatch e (s_title searchee) (c_name candidate)"
    and "releaseVersionDoesMatch e (s_title searchee) (c_name candidate)"
    and "len = real_of_int (s_length searchee)"
    and "factor = getFuzzySizeFactor e searchee"
    and "result = assessCandidate e cfg (Cand candidate) searchee blocked candidateTracker w"
  shows "(ra_decision (fst result) = FUZZY_SIZE_MISMATCH \<longleftrightarrow> sz \<noteq> 0 \<and> \<not> fuzzySizeDoesMatch e sz searchee) \<and>
         (sz \<noteq> 0 \<and> \<not> fuzzySizeDoesMatch e sz searchee \<longrightarrow>
            result = (assessment FUZZY_SIZE_MISMATCH None None None, w)) \<and>
         (fuzzySizeDoesMatch e sz searchee \<longleftrightarrow>
            roundDouble (len - roundDouble (factor * len)) \<le> real_of_int sz \<and>
            real_of_int sz \<le> roundDouble (len + roundDouble (factor * len))) \<and>
         (0 < len \<and> 0 \<le> factor \<and> \<bar>real_of_int sz - len\<bar> / len \<le> factor - roundingBand factor
            \<longrightarrow> fuzzySizeDoesMatch e sz searchee) \<and>
         (0 < len \<and> 0 \<le> factor \<and> fuzzySizeDoesMatch e sz searchee
            \<longrightarrow> \<bar>real_of_int sz - len\<bar> / len \<le> factor + roundingBand factor) \<and>
         (0 < len \<and> roundDouble (factor * len) = factor * len \<and>
          roundDouble (len - factor * len) = len - factor * len \<and>
          roundDouble (len + factor * len) = len + factor * len
            \<longrightarrow> (fuzzySizeDoesMatch e sz searchee \<longleftrightarrow> \<bar>real_of_int sz - len\<bar> / len \<le> factor))"
proof -
  have pass: "ra_decision (fst result) \<noteq> FUZZY_SIZE_MISMATCH" if "sz = 0 \<or> fuzzySizeDoesMatch e sz searchee"
    unfolding assms(8)
    using assessCandidate_past_prefilters [OF assms(2-5), of cfg blocked candidateTracker w] that assms(1)
    by simp
  have rej: "result = (assessment FUZZY_SIZE_MISMATCH None None None, w)"
    if "sz \<noteq> 0 \<and> \<not> fuzzySizeDoesMatch e sz searchee"
    unfolding assms(8) using that assms(1-5) by (simp add: assessCandidate_def)
  have p1: "ra_decision (fst result) = FUZZY_SIZE_MISMATCH \<longleftrightarrow> sz \<noteq> 0 \<and> \<not> fuzzySizeDoesMatch e sz searchee"
  proof
    assume "ra_decision (fst result) = FUZZY_SIZE_MISMATCH"
    with pass show "sz \<noteq> 0 \<and> \<not> fuzzySizeDoesMatch e sz searchee" by blast
  next
    assume "sz \<noteq> 0 \<and> \<not> fuzzySizeDoesMatch e sz searchee"
    from rej [OF this] show "ra_decision (fst result) = FUZZY_SIZE_MISMATCH"
      by (simp add: assessment_def)
  qed
  have p3: "fuzzySizeDoesMatch e sz searchee \<longleftrightarrow>
            roundDouble (len - roundDouble (factor * len)) \<le> real_of_int sz \<and>
            real_of_int sz \<le> roundDouble (len + roundDouble (factor * len))"
    unfolding assms(6,7) by (simp add: fuzzySizeDoesMatch_def Let_def)
  have p4: "fuzzySizeDoesMatch e sz searchee"
    if "0 < len \<and> 0 \<le> factor \<and> \<bar>real_of_int sz - len\<bar> / len \<le> factor - roundingBand factor"
    using that fuzzySize_band(1) [of searchee e sz] unfolding assms(6,7) by simp
  have p5: "\<bar>real_of_int sz - len\<bar> / len \<le> factor + roundingBand factor"
    if "0 < len \<and> 0 \<le> factor \<and> fuzzySizeDoesMatch e sz searchee"
    using that fuzzySize_band(2) [of searchee e sz] unfolding assms(6,7) by simp
  have p6: "fuzzySizeDoesMatch e sz searchee \<longleftrightarrow> \<bar>real_of_int sz - len\<bar> / len \<le> factor"
    if "0 < len \<and> roundDouble (factor * len) = factor * len \<and>
          roundDouble (len - factor * len) = len - factor * len \<and>
          roundDouble (len + factor * len) = len + factor * len"
    using that fuzzySize_exact [of searchee e sz] unfolding assms(6,7) by simp
  from p1 rej p3 p4 p5 p6 show ?thesis by blast
qed

theorem fuzzySize_prefilter_witness:
  "assessCandidate demoEnv (configOf FLEXIBLE)
     (Cand (candidateOf ''Movie.2020'' (Some 2000) ''http://indexer/1'')) bigSearchee [] None freshWorld =
     (assessment FUZZY_SIZE_MISMATCH None None None, freshWorld) \<and>
   w_io freshWorld = [] \<and>
   \<not> fuzzySizeDoesMatch demoEnv 2000 bigSearchee \<and>
   roundingBand double_0_02 < 1 / 2 ^ 52 \<and>
   fuzzySizeDoesMatch demoEnv 1020 bigSearchee \<and>
   ra_decision (fst (assessCandidate demoEnv (configOf FLEXIBLE)
     (Cand (candidateOf ''Movie.2020'' (Some 1020) ''http://indexer/1'')) bigSearchee [] None freshWorld)) \<noteq>
     FUZZY_SIZE_MISMATCH \<and>
   fuzzySizeDoesMatch (factorEnv (1 / 4)) 1250 bigSearchee \<and>
   \<not> fuzzySizeDoesMatch (factorEnv (1 / 4)) 1251 bigSearchee"
proof -
  note inst = fuzzySize_prefilter [OF _ demo_prefilters refl refl refl,
      where searchee = bigSearchee and cfg = "configOf FLEXIBLE" and blocked = "[]"
        and candidateTracker = None and w = freshWorld]
  have l: "0 < real_of_int (s_length bigSearchee)" "real_of_int (s_length bigSearchee) = 1000"
    "getFuzzySizeFactor demoEnv bigSearchee = double_0_02"
    by (simp_all add: bigSearchee_def demoEnv_def)
  have band: "roundingBand double_0_02 < 1 / 2 ^ 52" "0 \<le> double_0_02"
    "double_0_02 + roundingBand double_0_02 < 1"
    by (simp_all add: roundingBand_def double_0_02_def)
  have r: "\<not> fuzzySizeDoesMatch demoEnv 2000 bigSearchee"
    using inst [where candidate = "candidateOf ''Movie.2020'' (Some 2000) ''http://indexer/1''" and sz = 2000]
      l band
    by (auto simp: candidateOf_def)
  have a: "assessCandidate demoEnv (configOf FLEXIBLE)
     (Cand (candidateOf ''Movie.2020'' (Some 2000) ''http://indexer/1'')) bigSearchee [] None freshWorld =
     (assessment FUZZY_SIZE_MISMATCH None None None, freshWorld)"
    using inst [where candidate = "candidateOf ''Movie.2020'' (Some 2000) ''http://indexer/1''" and sz = 2000] r
    by (simp add: candidateOf_def)
  have p: "fuzzySizeDoesMatch demoEnv 1020 bigSearchee"
    by (simp add: fuzzy_bounds_1000)
  have b: "ra_decision (fst (assessCandidate demoEnv (configOf FLEXIBLE)
     (Cand (candidateOf ''Movie.2020'' (Some 1020) ''http://indexer/1'')) bigSearchee [] None freshWorld)) \<noteq>
     FUZZY_SIZE_MISMATCH"
    using inst [where candidate = "candidateOf ''Movie.2020'' (Some 1020) ''http://indexer/1''" and sz = 1020] p
    by (simp add: candidateOf_def)
  have c: "w_io freshWorld = []" by (simp add: freshWorld_def)
  have q: "getFuzzySizeFactor (factorEnv (1 / 4)) bigSearchee = 1 / 4"
    by (simp add: factorEnv_def)
  have pre: "releaseGroupDoesMatch (factorEnv f) t n" "resolutionDoesMatch (factorEnv f) t n"
    "sourceDoesMatch (factorEnv f) t n" "releaseVersionDoesMatch (factorEnv f) t n" for f t n
    by (simp_all add: releaseGroupDoesMatch_def resolutionDoesMatch_def sourceDoesMatch_def
        releaseVersionDoesMatch_def factorEnv_def demoEnv_def truthy_def)
  have ex: "roundDouble (1 / 4 * 1000) = 1 / 4 * 1000" "roundDouble (1000 - 1 / 4 * 1000) = 1000 - 1 / 4 * 1000"
    "roundDouble (1000 + 1 / 4 * 1000) = 1000 + 1 / 4 * 1000"
    using roundDouble_int [of 250] roundDouble_int [of 750] roundDouble_int [of 1250] by simp_all
  note inst4 = fuzzySize_prefilter [OF _ pre [where f = "1 / 4"] refl refl refl,
      where searchee = bigSearchee and cfg = "configOf FLEXIBLE" and blocked = "[]"
        and candidateTracker = None and w = freshWorld]
  have e1: "fuzzySizeDoesMatch (factorEnv (1 / 4)) 1250 bigSearchee"
    using inst4 [where candidate = "candidateOf ''Movie.2020'' (Some 1250) ''http://indexer/1''" and sz = 1250]
      l(1,2) q ex
    by (simp add: candidateOf_def)
  have e2: "\<not> fuzzySizeDoesMatch (factorEnv (1 / 4)) 1251 bigSearchee"
    using inst4 [where candidate = "candidateOf ''Movie.2020'' (Some 1251) ''http://indexer/1''" and sz = 1251]
      l(1,2) q ex
    by (simp add: candidateOf_def)
  from a c r band(1) p b e1 e2 show ?thesis by blast
qed

text \<open>
  C8 as stated fails for a candidate that advertises the size 0: against the searchee
  of length 1000 at the factor \<open>0.02\<close> the relative difference is 1, yet the
  pre-filter passes and the snatch is requested. It also fails at the bounds, where
  rounding decides: at the factor \<open>0.3\<close> the size 7 passes against the length 10,
  because the product rounds to 3, although the relative difference \<open>3 / 10\<close> exceeds
  the factor, the double below \<open>3 / 10\<close>.
\<close>

theorem fuzzySize_zero_size_counterexample:
  "assessCandidate demoEnv (configOf FLEXIBLE)
     (Cand (candidateOf ''Movie.2020'' (Some 0) ''http://indexer/1'')) bigSearchee [] None freshWorld =
     (assessment DOWNLOAD_FAILED None None None, emit (Snatch ''guid-1'') freshWorld) \<and>
   \<not> \<bar>real_of_int 0 - real_of_int (s_length bigSearchee)\<bar> / real_of_int (s_length bigSearchee)
        \<le> getFuzzySizeFactor demoEnv bigSearchee \<and>
   fuzzySizeDoesMatch (factorEnv double_0_3) 7 smallSearchee \<and>
   \<not> \<bar>real_of_int 7 - real_of_int (s_length smallSearchee)\<bar> / real_of_int (s_length smallSearchee)
        \<le> getFuzzySizeFactor (factorEnv double_0_3) smallSearchee"
proof -
  have a: "assessCandidate demoEnv (configOf FLEXIBLE)
     (Cand (candidateOf ''Movie.2020'' (Some 0) ''http://indexer/1'')) bigSearchee [] None freshWorld =
     (assessment DOWNLOAD_FAILED None None None, emit (Snatch ''guid-1'') freshWorld)"
    using demo_prefilters
    by (simp add: assessCandidate_def candidateOf_def demoEnv_def truthy_def Let_def)
  have b: "\<not> \<bar>real_of_int 0 - real_of_int (s_length bigSearchee)\<bar> / real_of_int (s_length bigSearchee)
        \<le> getFuzzySizeFactor demoEnv bigSearchee"
    by (simp add: bigSearchee_def demoEnv_def double_0_02_def)
  have "roundDouble (double_0_3 * 10) =
      real_of_int (roundHalfEven (double_0_3 * 10 * 2 ^ (52 - 1))) / 2 ^ (52 - 1)"
    by (rule roundDouble_binade) (simp_all add: double_0_3_def)
  also have "\<dots> = 3"
    by (simp add: double_0_3_def roundHalfEven_def Let_def)
  finally have p: "roundDouble (double_0_3 * 10) = 3" .
  have lo: "roundDouble 7 = 7" using roundDouble_int [of 7] by simp
  have up: "roundDouble 13 = 13" using roundDouble_int [of 13] by simp
  have c: "fuzzySizeDoesMatch (factorEnv double_0_3) 7 smallSearchee"
    by (simp add: fuzzySizeDoesMatch_def Let_def factorEnv_def smallSearchee_def p lo up)
  have d: "\<not> \<bar>real_of_int 7 - real_of_int (s_length smallSearchee)\<bar> / real_of_int (s_length smallSearchee)
        \<le> getFuzzySizeFactor (factorEnv double_0_3) smallSearchee"
    by (simp add: factorEnv_def smallSearchee_def double_0_3_def)
  from a b c d show ?thesis by blast
qed

section \<open>Properties of the persisted assessments\<close>

lemma find_map_Some:
  assumes "find P (map g xs) = Some y" and "\<And>x. P (g x) = P x"
  shows "\<exists>x \<in> set xs. P x \<and> y = g x"
  using assms(1) by (induction xs) (auto simp: assms(2) split: if_splits)

lemma find_append_new:
  assumes "find P (xs @ [z]) = Some y" and "\<not> list_ex P xs"
  shows "y = z"
  using assms by (induction xs) (auto split: if_splits)

lemma upsertDecision_found:
  assumes "find (\<lambda>dr. de_searchee_id dr = sid \<and> de_guid dr = guid)
             (tbl_decision (upsertDecision sid guid ih dec fs ls f d)) = Some dr"
  shows "de_decision dr = dec \<and> de_info_hash dr = Some ih"
proof (cases "list_ex (\<lambda>r. de_searchee_id r = sid \<and> de_guid r = guid) (tbl_decision d)")
  case True
  let ?g = "\<lambda>r. if de_searchee_id r = sid \<and> de_guid r = guid
                  then r\<lparr> de_info_hash := Some ih, de_decision := dec, de_first_seen := Some fs,
                          de_last_seen := ls, de_fuzzy_size_factor := f \<rparr>
                  else r"
  from True assms have "find (\<lambda>dr. de_searchee_id dr = sid \<and> de_guid dr = guid)
      (map ?g (tbl_decision d)) = Some dr"
    by (simp add: upsertDecision_def)
  moreover have "(de_searchee_id (?g x) = sid \<and> de_guid (?g x) = guid) =
      (de_searchee_id x = sid \<and> de_guid x = guid)" for x
    by simp
  ultimately have "\<exists>x \<in> set (tbl_decision d). (de_searchee_id x = sid \<and> de_guid x = guid) \<and> dr = ?g x"
    by (rule find_map_Some)
  then obtain x where "de_searchee_id x = sid \<and> de_guid x = guid" "dr = ?g x"
    by blast
  then show ?thesis by simp
next
  case False
  with assms have "find (\<lambda>dr. de_searchee_id dr = sid \<and> de_guid dr = guid)
      (tbl_decision d @ [\<lparr> de_id = Suc (decision_seq d), de_searchee_id = sid, de_guid = guid,
                     de_info_hash = Some ih, de_decision = dec, de_first_seen = Some fs,
                     de_last_seen = ls, de_fuzzy_size_factor = f \<rparr>]) = Some dr"
    by (simp add: upsertDecision_def)
  from find_append_new [OF this False] show ?thesis by simp
qed

lemma upsertCollisionRecord_tables:
  "tbl_decision (upsertCollisionRecord now i t fs ls d) = tbl_decision d"
  "tbl_searchee (upsertCollisionRecord now i t fs ls d) = tbl_searchee d"
  by (simp_all add: upsertCollisionRecord_def Let_def insertCollisionMerge_def deleteCollisionRecord_def
      refreshCollision_def split: option.splits)

lemma deleteCollisionRecord_tables:
  "tbl_decision (deleteCollisionRecord i d) = tbl_decision d"
  "tbl_searchee (deleteCollisionRecord i d) = tbl_searchee d"
  "\<not> list_ex (\<lambda>c. co_decision_id c = i) (tbl_collisions (deleteCollisionRecord i d))"
  by (simp_all add: deleteCollisionRecord_def list_ex_iff)

lemma upsertDecision_tables:
  "tbl_searchee (upsertDecision sid guid ih dec fs ls f d) = tbl_searchee d"
  "tbl_collisions (upsertDecision sid guid ih dec fs ls f d) = tbl_collisions d"
  by (simp_all add: upsertDecision_def)

lemma upsert_leaves_row:
  "\<exists>c \<in> set (tbl_collisions (upsertCollisionRecord now i t fs ls d)).
      co_decision_id c = i \<or>
      (\<exists>infoHash n. equivalentCollision (upsertCollisionRecord now i t fs ls d) i infoHash n
                       (stringify (candidateTrackers t)) (stringify (knownTrackers t)) c)"
proof -
  let ?p = "collisionPayload now i t fs ls"
  have pid: "co_decision_id ?p = i" "co_candidate_trackers ?p = stringify (candidateTrackers t)"
    "co_known_trackers ?p = stringify (knownTrackers t)"
    by (simp_all add: collisionPayload_def)
  have merge: "\<exists>c \<in> set (tbl_collisions (insertCollisionMerge ?p d)). co_decision_id c = i"
  proof (cases "list_ex (\<lambda>c. co_decision_id c = co_decision_id ?p) (tbl_collisions d)")
    case True
    then obtain c where c: "c \<in> set (tbl_collisions d)" "co_decision_id c = i"
      unfolding list_ex_iff pid by blast
    let ?g = "\<lambda>c. if co_decision_id c = co_decision_id ?p
                     then c\<lparr> co_candidate_trackers := co_candidate_trackers ?p,
                             co_known_trackers := co_known_trackers ?p,
                             co_last_seen := co_last_seen ?p,
                             co_updated_at := co_updated_at ?p \<rparr>
                     else c"
    from c(1) have "?g c \<in> set (map ?g (tbl_collisions d))"
      unfolding set_map by (rule imageI)
    moreover from c(2) have "co_decision_id (?g c) = i" by (simp add: pid)
    moreover from True have "tbl_collisions (insertCollisionMerge ?p d) = map ?g (tbl_collisions d)"
      by (simp add: insertCollisionMerge_def)
    ultimately have m: "?g c \<in> set (tbl_collisions (insertCollisionMerge ?p d))"
      and k: "co_decision_id (?g c) = i"
      by simp_all
    from k m show ?thesis by (rule bexI)
  next
    case False
    then have "?p \<in> set (tbl_collisions (insertCollisionMerge ?p d))"
      by (simp add: insertCollisionMerge_def)
    with pid(1) show ?thesis by blast
  qed
  show ?thesis
  proof (cases "findEquivalent i ?p d")
    case None
    then have "upsertCollisionRecord now i t fs ls d = insertCollisionMerge ?p d"
      by (simp add: upsertCollisionRecord_def)
    with merge show ?thesis by auto
  next
    case (Some existing)
    show ?thesis
    proof (cases "co_decision_id existing = 0")
      case True
      with Some have "upsertCollisionRecord now i t fs ls d = insertCollisionMerge ?p d"
        by (simp add: upsertCollisionRecord_def)
      with merge show ?thesis by auto
    next
      case False
      let ?d' = "deleteCollisionRecord i
                   (refreshCollision (co_decision_id existing) (co_last_seen ?p) (co_updated_at ?p) d)"
      from Some False have up: "upsertCollisionRecord now i t fs ls d = ?d'"
        by (simp add: upsertCollisionRecord_def Let_def)
      from findEquivalent_sound [OF Some] obtain infoHash n where
        mem: "existing \<in> set (tbl_collisions d)"
        and eqv: "equivalentCollision d i infoHash n (stringify (candidateTrackers t))
                    (stringify (knownTrackers t)) existing"
        unfolding pid by blast
      let ?c = "existing\<lparr> co_last_seen := co_last_seen ?p, co_updated_at := co_updated_at ?p \<rparr>"
      from eqv have ne: "co_decision_id existing \<noteq> i" by (simp add: equivalentCollision_def)
      let ?r = "\<lambda>c. if co_decision_id c = co_decision_id existing
                       then c\<lparr> co_last_seen := co_last_seen ?p, co_updated_at := co_updated_at ?p \<rparr>
                       else c"
      from mem have "?r existing \<in> set (map ?r (tbl_collisions d))"
        unfolding set_map by (rule imageI)
      then have "?c \<in> set (map ?r (tbl_collisions d))" by simp
      with ne have "?c \<in> set (filter (\<lambda>c. co_decision_id c \<noteq> i) (map ?r (tbl_collisions d)))"
        by simp
      then have "?c \<in> set (tbl_collisions ?d')"
        by (simp add: deleteCollisionRecord_def refreshCollision_def)
      moreover from eqv have "equivalentCollision ?d' i infoHash n (stringify (candidateTrackers t))
                    (stringify (knownTrackers t)) ?c"
        by (simp add: equivalentCollision_def joinedCollision_def deleteCollisionRecord_def refreshCollision_def)
      ultimately show ?thesis unfolding up by blast
    qed
  qed
qed

lemma contentDecision_not_another:
  "contentDecision e cfg m s \<noteq> INFO_HASH_ALREADY_EXISTS_ANOTHER_TRACKER"
  using contentDecision_range [of e cfg m s] by auto

lemma assessMetafile_another:
  "ra_decision (fst (assessMetafile e cfg m mc s bl ct w)) = INFO_HASH_ALREADY_EXISTS_ANOTHER_TRACKER \<Longrightarrow>
   ra_trackerMismatch (fst (assessMetafile e cfg m mc s bl ct w)) \<noteq> None"
  by (simp add: assessMetafile_def Let_def assessment_def contentDecision_not_another split: if_splits)

lemma assessCandidate_another:
  assumes "ra_decision (fst (assessCandidate e cfg moc s bl ct w)) = INFO_HASH_ALREADY_EXISTS_ANOTHER_TRACKER"
  shows "ra_trackerMismatch (fst (assessCandidate e cfg moc s bl ct w)) \<noteq> None"
proof (cases moc)
  case (Meta m0)
  with assms assessMetafile_another [of e cfg m0 True s bl ct w] show ?thesis
    by (simp add: assessCandidate_def assessment_def split: if_splits)
next
  case (Cand c)
  have am: "ra_decision (fst (assessMetafile e cfg m mc s bl ct w2)) = INFO_HASH_ALREADY_EXISTS_ANOTHER_TRACKER \<longrightarrow>
   ra_trackerMismatch (fst (assessMetafile e cfg m mc s bl ct w2)) \<noteq> None" for m mc w2
    using assessMetafile_another [of e cfg m mc s bl ct w2] by blast
  from assms show ?thesis
    unfolding Cand assessCandidate_def using am
    by (auto simp: assessment_def Let_def split: if_splits sum.splits prod.splits)
qed

lemma saveAssessment_post:
  assumes save: "saveAssessment e now a metafile searchee guid firstSeen d = Some d'"
    and sr: "find (\<lambda>sr. se_name sr = s_title searchee) (tbl_searchee d') = Some sr"
    and dr: "find (\<lambda>dr. de_searchee_id dr = se_id sr \<and> de_guid dr = guid) (tbl_decision d') = Some dr"
    and nz: "de_id dr \<noteq> 0"
  shows "de_decision dr = ra_decision a \<and> de_info_hash dr = Some (mf_infoHash metafile) \<and>
         (list_ex (\<lambda>c. co_decision_id c = de_id dr) (tbl_collisions d') \<longrightarrow>
            ra_decision a = INFO_HASH_ALREADY_EXISTS_ANOTHER_TRACKER \<and>
            canRecordPrivateCollision (Some metafile)) \<and>
         (ra_decision a = INFO_HASH_ALREADY_EXISTS_ANOTHER_TRACKER \<and> ra_trackerMismatch a = Some t \<and>
          canRecordPrivateCollision (Some metafile) \<longrightarrow>
            (\<exists>c \<in> set (tbl_collisions d').
                co_decision_id c = de_id dr \<or>
                (\<exists>infoHash n. equivalentCollision d' (de_id dr) infoHash n
                                 (stringify (candidateTrackers t)) (stringify (knownTrackers t)) c)))"
proof -
  from save obtain sr0 where sr0: "find (\<lambda>sr. se_name sr = s_title searchee) (tbl_searchee d) = Some sr0"
    by (auto simp: saveAssessment_def split: option.splits)
  let ?d1 = "upsertDecision (se_id sr0) guid (mf_infoHash metafile) (ra_decision a) firstSeen now
               (getFuzzySizeFactor e searchee) d"
  from save sr0 have tabs: "tbl_searchee d' = tbl_searchee d \<and> tbl_decision d' = tbl_decision ?d1"
    by (auto simp: saveAssessment_def Let_def upsertDecision_tables upsertCollisionRecord_tables
        deleteCollisionRecord_tables split: option.splits if_splits)
  with sr sr0 have same: "sr0 = sr" by simp
  from dr tabs same have dr1: "find (\<lambda>dr. de_searchee_id dr = se_id sr0 \<and> de_guid dr = guid) (tbl_decision ?d1) = Some dr"
    by simp
  from upsertDecision_found [OF dr1] have stored: "de_decision dr = ra_decision a"
    "de_info_hash dr = Some (mf_infoHash metafile)" by simp_all
  let ?rec = "ra_decision a = INFO_HASH_ALREADY_EXISTS_ANOTHER_TRACKER \<and> ra_trackerMismatch a \<noteq> None \<and>
              canRecordPrivateCollision (Some metafile)"
  have del: "d' = deleteCollisionRecord (de_id dr) ?d1" if "\<not> ?rec"
    using save sr0 dr1 nz that by (auto simp: saveAssessment_def Let_def split: if_splits)
  have ups: "d' = upsertCollisionRecord now (de_id dr) (the (ra_trackerMismatch a)) firstSeen now ?d1" if ?rec
    using save sr0 dr1 nz that by (auto simp: saveAssessment_def Let_def split: if_splits)
  have onlyif: "list_ex (\<lambda>c. co_decision_id c = de_id dr) (tbl_collisions d') \<longrightarrow>
            ra_decision a = INFO_HASH_ALREADY_EXISTS_ANOTHER_TRACKER \<and>
            canRecordPrivateCollision (Some metafile)"
  proof (cases ?rec)
    case True
    then show ?thesis by simp
  next
    case False
    from del [OF False] deleteCollisionRecord_tables(3) [of "de_id dr" ?d1] show ?thesis by simp
  qed
  have "if": "\<exists>c \<in> set (tbl_collisions d').
                co_decision_id c = de_id dr \<or>
                (\<exists>infoHash n. equivalentCollision d' (de_id dr) infoHash n
                                 (stringify (candidateTrackers t)) (stringify (knownTrackers t)) c)"
    if r: "ra_decision a = INFO_HASH_ALREADY_EXISTS_ANOTHER_TRACKER \<and> ra_trackerMismatch a = Some t \<and>
          canRecordPrivateCollision (Some metafile)"
  proof -
    from r have ?rec by simp
    from ups [OF this] r have "d' = upsertCollisionRecord now (de_id dr) t firstSeen now ?d1" by simp
    then show ?thesis using upsert_leaves_row [of now "de_id dr" t firstSeen now ?d1] by simp
  qed
  from stored onlyif "if" show ?thesis by blast
qed

lemma cachedCollision_post:
  assumes run: "cachedCollision now entry res tm w = (out, w')"
  shows "out = Returned (assessment (if tm \<noteq> None then INFO_HASH_ALREADY_EXISTS_ANOTHER_TRACKER
                                     else INFO_HASH_ALREADY_EXISTS) None None tm) \<and>
         tbl_decision (w_db w') =
           map (\<lambda>r. if de_id r = de_id entry
                     then r\<lparr> de_last_seen := now,
                             de_decision := (if isAnyMatchedDecision (de_decision entry) then de_decision entry
                                             else if tm \<noteq> None then INFO_HASH_ALREADY_EXISTS_ANOTHER_TRACKER
                                             else INFO_HASH_ALREADY_EXISTS) \<rparr>
                     else r)
             (tbl_decision (w_db w)) \<and>
         (list_ex (\<lambda>c. co_decision_id c = de_id entry) (tbl_collisions (w_db w')) \<longrightarrow>
            tm \<noteq> None \<and> canRecordPrivateCollision res) \<and>
         (tm = Some t \<and> canRecordPrivateCollision res \<longrightarrow>
            (\<exists>c \<in> set (tbl_collisions (w_db w')).
                co_decision_id c = de_id entry \<or>
                (\<exists>infoHash n. equivalentCollision (w_db w') (de_id entry) infoHash n
                                 (stringify (candidateTrackers t)) (stringify (knownTrackers t)) c)))"
proof -
  let ?dec = "if tm \<noteq> None then INFO_HASH_ALREADY_EXISTS_ANOTHER_TRACKER else INFO_HASH_ALREADY_EXISTS"
  let ?d1 = "updateDecision (de_id entry) now
               (if isAnyMatchedDecision (de_decision entry) then de_decision entry else ?dec) (w_db w)"
  let ?fs = "case de_first_seen entry of Some t \<Rightarrow> t | None \<Rightarrow> now"
  let ?rec = "tm \<noteq> None \<and> canRecordPrivateCollision res"
  from run have out: "out = Returned (assessment ?dec None None tm)"
    by (auto simp: cachedCollision_def Let_def)
  have del: "w_db w' = deleteCollisionRecord (de_id entry) ?d1" if "\<not> ?rec"
    using run that by (auto simp: cachedCollision_def Let_def split: option.splits)
  have ups: "w_db w' = upsertCollisionRecord now (de_id entry) (the tm) ?fs now ?d1" if ?rec
    using run that by (auto simp: cachedCollision_def Let_def split: option.splits)
  have "tbl_decision (w_db w') = tbl_decision ?d1"
    using del ups by (cases ?rec) (simp_all add: upsertCollisionRecord_tables deleteCollisionRecord_tables)
  then have decs: "tbl_decision (w_db w') =
           map (\<lambda>r. if de_id r = de_id entry
                     then r\<lparr> de_last_seen := now,
                             de_decision := (if isAnyMatchedDecision (de_decision entry) then de_decision entry
                                             else ?dec) \<rparr>
                     else r)
             (tbl_decision (w_db w))"
    by (simp add: updateDecision_def)
  have onlyif: "list_ex (\<lambda>c. co_decision_id c = de_id entry) (tbl_collisions (w_db w')) \<longrightarrow> ?rec"
  proof (cases ?rec)
    case True
    then show ?thesis by simp
  next
    case False
    from del [OF False] deleteCollisionRecord_tables(3) [of "de_id entry" ?d1] show ?thesis by simp
  qed
  have "if": "\<exists>c \<in> set (tbl_collisions (w_db w')).
                co_decision_id c = de_id entry \<or>
                (\<exists>infoHash n. equivalentCollision (w_db w') (de_id entry) infoHash n
                                 (stringify (candidateTrackers t)) (stringify (knownTrackers t)) c)"
    if r: "tm = Some t \<and> canRecordPrivateCollision res"
  proof -
    from r have ?rec by simp
    from ups [OF this] r have "w_db w' = upsertCollisionRecord now (de_id entry) t ?fs now ?d1" by simp
    then show ?thesis using upsert_leaves_row [of now "de_id entry" t ?fs now ?d1] by simp
  qed
  from out decs onlyif "if" show ?thesis by blast
qed

lemma removeTorrentFromClients_tables:
  "tbl_decision (w_db (snd (removeTorrentFromClients clients h w))) = tbl_decision (w_db w)"
  "tbl_collisions (w_db (snd (removeTorrentFromClients clients h w))) = tbl_collisions (w_db w)"
  "tbl_searchee (w_db (snd (removeTorrentFromClients clients h w))) = tbl_searchee (w_db w)"
  by (simp_all add: removeTorrentFromClients_def Let_def removeLoop_db)

lemma resolveConflictRules_tables:
  "tbl_decision (w_db (snd (resolveConflictRules clients h cts w))) = tbl_decision (w_db w)"
  "tbl_collisions (w_db (snd (resolveConflictRules clients h cts w))) = tbl_collisions (w_db w)"
  "tbl_searchee (w_db (snd (resolveConflictRules clients h cts w))) = tbl_searchee (w_db w)"
  unfolding resolveConflictRules_char
  by (simp_all add: Let_def removeTorrentFromClients_tables split: option.splits)

lemma cacheTorrentFile_tables:
  "tbl_decision (w_db (snd (cacheTorrentFile e meta candidate w))) = tbl_decision (w_db w)"
  "tbl_collisions (w_db (snd (cacheTorrentFile e meta candidate w))) = tbl_collisions (w_db w)"
  "tbl_searchee (w_db (snd (cacheTorrentFile e meta candidate w))) = tbl_searchee (w_db w)"
  by (simp_all add: cacheTorrentFile_def Let_def emit_def updateIndexerTrackers_def
      split: option.splits prod.splits)

lemma assessMetafile_tables:
  "tbl_decision (w_db (snd (assessMetafile e cfg m mc s bl ct w))) = tbl_decision (w_db w)"
  "tbl_collisions (w_db (snd (assessMetafile e cfg m mc s bl ct w))) = tbl_collisions (w_db w)"
  "tbl_searchee (w_db (snd (assessMetafile e cfg m mc s bl ct w))) = tbl_searchee (w_db w)"
proof -
  let ?tm = "if mf_infoHash m \<in> infoHashesToExclude w then logAnnounceMismatch e (w_db w) m else None"
  let ?cts = "conflictCandidateTrackers ?tm ct"
  let ?r = "resolveConflictRules (getClients e) (mf_infoHash m) ?cts w"
  have "w_db (snd (assessMetafile e cfg m mc s bl ct w)) = w_db w \<or>
        w_db (snd (assessMetafile e cfg m mc s bl ct w)) = w_db (snd ?r)"
    by (simp add: assessMetafile_def Let_def split: prod.splits)
  then show "tbl_decision (w_db (snd (assessMetafile e cfg m mc s bl ct w))) = tbl_decision (w_db w)"
    "tbl_collisions (w_db (snd (assessMetafile e cfg m mc s bl ct w))) = tbl_collisions (w_db w)"
    "tbl_searchee (w_db (snd (assessMetafile e cfg m mc s bl ct w))) = tbl_searchee (w_db w)"
    using resolveConflictRules_tables [of "getClients e" "mf_infoHash m" ?cts w] by auto
qed

text \<open>An assessment leaves the decisions, the collisions and the searchees as they are.\<close>

lemma assessCandidate_tables:
  "tbl_decision (w_db (snd (assessCandidate e cfg moc s bl ct w))) = tbl_decision (w_db w)"
  "tbl_collisions (w_db (snd (assessCandidate e cfg moc s bl ct w))) = tbl_collisions (w_db w)"
  "tbl_searchee (w_db (snd (assessCandidate e cfg moc s bl ct w))) = tbl_searchee (w_db w)"
proof -
  have "w_db (snd (assessCandidate e cfg moc s bl ct w)) = w_db w \<or>
        (\<exists>m mc w2. (w2 = w \<or> (\<exists>c. w2 = snd (cacheTorrentFile e m c (emit (Snatch (c_guid c)) w)))) \<and>
           snd (assessCandidate e cfg moc s bl ct w) = snd (assessMetafile e cfg m mc s bl ct w2))"
  proof (cases moc)
    case (Meta m0)
    then show ?thesis by (auto simp: assessCandidate_def)
  next
    case (Cand c)
    show ?thesis
    proof (cases "snd (assessCandidate e cfg moc s bl ct w) = w \<or>
                  snd (assessCandidate e cfg moc s bl ct w) = emit (Snatch (c_guid c)) w")
      case True
      then show ?thesis by (auto simp: emit_def)
    next
      case False
      then obtain m where sn: "snatch e c (s_label s) = Inr m"
        and run: "assessCandidate e cfg moc s bl ct w =
          assessMetafile e cfg m (fst (cacheTorrentFile e m c (emit (Snatch (c_guid c)) w))) s bl ct
            (snd (cacheTorrentFile e m c (emit (Snatch (c_guid c)) w)))"
        unfolding Cand assessCandidate_def
        by (auto simp: Let_def split: if_splits sum.splits prod.splits)
      from run show ?thesis by auto
    qed
  qed
  then obtain m mc w2 where
    "w_db (snd (assessCandidate e cfg moc s bl ct w)) = w_db w \<or>
     (w_db w2 = w_db w \<or> (\<exists>c. w2 = snd (cacheTorrentFile e m c (emit (Snatch (c_guid c)) w)))) \<and>
       snd (assessCandidate e cfg moc s bl ct w) = snd (assessMetafile e cfg m mc s bl ct w2)"
    by auto
  moreover have "tbl_decision (w_db (snd (cacheTorrentFile e m c (emit ev w)))) = tbl_decision (w_db w)"
    "tbl_collisions (w_db (snd (cacheTorrentFile e m c (emit ev w)))) = tbl_collisions (w_db w)"
    "tbl_searchee (w_db (snd (cacheTorrentFile e m c (emit ev w)))) = tbl_searchee (w_db w)" for c ev
    by (simp_all add: cacheTorrentFile_tables emit_def)
  ultimately show "tbl_decision (w_db (snd (assessCandidate e cfg moc s bl ct w))) = tbl_decision (w_db w)"
    "tbl_collisions (w_db (snd (assessCandidate e cfg moc s bl ct w))) = tbl_collisions (w_db w)"
    "tbl_searchee (w_db (snd (assessCandidate e cfg moc s bl ct w))) = tbl_searchee (w_db w)"
    using assessMetafile_tables [of e cfg m mc s bl ct w2] by auto
qed

text \<open>
  The metafile of an assessment is the metafile that was assessed: the one handed in,
  or the one the snatch of the candidate gave.
\<close>

lemma assessCandidate_metafile_source:
  assumes "assessCandidate e cfg moc s bl ct w = (a, w1)" and "ra_metafile a = Some metafile"
  shows "case moc of Meta m0 \<Rightarrow> metafile = m0 | Cand c \<Rightarrow> snatch e c (s_label s) = Inr metafile"
proof (cases moc)
  case (Meta m0)
  have "ra_metafile (fst (assessCandidate e cfg (Meta m0) s bl ct w)) = Some m0"
    using assessMetafile_cases [of e cfg m0 True s bl ct w]
    by (simp add: assessCandidate_def assessment_def)
  with assms Meta show ?thesis by simp
next
  case (Cand c)
  from assms Cand obtain m0 mc w2 where sn: "snatch e c (s_label s) = Inr m0"
    and run: "assessMetafile e cfg m0 mc s bl ct w2 = (a, w1)"
    by (auto simp: assessCandidate_def assessment_def Let_def split: if_splits sum.splits prod.splits)
  from run have "a = fst (assessMetafile e cfg m0 mc s bl ct w2)" by simp
  with assms(2) assessMetafile_cases [of e cfg m0 mc s bl ct w2] have "m0 = metafile" by simp
  with sn Cand show ?thesis by simp
qed

lemma assessAndSaveResults_persisted:
  assumes "assessAndSaveResults e cfg now moc searchee guid fs ct w = (Returned a, w')"
    and "ra_metafile a = Some metafile" and "ra_metaCached a = Some True"
  shows "(\<exists>d. saveAssessment e now a metafile searchee guid fs d = Some (w_db w') \<and>
              tbl_collisions d = tbl_collisions (w_db w)) \<and>
         (ra_decision a = INFO_HASH_ALREADY_EXISTS_ANOTHER_TRACKER \<longrightarrow> ra_trackerMismatch a \<noteq> None) \<and>
         (case moc of Meta m0 \<Rightarrow> metafile = m0 | Cand c \<Rightarrow> snatch e c (s_label searchee) = Inr metafile)"
proof -
  obtain a0 w1 where ac: "assessCandidate e cfg moc searchee (blockList cfg) (Some ct) w = (a0, w1)"
    by (cases "assessCandidate e cfg moc searchee (blockList cfg) (Some ct) w") blast
  from assms(1) ac have a0: "a0 = a"
    by (auto simp: assessAndSaveResults_def Let_def split: option.splits if_splits)
  let ?w2 = "w1\<lparr> guidInfoHashMap := mapSet guid (mf_infoHash metafile) (guidInfoHashMap w1) \<rparr>"
  from assms ac a0 have "saveAssessment e now a metafile searchee guid fs (w_db ?w2) = Some (w_db w')"
    by (auto simp: assessAndSaveResults_def Let_def split: option.splits if_splits)
  moreover have "tbl_collisions (w_db ?w2) = tbl_collisions (w_db w)"
    using assessCandidate_tables(2) [of e cfg moc searchee "blockList cfg" "Some ct" w] ac by simp
  moreover from assessCandidate_another [of e cfg moc searchee "blockList cfg" "Some ct" w] ac a0
  have "ra_decision a = INFO_HASH_ALREADY_EXISTS_ANOTHER_TRACKER \<longrightarrow> ra_trackerMismatch a \<noteq> None"
    by simp
  moreover from assessCandidate_metafile_source [OF ac] a0 assms(2)
  have "case moc of Meta m0 \<Rightarrow> metafile = m0 | Cand c \<Rightarrow> snatch e c (s_label searchee) = Inr metafile"
    by simp
  ultimately show ?thesis by blast
qed

text \<open>
  What \<open>getCachedTorrent\<close> gives: the torrent cached for the info-hash, if there is an
  info-hash, with the database, the exclusion set and the guid map as before.
\<close>

lemma getCachedTorrent_frame:
  assumes "getCachedTorrent e infoHash w0 = (res, w)"
  shows "res = (if truthy infoHash then readTorrentCache e (the infoHash) else None)"
    and "w_db w = w_db w0" and "infoHashesToExclude w = infoHashesToExclude w0"
    and "guidInfoHashMap w = guidInfoHashMap w0"
  using assms by (auto simp: getCachedTorrent_def emit_def split: if_splits)

text \<open>
  The three branches of \<open>assessCandidateCaching\<close>, for the cached torrent \<open>res\<close> and
  the state \<open>w\<close> that \<open>getCachedTorrent\<close> returned: the cached decision is not of an
  excluded info-hash; it is, and the conflict rules evicted the torrent; it is, and the
  torrent stays.
\<close>

lemma assessCandidateCaching_fresh:
  assumes "getCachedTorrent e (guidLookup e (c_guid candidate) (c_link candidate) (guidInfoHashMap w0)) w0 = (res, w)"
    and "cacheEntry = findCacheEntry searchee (c_guid candidate) (w_db w0)"
    and "\<not> (\<exists>entry h. cacheEntry = Some entry \<and> de_info_hash entry = Some h \<and> h \<in> infoHashesToExclude w0)"
  shows "assessCandidateCaching e cfg now candidate searchee w0 =
           assessAndSaveResults e cfg now (case res of Some meta \<Rightarrow> Meta meta | None \<Rightarrow> Cand candidate)
             searchee (c_guid candidate)
             (case cacheEntry of
                None \<Rightarrow> now
              | Some entry \<Rightarrow> (case de_first_seen entry of Some t \<Rightarrow> t | None \<Rightarrow> now))
             (c_tracker candidate) w"
proof -
  from getCachedTorrent_frame(3) [OF assms(1)] assms(3)
  have "\<not> (case cacheEntry of
              None \<Rightarrow> False
            | Some entry \<Rightarrow> (case de_info_hash entry of None \<Rightarrow> False | Some h \<Rightarrow> h \<in> infoHashesToExclude w))"
    by (auto split: option.splits)
  with assms(1) show ?thesis
    unfolding assessCandidateCaching_def assms(2) by (simp add: Let_def)
qed

lemma assessCandidateCaching_excluded:
  assumes "getCachedTorrent e (guidLookup e (c_guid candidate) (c_link candidate) (guidInfoHashMap w0)) w0 = (res, w)"
    and "findCacheEntry searchee (c_guid candidate) (w_db w0) = Some entry"
    and "de_info_hash entry = Some h" and "h \<in> infoHashesToExclude w0"
    and "tm = (case res of Some meta \<Rightarrow> logAnnounceMismatch e (w_db w) meta | None \<Rightarrow> None)"
    and "cts = conflictCandidateTrackers tm (Some (c_tracker candidate))"
  shows "cts \<noteq> [] \<and> fst (resolveConflictRules (getClients e) h cts w) \<longrightarrow>
           assessCandidateCaching e cfg now candidate searchee w0 =
             assessAndSaveResults e cfg now (case res of Some meta \<Rightarrow> Meta meta | None \<Rightarrow> Cand candidate)
               searchee (c_guid candidate) (case de_first_seen entry of Some t \<Rightarrow> t | None \<Rightarrow> now)
               (c_tracker candidate)
               ((snd (resolveConflictRules (getClients e) h cts w))
                  \<lparr> infoHashesToExclude :=
                      infoHashesToExclude (snd (resolveConflictRules (getClients e) h cts w)) - {h} \<rparr>)"
    and "cts \<noteq> [] \<and> \<not> fst (resolveConflictRules (getClients e) h cts w) \<longrightarrow>
           assessCandidateCaching e cfg now candidate searchee w0 =
             cachedCollision now entry res tm (snd (resolveConflictRules (getClients e) h cts w))"
    and "cts = [] \<longrightarrow>
           assessCandidateCaching e cfg now candidate searchee w0 = cachedCollision now entry res tm w"
proof -
  from getCachedTorrent_frame(3) [OF assms(1)] assms(4) have ex: "h \<in> infoHashesToExclude w" by simp
  have unf: "assessCandidateCaching e cfg now candidate searchee w0 =
      (if cts \<noteq> [] then
         (case resolveConflictRules (getClients e) h cts w of
            (resolved, w1) \<Rightarrow>
              if resolved then
                assessAndSaveResults e cfg now (case res of Some meta \<Rightarrow> Meta meta | None \<Rightarrow> Cand candidate)
                  searchee (c_guid candidate) (case de_first_seen entry of Some t \<Rightarrow> t | None \<Rightarrow> now)
                  (c_tracker candidate)
                  (w1\<lparr> infoHashesToExclude := infoHashesToExclude w1 - {h} \<rparr>)
              else cachedCollision now entry res tm w1)
       else cachedCollision now entry res tm w)"
    unfolding assessCandidateCaching_def assms(5,6)
    using assms(1,2,3) ex by (simp add: Let_def split: prod.splits)
  show "cts \<noteq> [] \<and> fst (resolveConflictRules (getClients e) h cts w) \<longrightarrow>
           assessCandidateCaching e cfg now candidate searchee w0 =
             assessAndSaveResults e cfg now (case res of Some meta \<Rightarrow> Meta meta | None \<Rightarrow> Cand candidate)
               searchee (c_guid candidate) (case de_first_seen entry of Some t \<Rightarrow> t | None \<Rightarrow> now)
               (c_tracker candidate)
               ((snd (resolveConflictRules (getClients e) h cts w))
                  \<lparr> infoHashesToExclude :=
                      infoHashesToExclude (snd (resolveConflictRules (getClients e) h cts w)) - {h} \<rparr>)"
    unfolding unf by (simp split: prod.splits)
  show "cts \<noteq> [] \<and> \<not> fst (resolveConflictRules (getClients e) h cts w) \<longrightarrow>
           assessCandidateCaching e cfg now candidate searchee w0 =
             cachedCollision now entry res tm (snd (resolveConflictRules (getClients e) h cts w))"
    unfolding unf by (simp split: prod.splits)
  show "cts = [] \<longrightarrow>
           assessCandidateCaching e cfg now candidate searchee w0 = cachedCollision now entry res tm w"
    unfolding unf by simp
qed

text \<open>
  The cached branch as a whole: when the torrent of the cached decision stays excluded,
  the wrapper is the cached branch on a state \<open>w1\<close> whose decisions, collisions and
  searchees are those of the state before the call.
\<close>

lemma assessCandidateCaching_kept:
  assumes "getCachedTorrent e (guidLookup e (c_guid candidate) (c_link candidate) (guidInfoHashMap w0)) w0 = (res, w)"
    and "findCacheEntry searchee (c_guid candidate) (w_db w0) = Some entry"
    and "de_info_hash entry = Some h" and "h \<in> infoHashesToExclude w0"
    and "tm = (case res of Some meta \<Rightarrow> logAnnounceMismatch e (w_db w) meta | None \<Rightarrow> None)"
    and "cts = conflictCandidateTrackers tm (Some (c_tracker candidate))"
    and "cts = [] \<or> \<not> fst (resolveConflictRules (getClients e) h cts w)"
  shows "\<exists>w1. assessCandidateCaching e cfg now candidate searchee w0 = cachedCollision now entry res tm w1 \<and>
              tbl_decision (w_db w1) = tbl_decision (w_db w0) \<and>
              tbl_collisions (w_db w1) = tbl_collisions (w_db w0) \<and>
              tbl_searchee (w_db w1) = tbl_searchee (w_db w0)"
proof (cases "cts = []")
  case True
  with assessCandidateCaching_excluded(3) [OF assms(1-6)]
  have "assessCandidateCaching e cfg now candidate searchee w0 = cachedCollision now entry res tm w"
    by simp
  with getCachedTorrent_frame(2) [OF assms(1)] show ?thesis by auto
next
  case False
  let ?w1 = "snd (resolveConflictRules (getClients e) h cts w)"
  from False assms(7) assessCandidateCaching_excluded(2) [OF assms(1-6)]
  have "assessCandidateCaching e cfg now candidate searchee w0 = cachedCollision now entry res tm ?w1"
    by simp
  moreover have "tbl_decision (w_db ?w1) = tbl_decision (w_db w0)"
    "tbl_collisions (w_db ?w1) = tbl_collisions (w_db w0)"
    "tbl_searchee (w_db ?w1) = tbl_searchee (w_db w0)"
    using getCachedTorrent_frame(2) [OF assms(1)] by (simp_all add: resolveConflictRules_tables)
  ultimately show ?thesis by blast
qed

text \<open>Unless a collision is recorded, the rows of the decision are deleted and no row is written.\<close>

lemma saveAssessment_deletes:
  assumes save: "saveAssessment e now a metafile searchee guid firstSeen d = Some d'"
    and sr: "find (\<lambda>sr. se_name sr = s_title searchee) (tbl_searchee d') = Some sr"
    and dr: "find (\<lambda>dr. de_searchee_id dr = se_id sr \<and> de_guid dr = guid) (tbl_decision d') = Some dr"
    and nz: "de_id dr \<noteq> 0"
    and no: "\<not> canRecordPrivateCollision (Some metafile)"
  shows "tbl_collisions d' = filter (\<lambda>c. co_decision_id c \<noteq> de_id dr) (tbl_collisions d)"
proof -
  from save obtain sr0 where sr0: "find (\<lambda>sr. se_name sr = s_title searchee) (tbl_searchee d) = Some sr0"
    by (auto simp: saveAssessment_def split: option.splits)
  let ?d1 = "upsertDecision (se_id sr0) guid (mf_infoHash metafile) (ra_decision a) firstSeen now
               (getFuzzySizeFactor e searchee) d"
  from save sr0 have tabs: "tbl_searchee d' = tbl_searchee d \<and> tbl_decision d' = tbl_decision ?d1"
    by (auto simp: saveAssessment_def Let_def upsertDecision_tables upsertCollisionRecord_tables
        deleteCollisionRecord_tables split: option.splits if_splits)
  with sr sr0 have same: "sr0 = sr" by simp
  from dr tabs same have dr1: "find (\<lambda>dr. de_searchee_id dr = se_id sr0 \<and> de_guid dr = guid) (tbl_decision ?d1) = Some dr"
    by simp
  have "d' = deleteCollisionRecord (de_id dr) ?d1"
    using save sr0 dr1 nz no by (auto simp: saveAssessment_def Let_def split: if_splits)
  then show ?thesis
    by (simp add: deleteCollisionRecord_def upsertDecision_tables)
qed

lemma cachedCollision_deletes:
  assumes "cachedCollision now entry res tm w = (out, w')" and "\<not> canRecordPrivateCollision res"
  shows "tbl_collisions (w_db w') = filter (\<lambda>c. co_decision_id c \<noteq> de_id entry) (tbl_collisions (w_db w))"
  using assms
  by (auto simp: cachedCollision_def Let_def deleteCollisionRecord_def updateDecision_def
      split: option.splits)

lemma norm_single: "normalizeTrackers [''a.example''] = [''a.example'']" "normalizeTrackers [''b.example''] = [''b.example'']"
  by (simp_all add: normalizeTrackers_def trim_def isWhiteSpace_def)

lemma cached_tm: "logAnnounceMismatch cachedEnv d (metaPrivate flag) = Some mismatchAB"
  by (simp add: logAnnounceMismatch_def cachedEnv_def demoEnv_def metaPrivate_def norm_single
      trackersAreEqual_def mismatchAB_def)

lemma no_rules_resolve: "tbl_conflict_rules (w_db w) = [] \<Longrightarrow> resolveConflictRules cl h cts w = (False, w)"
  by (simp add: resolveConflictRules_def getConflictRules_def)

lemma cached_entry:
  "findCacheEntry showSearchee ''guid-1'' matchedDb = Some (hd (tbl_decision matchedDb))"
  by (simp add: findCacheEntry_def showSearchee_def matchedDb_def emptyDb_def)

lemma cached_lookup:
  "getCachedTorrent cachedEnv (guidLookup cachedEnv ''guid-1'' ''http://indexer/1'' (guidInfoHashMap matchedWorld)) matchedWorld =
     (Some (metaPrivate (Some (BInt 1))), emit (ReadTorrentCache ''h1'') matchedWorld)"
  by (simp add: getCachedTorrent_def guidLookup_def matchedWorld_def truthy_def cachedEnv_def demoEnv_def)

lemma cached_run:
  "assessCandidateCaching cachedEnv (configOf FLEXIBLE) 50 (candidateOf ''Show.S01'' None ''http://indexer/1'')
     showSearchee matchedWorld =
   cachedCollision 50 (hd (tbl_decision matchedDb)) (Some (metaPrivate (Some (BInt 1)))) (Some mismatchAB)
     (emit (ReadTorrentCache ''h1'') matchedWorld)"
proof -
  have db: "w_db matchedWorld = matchedDb" "w_db (emit ev matchedWorld) = matchedDb"
    "infoHashesToExclude (emit ev matchedWorld) = {''h1''}" for ev
    by (simp_all add: matchedWorld_def emit_def)
  have nr: "tbl_conflict_rules (w_db (emit ev matchedWorld)) = []" for ev
    by (simp add: db matchedDb_def emptyDb_def)
  have cts: "conflictCandidateTrackers (Some mismatchAB) (Some ''a.example'') \<noteq> []"
    by (simp add: conflictCandidateTrackers_def mismatchAB_def)
  have ih: "de_info_hash (hd (tbl_decision matchedDb)) = Some ''h1''"
    by (simp add: matchedDb_def emptyDb_def)
  show ?thesis
    unfolding assessCandidateCaching_def
    by (simp add: candidateOf_def cached_lookup cached_entry db cached_tm no_rules_resolve [OF nr] cts ih
        Let_def)
qed

text \<open>
  C2 as stated fails on the cached path of \<open>assessCandidateCaching\<close>: the stored
  decision \<open>MATCH\<close> of an excluded info-hash is kept, the returned decision is
  \<open>INFO_HASH_ALREADY_EXISTS_ANOTHER_TRACKER\<close>, and a collision row is written for the
  decision row that still says \<open>MATCH\<close>.
\<close>

theorem cached_match_collision_counterexample:
  "fst (assessCandidateCaching cachedEnv (configOf FLEXIBLE) 50
          (candidateOf ''Show.S01'' None ''http://indexer/1'') showSearchee matchedWorld) =
     Returned (assessment INFO_HASH_ALREADY_EXISTS_ANOTHER_TRACKER None None (Some mismatchAB)) \<and>
   map (\<lambda>r. (de_id r, de_decision r))
     (tbl_decision (w_db (snd (assessCandidateCaching cachedEnv (configOf FLEXIBLE) 50
          (candidateOf ''Show.S01'' None ''http://indexer/1'') showSearchee matchedWorld)))) = [(1, MATCH)] \<and>
   map co_decision_id
     (tbl_collisions (w_db (snd (assessCandidateCaching cachedEnv (configOf FLEXIBLE) 50
          (candidateOf ''Show.S01'' None ''http://indexer/1'') showSearchee matchedWorld)))) = [1]"
  unfolding cached_run
  by (simp add: cachedCollision_def Let_def isAnyMatchedDecision_def matchedDb_def emptyDb_def
      canRecordPrivateCollision_def getTorrentPrivateFlag_def metaPrivate_def updateDecision_def
      upsertCollisionRecord_def findEquivalent_def truthy_def collisionPayload_def insertCollisionMerge_def
      emit_def matchedWorld_def)

text \<open>
  C2, as amended. After \<open>assessAndSaveResults\<close> has persisted an assessment, the
  metafile of the assessment is the metafile handed in, or the one snatched for the
  candidate; the decision row (for the searchee and the guid) stores the decision of
  the assessment; a collision row of that decision row exists only if the stored
  decision is \<open>INFO_HASH_ALREADY_EXISTS_ANOTHER_TRACKER\<close> and that metafile has
  \<open>private = 1\<close>; and when both hold, a collision row exists for it, or an equivalent
  row of another decision does. \<open>assessCandidateCaching\<close> reads the cached torrent
  \<open>res\<close> of the candidate and persists through \<open>assessAndSaveResults\<close>, for that
  torrent or else for the candidate, unless the cached decision is of an excluded
  info-hash that the conflict rules do not evict. In that case the returned decision is
  the cross-tracker one exactly when there is a tracker mismatch \<open>tm\<close> of the cached
  torrent, the stored decision is a match decision stored before, if any, and the
  returned one otherwise; a collision row of the cached decision exists only if there
  is a mismatch and the cached torrent has \<open>private = 1\<close>, and then it, or an
  equivalent row of another decision, exists.
\<close>

theorem persisted_collision_rows:
  "(assessAndSaveResults e cfg now metaOrCandidate searchee guid firstSeen candidateTracker w = (Returned a, w') \<and>
    ra_metafile a = Some metafile \<and> ra_metaCached a = Some True \<and>
    find (\<lambda>sr. se_name sr = s_title searchee) (tbl_searchee (w_db w')) = Some sr \<and>
    find (\<lambda>dr. de_searchee_id dr = se_id sr \<and> de_guid dr = guid) (tbl_decision (w_db w')) = Some dr \<and>
    de_id dr \<noteq> 0
    \<longrightarrow>
    (case metaOrCandidate of
       Meta m0 \<Rightarrow> metafile = m0
     | Cand c \<Rightarrow> snatch e c (s_label searchee) = Inr metafile) \<and>
    de_decision dr = ra_decision a \<and>
    (list_ex (\<lambda>c. co_decision_id c = de_id dr) (tbl_collisions (w_db w')) \<longrightarrow>
       de_decision dr = INFO_HASH_ALREADY_EXISTS_ANOTHER_TRACKER \<and>
       mf_raw_info_private metafile = Some (BInt 1)) \<and>
    (de_decision dr = INFO_HASH_ALREADY_EXISTS_ANOTHER_TRACKER \<and>
     mf_raw_info_private metafile = Some (BInt 1) \<longrightarrow>
       (\<exists>t. ra_trackerMismatch a = Some t \<and>
            (\<exists>c \<in> set (tbl_collisions (w_db w')).
                co_decision_id c = de_id dr \<or>
                (\<exists>infoHash n. equivalentCollision (w_db w') (de_id dr) infoHash n
                                 (stringify (candidateTrackers t)) (stringify (knownTrackers t)) c))))) \<and>
   (getCachedTorrent e (guidLookup e (c_guid candidate) (c_link candidate) (guidInfoHashMap w0)) w0 = (res, wr) \<and>
    cacheEntry = findCacheEntry searchee (c_guid candidate) (w_db w0) \<and>
    \<not> (\<exists>entry h. cacheEntry = Some entry \<and> de_info_hash entry = Some h \<and> h \<in> infoHashesToExclude w0)
    \<longrightarrow>
    assessCandidateCaching e cfg now candidate searchee w0 =
      assessAndSaveResults e cfg now (case res of Some meta \<Rightarrow> Meta meta | None \<Rightarrow> Cand candidate)
        searchee (c_guid candidate)
        (case cacheEntry of
           None \<Rightarrow> now
         | Some entry \<Rightarrow> (case de_first_seen entry of Some t \<Rightarrow> t | None \<Rightarrow> now))
        (c_tracker candidate) wr) \<and>
   (getCachedTorrent e (guidLookup e (c_guid candidate) (c_link candidate) (guidInfoHashMap w0)) w0 = (res, wr) \<and>
    findCacheEntry searchee (c_guid candidate) (w_db w0) = Some entry \<and>
    de_info_hash entry = Some h \<and> h \<in> infoHashesToExclude w0 \<and>
    tm = (case res of Some meta \<Rightarrow> logAnnounceMismatch e (w_db wr) meta | None \<Rightarrow> None) \<and>
    cts = conflictCandidateTrackers tm (Some (c_tracker candidate)) \<and>
    cts \<noteq> [] \<and> fst (resolveConflictRules (getClients e) h cts wr)
    \<longrightarrow>
    assessCandidateCaching e cfg now candidate searchee w0 =
      assessAndSaveResults e cfg now (case res of Some meta \<Rightarrow> Meta meta | None \<Rightarrow> Cand candidate)
        searchee (c_guid candidate) (case de_first_seen entry of Some t \<Rightarrow> t | None \<Rightarrow> now)
        (c_tracker candidate)
        ((snd (resolveConflictRules (getClients e) h cts wr))
           \<lparr> infoHashesToExclude :=
               infoHashesToExclude (snd (resolveConflictRules (getClients e) h cts wr)) - {h} \<rparr>)) \<and>
   (getCachedTorrent e (guidLookup e (c_guid candidate) (c_link candidate) (guidInfoHashMap w0)) w0 = (res, wr) \<and>
    findCacheEntry searchee (c_guid candidate) (w_db w0) = Some entry \<and>
    de_info_hash entry = Some h \<and> h \<in> infoHashesToExclude w0 \<and>
    tm = (case res of Some meta \<Rightarrow> logAnnounceMismatch e (w_db wr) meta | None \<Rightarrow> None) \<and>
    cts = conflictCandidateTrackers tm (Some (c_tracker candidate)) \<and>
    (cts = [] \<or> \<not> fst (resolveConflictRules (getClients e) h cts wr)) \<and>
    assessCandidateCaching e cfg now candidate searchee w0 = (out, wc')
    \<longrightarrow>
    res = (if truthy (guidLookup e (c_guid candidate) (c_link candidate) (guidInfoHashMap w0))
           then readTorrentCache e (the (guidLookup e (c_guid candidate) (c_link candidate) (guidInfoHashMap w0)))
           else None) \<and>
    out = Returned (assessment (if tm \<noteq> None then INFO_HASH_ALREADY_EXISTS_ANOTHER_TRACKER
                                else INFO_HASH_ALREADY_EXISTS) None None tm) \<and>
    tbl_decision (w_db wc') =
      map (\<lambda>r. if de_id r = de_id entry
                then r\<lparr> de_last_seen := now,
                        de_decision := (if isAnyMatchedDecision (de_decision entry) then de_decision entry
                                        else if tm \<noteq> None then INFO_HASH_ALREADY_EXISTS_ANOTHER_TRACKER
                                        else INFO_HASH_ALREADY_EXISTS) \<rparr>
                else r)
        (tbl_decision (w_db w0)) \<and>
    (list_ex (\<lambda>c. co_decision_id c = de_id entry) (tbl_collisions (w_db wc')) \<longrightarrow>
       tm \<noteq> None \<and> (\<exists>meta. res = Some meta \<and> mf_raw_info_private meta = Some (BInt 1))) \<and>
    (tm \<noteq> None \<and> (\<exists>meta. res = Some meta \<and> mf_raw_info_private meta = Some (BInt 1)) \<longrightarrow>
       (\<exists>t. tm = Some t \<and>
            (\<exists>c \<in> set (tbl_collisions (w_db wc')).
                co_decision_id c = de_id entry \<or>
                (\<exists>infoHash n. equivalentCollision (w_db wc') (de_id entry) infoHash n
                                 (stringify (candidateTrackers t)) (stringify (knownTrackers t)) c)))))"
proof -
  have p1: "(case metaOrCandidate of
       Meta m0 \<Rightarrow> metafile = m0
     | Cand c \<Rightarrow> snatch e c (s_label searchee) = Inr metafile) \<and>
    de_decision dr = ra_decision a \<and>
    (list_ex (\<lambda>c. co_decision_id c = de_id dr) (tbl_collisions (w_db w')) \<longrightarrow>
       de_decision dr = INFO_HASH_ALREADY_EXISTS_ANOTHER_TRACKER \<and>
       mf_raw_info_private metafile = Some (BInt 1)) \<and>
    (de_decision dr = INFO_HASH_ALREADY_EXISTS_ANOTHER_TRACKER \<and>
     mf_raw_info_private metafile = Some (BInt 1) \<longrightarrow>
       (\<exists>t. ra_trackerMismatch a = Some t \<and>
            (\<exists>c \<in> set (tbl_collisions (w_db w')).
                co_decision_id c = de_id dr \<or>
                (\<exists>infoHash n. equivalentCollision (w_db w') (de_id dr) infoHash n
                                 (stringify (candidateTrackers t)) (stringify (knownTrackers t)) c))))"
    if h: "assessAndSaveResults e cfg now metaOrCandidate searchee guid firstSeen candidateTracker w = (Returned a, w') \<and>
      ra_metafile a = Some metafile \<and> ra_metaCached a = Some True \<and>
      find (\<lambda>sr. se_name sr = s_title searchee) (tbl_searchee (w_db w')) = Some sr \<and>
      find (\<lambda>dr. de_searchee_id dr = se_id sr \<and> de_guid dr = guid) (tbl_decision (w_db w')) = Some dr \<and>
      de_id dr \<noteq> 0"
  proof -
    from h have run: "assessAndSaveResults e cfg now metaOrCandidate searchee guid firstSeen candidateTracker w = (Returned a, w')"
      and m: "ra_metafile a = Some metafile" and mc: "ra_metaCached a = Some True"
      and sr: "find (\<lambda>sr. se_name sr = s_title searchee) (tbl_searchee (w_db w')) = Some sr"
      and dr: "find (\<lambda>dr. de_searchee_id dr = se_id sr \<and> de_guid dr = guid) (tbl_decision (w_db w')) = Some dr"
      and nz: "de_id dr \<noteq> 0"
      by blast+
    from assessAndSaveResults_persisted [OF run m mc] obtain d where
      save: "saveAssessment e now a metafile searchee guid firstSeen d = Some (w_db w')"
      and tm: "ra_decision a = INFO_HASH_ALREADY_EXISTS_ANOTHER_TRACKER \<longrightarrow> ra_trackerMismatch a \<noteq> None"
      and src: "case metaOrCandidate of
                  Meta m0 \<Rightarrow> metafile = m0
                | Cand c \<Rightarrow> snatch e c (s_label searchee) = Inr metafile"
      by blast
    have priv: "canRecordPrivateCollision (Some metafile) \<longleftrightarrow> mf_raw_info_private metafile = Some (BInt 1)"
      by (simp add: canRecord_iff)
    have stored: "de_decision dr = ra_decision a"
      using saveAssessment_post [OF save sr dr nz] by blast
    have onlyif: "list_ex (\<lambda>c. co_decision_id c = de_id dr) (tbl_collisions (w_db w')) \<longrightarrow>
       de_decision dr = INFO_HASH_ALREADY_EXISTS_ANOTHER_TRACKER \<and>
       mf_raw_info_private metafile = Some (BInt 1)"
      using saveAssessment_post [OF save sr dr nz] priv stored by simp
    have "if": "\<exists>t. ra_trackerMismatch a = Some t \<and>
            (\<exists>c \<in> set (tbl_collisions (w_db w')).
                co_decision_id c = de_id dr \<or>
                (\<exists>infoHash n. equivalentCollision (w_db w') (de_id dr) infoHash n
                                 (stringify (candidateTrackers t)) (stringify (knownTrackers t)) c))"
      if r: "de_decision dr = INFO_HASH_ALREADY_EXISTS_ANOTHER_TRACKER \<and>
             mf_raw_info_private metafile = Some (BInt 1)"
    proof -
      from r stored tm obtain t where t: "ra_trackerMismatch a = Some t" by auto
      from saveAssessment_post [OF save sr dr nz, of t] r stored t priv
      have "\<exists>c \<in> set (tbl_collisions (w_db w')).
                co_decision_id c = de_id dr \<or>
                (\<exists>infoHash n. equivalentCollision (w_db w') (de_id dr) infoHash n
                                 (stringify (candidateTrackers t)) (stringify (knownTrackers t)) c)"
        by simp
      with t show ?thesis by blast
    qed
    from src stored onlyif "if" show ?thesis by blast
  qed
  have p2: "assessCandidateCaching e cfg now candidate searchee w0 =
      assessAndSaveResults e cfg now (case res of Some meta \<Rightarrow> Meta meta | None \<Rightarrow> Cand candidate)
        searchee (c_guid candidate)
        (case cacheEntry of
           None \<Rightarrow> now
         | Some entry \<Rightarrow> (case de_first_seen entry of Some t \<Rightarrow> t | None \<Rightarrow> now))
        (c_tracker candidate) wr"
    if "getCachedTorrent e (guidLookup e (c_guid candidate) (c_link candidate) (guidInfoHashMap w0)) w0 = (res, wr) \<and>
      cacheEntry = findCacheEntry searchee (c_guid candidate) (w_db w0) \<and>
      \<not> (\<exists>entry h. cacheEntry = Some entry \<and> de_info_hash entry = Some h \<and> h \<in> infoHashesToExclude w0)"
    using that assessCandidateCaching_fresh [of e candidate w0 res wr cacheEntry searchee cfg now] by blast
  have p3: "assessCandidateCaching e cfg now candidate searchee w0 =
      assessAndSaveResults e cfg now (case res of Some meta \<Rightarrow> Meta meta | None \<Rightarrow> Cand candidate)
        searchee (c_guid candidate) (case de_first_seen entry of Some t \<Rightarrow> t | None \<Rightarrow> now)
        (c_tracker candidate)
        ((snd (resolveConflictRules (getClients e) h cts wr))
           \<lparr> infoHashesToExclude :=
               infoHashesToExclude (snd (resolveConflictRules (getClients e) h cts wr)) - {h} \<rparr>)"
    if "getCachedTorrent e (guidLookup e (c_guid candidate) (c_link candidate) (guidInfoHashMap w0)) w0 = (res, wr) \<and>
      findCacheEntry searchee (c_guid candidate) (w_db w0) = Some entry \<and>
      de_info_hash entry = Some h \<and> h \<in> infoHashesToExclude w0 \<and>
      tm = (case res of Some meta \<Rightarrow> logAnnounceMismatch e (w_db wr) meta | None \<Rightarrow> None) \<and>
      cts = conflictCandidateTrackers tm (Some (c_tracker candidate)) \<and>
      cts \<noteq> [] \<and> fst (resolveConflictRules (getClients e) h cts wr)"
    using that assessCandidateCaching_excluded(1) [of e candidate w0 res wr searchee entry h tm cts cfg now]
    by blast
  have p4: "res = (if truthy (guidLookup e (c_guid candidate) (c_link candidate) (guidInfoHashMap w0))
           then readTorrentCache e (the (guidLookup e (c_guid candidate) (c_link candidate) (guidInfoHashMap w0)))
           else None) \<and>
    out = Returned (assessment (if tm \<noteq> None then INFO_HASH_ALREADY_EXISTS_ANOTHER_TRACKER
                                else INFO_HASH_ALREADY_EXISTS) None None tm) \<and>
    tbl_decision (w_db wc') =
      map (\<lambda>r. if de_id r = de_id entry
                then r\<lparr> de_last_seen := now,
                        de_decision := (if isAnyMatchedDecision (de_decision entry) then de_decision entry
                                        else if tm \<noteq> None then INFO_HASH_ALREADY_EXISTS_ANOTHER_TRACKER
                                        else INFO_HASH_ALREADY_EXISTS) \<rparr>
                else r)
        (tbl_decision (w_db w0)) \<and>
    (list_ex (\<lambda>c. co_decision_id c = de_id entry) (tbl_collisions (w_db wc')) \<longrightarrow>
       tm \<noteq> None \<and> (\<exists>meta. res = Some meta \<and> mf_raw_info_private meta = Some (BInt 1))) \<and>
    (tm \<noteq> None \<and> (\<exists>meta. res = Some meta \<and> mf_raw_info_private meta = Some (BInt 1)) \<longrightarrow>
       (\<exists>t. tm = Some t \<and>
            (\<exists>c \<in> set (tbl_collisions (w_db wc')).
                co_decision_id c = de_id entry \<or>
                (\<exists>infoHash n. equivalentCollision (w_db wc') (de_id entry) infoHash n
                                 (stringify (candidateTrackers t)) (stringify (knownTrackers t)) c))))"
    if h: "getCachedTorrent e (guidLookup e (c_guid candidate) (c_link candidate) (guidInfoHashMap w0)) w0 = (res, wr) \<and>
      findCacheEntry searchee (c_guid candidate) (w_db w0) = Some entry \<and>
      de_info_hash entry = Some h \<and> h \<in> infoHashesToExclude w0 \<and>
      tm = (case res of Some meta \<Rightarrow> logAnnounceMismatch e (w_db wr) meta | None \<Rightarrow> None) \<and>
      cts = conflictCandidateTrackers tm (Some (c_tracker candidate)) \<and>
      (cts = [] \<or> \<not> fst (resolveConflictRules (getClients e) h cts wr)) \<and>
      assessCandidateCaching e cfg now candidate searchee w0 = (out, wc')"
  proof -
    from h have g: "getCachedTorrent e (guidLookup e (c_guid candidate) (c_link candidate) (guidInfoHashMap w0)) w0 = (res, wr)"
      and en: "findCacheEntry searchee (c_guid candidate) (w_db w0) = Some entry"
      and ih: "de_info_hash entry = Some h" and ex: "h \<in> infoHashesToExclude w0"
      and tm: "tm = (case res of Some meta \<Rightarrow> logAnnounceMismatch e (w_db wr) meta | None \<Rightarrow> None)"
      and cts: "cts = conflictCandidateTrackers tm (Some (c_tracker candidate))"
      and kept: "cts = [] \<or> \<not> fst (resolveConflictRules (getClients e) h cts wr)"
      and run: "assessCandidateCaching e cfg now candidate searchee w0 = (out, wc')"
      by blast+
    from assessCandidateCaching_kept [OF g en ih ex tm cts kept, of cfg now] run
    obtain w1 where cc: "cachedCollision now entry res tm w1 = (out, wc')"
      and decs: "tbl_decision (w_db w1) = tbl_decision (w_db w0)"
      by auto
    have priv: "canRecordPrivateCollision res \<longleftrightarrow> (\<exists>meta. res = Some meta \<and> mf_raw_info_private meta = Some (BInt 1))"
      by (rule canRecord_iff)
    note post = cachedCollision_post [OF cc]
    have "if": "\<exists>t. tm = Some t \<and>
            (\<exists>c \<in> set (tbl_collisions (w_db wc')).
                co_decision_id c = de_id entry \<or>
                (\<exists>infoHash n. equivalentCollision (w_db wc') (de_id entry) infoHash n
                                 (stringify (candidateTrackers t)) (stringify (knownTrackers t)) c))"
      if r: "tm \<noteq> None \<and> (\<exists>meta. res = Some meta \<and> mf_raw_info_private meta = Some (BInt 1))"
    proof -
      from r obtain t where t: "tm = Some t" by auto
      from post [of t] t r priv show ?thesis by simp
    qed
    from getCachedTorrent_frame(1) [OF g] post [unfolded decs] priv "if" show ?thesis by blast
  qed
  from p1 p2 p3 p4 show ?thesis by blast
qed

lemma meta_run_any:
  assumes "tbl_conflict_rules (w_db w) = []" and "''h1'' \<in> infoHashesToExclude w"
  shows "assessCandidate cachedEnv (configOf FLEXIBLE) (Meta (metaPrivate flag)) showSearchee []
     (Some ''a.example'') w =
   (assessment INFO_HASH_ALREADY_EXISTS_ANOTHER_TRACKER (Some (metaPrivate flag)) (Some True)
      (Some mismatchAB), w)"
proof -
  have cts: "conflictCandidateTrackers (Some mismatchAB) (Some ''a.example'') \<noteq> []"
    by (simp add: conflictCandidateTrackers_def mismatchAB_def)
  have x: "mf_infoHash (metaPrivate flag) = ''h1''" "s_infoHash showSearchee = Some ''h0''"
    "blockedSearchee cachedEnv showSearchee [] = None"
    "getClients cachedEnv = []"
    by (simp_all add: metaPrivate_def showSearchee_def cachedEnv_def demoEnv_def)
  show ?thesis
    by (simp add: assessCandidate_def assessMetafile_def x truthy_def cached_tm cts
        no_rules_resolve [OF assms(1)] assms(2) Let_def)
qed

lemma meta_run:
  "assessCandidate cachedEnv (configOf FLEXIBLE) (Meta (metaPrivate (Some (BInt 1)))) showSearchee []
     (Some ''a.example'') matchedWorld =
   (assessment INFO_HASH_ALREADY_EXISTS_ANOTHER_TRACKER (Some (metaPrivate (Some (BInt 1)))) (Some True)
      (Some mismatchAB), matchedWorld)"
  by (rule meta_run_any) (simp_all add: matchedWorld_def matchedDb_def emptyDb_def)

lemma save_run:
  "fst (assessAndSaveResults cachedEnv (configOf FLEXIBLE) 50 (Meta (metaPrivate (Some (BInt 1)))) showSearchee
     ''guid-1'' 10 ''a.example'' matchedWorld) =
     Returned (assessment INFO_HASH_ALREADY_EXISTS_ANOTHER_TRACKER (Some (metaPrivate (Some (BInt 1))))
       (Some True) (Some mismatchAB))"
  "tbl_searchee (w_db (snd (assessAndSaveResults cachedEnv (configOf FLEXIBLE) 50
     (Meta (metaPrivate (Some (BInt 1)))) showSearchee ''guid-1'' 10 ''a.example'' matchedWorld))) =
     [\<lparr> se_id = 1, se_name = ''Show.S01'' \<rparr>]"
  "tbl_decision (w_db (snd (assessAndSaveResults cachedEnv (configOf FLEXIBLE) 50
     (Meta (metaPrivate (Some (BInt 1)))) showSearchee ''guid-1'' 10 ''a.example'' matchedWorld))) =
     [\<lparr> de_id = 1, de_searchee_id = 1, de_guid = ''guid-1'', de_info_hash = Some ''h1'',
        de_decision = INFO_HASH_ALREADY_EXISTS_ANOTHER_TRACKER, de_first_seen = Some 10, de_last_seen = 50,
        de_fuzzy_size_factor = double_0_02 \<rparr>]"
  "tbl_collisions (w_db (snd (assessAndSaveResults cachedEnv (configOf FLEXIBLE) 50
     (Meta (metaPrivate (Some (BInt 1)))) showSearchee ''guid-1'' 10 ''a.example'' matchedWorld))) =
     [\<lparr> co_decision_id = 1, co_candidate_trackers = stringify [''a.example''],
        co_known_trackers = stringify [''b.example''], co_first_seen = 10, co_last_seen = 50,
        co_updated_at = 50 \<rparr>]"
proof -
  have cfg: "blockList (configOf FLEXIBLE) = []" by (simp add: configOf_def)
  have sv: "saveAssessment cachedEnv 50
      (assessment INFO_HASH_ALREADY_EXISTS_ANOTHER_TRACKER (Some (metaPrivate (Some (BInt 1)))) (Some True)
         (Some mismatchAB))
      (metaPrivate (Some (BInt 1))) showSearchee ''guid-1'' 10 matchedDb =
    Some (matchedDb\<lparr> tbl_decision :=
       [\<lparr> de_id = 1, de_searchee_id = 1, de_guid = ''guid-1'', de_info_hash = Some ''h1'',
        de_decision = INFO_HASH_ALREADY_EXISTS_ANOTHER_TRACKER, de_first_seen = Some 10, de_last_seen = 50,
        de_fuzzy_size_factor = double_0_02 \<rparr>],
      tbl_collisions :=
       [\<lparr> co_decision_id = 1, co_candidate_trackers = stringify [''a.example''],
        co_known_trackers = stringify [''b.example''], co_first_seen = 10, co_last_seen = 50,
        co_updated_at = 50 \<rparr>] \<rparr>)"
    by (simp add: saveAssessment_def Let_def matchedDb_def emptyDb_def showSearchee_def
      upsertDecision_def assessment_def metaPrivate_def cachedEnv_def demoEnv_def
      canRecordPrivateCollision_def getTorrentPrivateFlag_def
      upsertCollisionRecord_def findEquivalent_def truthy_def collisionPayload_def insertCollisionMerge_def
      mismatchAB_def)
  have run: "assessAndSaveResults cachedEnv (configOf FLEXIBLE) 50 (Meta (metaPrivate (Some (BInt 1)))) showSearchee
     ''guid-1'' 10 ''a.example'' matchedWorld =
     (Returned (assessment INFO_HASH_ALREADY_EXISTS_ANOTHER_TRACKER (Some (metaPrivate (Some (BInt 1))))
       (Some True) (Some mismatchAB)),
      matchedWorld\<lparr> guidInfoHashMap := [(''guid-1'', ''h1'')],
        w_db := matchedDb\<lparr> tbl_decision :=
       [\<lparr> de_id = 1, de_searchee_id = 1, de_guid = ''guid-1'', de_info_hash = Some ''h1'',
        de_decision = INFO_HASH_ALREADY_EXISTS_ANOTHER_TRACKER, de_first_seen = Some 10, de_last_seen = 50,
        de_fuzzy_size_factor = double_0_02 \<rparr>],
      tbl_collisions :=
       [\<lparr> co_decision_id = 1, co_candidate_trackers = stringify [''a.example''],
        co_known_trackers = stringify [''b.example''], co_first_seen = 10, co_last_seen = 50,
        co_updated_at = 50 \<rparr>] \<rparr> \<rparr>)"
    unfolding assessAndSaveResults_def cfg meta_run
    by (simp add: assessment_def Let_def)
       (simp add: matchedWorld_def metaPrivate_def sv [unfolded assessment_def metaPrivate_def])
  show "fst (assessAndSaveResults cachedEnv (configOf FLEXIBLE) 50 (Meta (metaPrivate (Some (BInt 1)))) showSearchee
     ''guid-1'' 10 ''a.example'' matchedWorld) =
     Returned (assessment INFO_HASH_ALREADY_EXISTS_ANOTHER_TRACKER (Some (metaPrivate (Some (BInt 1))))
       (Some True) (Some mismatchAB))"
    unfolding run by simp
  show "tbl_searchee (w_db (snd (assessAndSaveResults cachedEnv (configOf FLEXIBLE) 50
     (Meta (metaPrivate (Some (BInt 1)))) showSearchee ''guid-1'' 10 ''a.example'' matchedWorld))) =
     [\<lparr> se_id = 1, se_name = ''Show.S01'' \<rparr>]"
    unfolding run by (simp add: matchedDb_def emptyDb_def)
  show "tbl_decision (w_db (snd (assessAndSaveResults cachedEnv (configOf FLEXIBLE) 50
     (Meta (metaPrivate (Some (BInt 1)))) showSearchee ''guid-1'' 10 ''a.example'' matchedWorld))) =
     [\<lparr> de_id = 1, de_searchee_id = 1, de_guid = ''guid-1'', de_info_hash = Some ''h1'',
        de_decision = INFO_HASH_ALREADY_EXISTS_ANOTHER_TRACKER, de_first_seen = Some 10, de_last_seen = 50,
        de_fuzzy_size_factor = double_0_02 \<rparr>]"
    unfolding run by simp
  show "tbl_collisions (w_db (snd (assessAndSaveResults cachedEnv (configOf FLEXIBLE) 50
     (Meta (metaPrivate (Some (BInt 1)))) showSearchee ''guid-1'' 10 ''a.example'' matchedWorld))) =
     [\<lparr> co_decision_id = 1, co_candidate_trackers = stringify [''a.example''],
        co_known_trackers = stringify [''b.example''], co_first_seen = 10, co_last_seen = 50,
        co_updated_at = 50 \<rparr>]"
    unfolding run by simp
qed


theorem persisted_collision_rows_witness:
  "fst (assessAndSaveResults cachedEnv (configOf FLEXIBLE) 50 (Meta (metaPrivate (Some (BInt 1)))) showSearchee
     ''guid-1'' 10 ''a.example'' matchedWorld) =
     Returned (assessment INFO_HASH_ALREADY_EXISTS_ANOTHER_TRACKER (Some (metaPrivate (Some (BInt 1))))
       (Some True) (Some mismatchAB)) \<and>
   map de_decision (tbl_decision (w_db (snd (assessAndSaveResults cachedEnv (configOf FLEXIBLE) 50
     (Meta (metaPrivate (Some (BInt 1)))) showSearchee ''guid-1'' 10 ''a.example'' matchedWorld)))) =
     [INFO_HASH_ALREADY_EXISTS_ANOTHER_TRACKER] \<and>
   list_ex (\<lambda>c. co_decision_id c = 1)
     (tbl_collisions (w_db (snd (assessAndSaveResults cachedEnv (configOf FLEXIBLE) 50
        (Meta (metaPrivate (Some (BInt 1)))) showSearchee ''guid-1'' 10 ''a.example'' matchedWorld)))) \<and>
   mf_raw_info_private (metaPrivate (Some (BInt 1))) = Some (BInt 1) \<and>
   readTorrentCache cachedEnv ''h1'' = Some (metaPrivate (Some (BInt 1))) \<and>
   fst (assessCandidateCaching cachedEnv (configOf FLEXIBLE) 50
          (candidateOf ''Show.S01'' None ''http://indexer/1'') showSearchee matchedWorld) =
     Returned (assessment INFO_HASH_ALREADY_EXISTS_ANOTHER_TRACKER None None (Some mismatchAB)) \<and>
   map de_decision (tbl_decision (w_db (snd (assessCandidateCaching cachedEnv (configOf FLEXIBLE) 50
          (candidateOf ''Show.S01'' None ''http://indexer/1'') showSearchee matchedWorld)))) = [MATCH]"
proof -
  let ?m = "metaPrivate (Some (BInt 1))"
  let ?run = "assessAndSaveResults cachedEnv (configOf FLEXIBLE) 50 (Meta ?m) showSearchee
     ''guid-1'' 10 ''a.example'' matchedWorld"
  let ?a = "assessment INFO_HASH_ALREADY_EXISTS_ANOTHER_TRACKER (Some ?m) (Some True) (Some mismatchAB)"
  let ?sr = "\<lparr> se_id = 1, se_name = ''Show.S01'' \<rparr>"
  let ?dr = "\<lparr> de_id = 1, de_searchee_id = 1, de_guid = ''guid-1'', de_info_hash = Some ''h1'',
        de_decision = INFO_HASH_ALREADY_EXISTS_ANOTHER_TRACKER, de_first_seen = Some 10, de_last_seen = 50,
        de_fuzzy_size_factor = double_0_02 \<rparr>"
  let ?c = "candidateOf ''Show.S01'' None ''http://indexer/1''"
  let ?cc = "assessCandidateCaching cachedEnv (configOf FLEXIBLE) 50 ?c showSearchee matchedWorld"
  let ?wr = "emit (ReadTorrentCache ''h1'') matchedWorld"
  let ?entry = "hd (tbl_decision matchedDb)"
  note inst = persisted_collision_rows
      [where e = cachedEnv and cfg = "configOf FLEXIBLE" and now = 50 and metaOrCandidate = "Meta ?m"
         and searchee = showSearchee and guid = "''guid-1''" and firstSeen = 10
         and candidateTracker = "''a.example''" and w = matchedWorld and a = ?a and w' = "snd ?run"
         and metafile = ?m and sr = ?sr and dr = ?dr
         and candidate = ?c and ?w0.0 = matchedWorld and res = "Some ?m" and wr = ?wr
         and entry = ?entry and h = "''h1''" and tm = "Some mismatchAB" and cts = "[''a.example'']"
         and out = "fst ?cc" and wc' = "snd ?cc"]
  have r: "?run = (Returned ?a, snd ?run)"
    using save_run(1) by (simp add: prod_eq_iff)
  have hyp: "?run = (Returned ?a, snd ?run) \<and>
    ra_metafile ?a = Some ?m \<and> ra_metaCached ?a = Some True \<and>
    find (\<lambda>sr. se_name sr = s_title showSearchee) (tbl_searchee (w_db (snd ?run))) = Some ?sr \<and>
    find (\<lambda>dr. de_searchee_id dr = se_id ?sr \<and> de_guid dr = ''guid-1'') (tbl_decision (w_db (snd ?run))) = Some ?dr \<and>
    de_id ?dr \<noteq> 0"
  proof -
    have t: "s_title showSearchee = ''Show.S01''" by (simp add: showSearchee_def)
    have h1: "ra_metafile ?a = Some ?m" "ra_metaCached ?a = Some True" by (simp_all add: assessment_def)
    have h2: "find (\<lambda>sr. se_name sr = s_title showSearchee) (tbl_searchee (w_db (snd ?run))) = Some ?sr"
      unfolding t save_run(2) by simp
    have h3: "find (\<lambda>dr. de_searchee_id dr = se_id ?sr \<and> de_guid dr = ''guid-1'') (tbl_decision (w_db (snd ?run))) = Some ?dr"
      unfolding save_run(3) by simp
    have h4: "de_id ?dr \<noteq> 0" by simp
    from r h1 h2 h3 h4 show ?thesis by blast
  qed
  from inst [THEN conjunct1] hyp
  have c2: "de_decision ?dr = ra_decision ?a" by blast
  have w1: "fst ?run = Returned ?a" by (rule save_run(1))
  have w2: "map de_decision (tbl_decision (w_db (snd ?run))) = [INFO_HASH_ALREADY_EXISTS_ANOTHER_TRACKER]"
    using c2 by (simp add: save_run(3))
  have w3: "list_ex (\<lambda>c. co_decision_id c = 1) (tbl_collisions (w_db (snd ?run)))"
    by (simp add: save_run(4))
  have w4: "mf_raw_info_private ?m = Some (BInt 1)" by (simp add: metaPrivate_def)
  have g: "getCachedTorrent cachedEnv (guidLookup cachedEnv (c_guid ?c) (c_link ?c) (guidInfoHashMap matchedWorld))
      matchedWorld = (Some ?m, ?wr)"
    using cached_lookup by (simp add: candidateOf_def)
  have lk: "guidLookup cachedEnv (c_guid ?c) (c_link ?c) (guidInfoHashMap matchedWorld) = Some ''h1''"
    by (simp add: guidLookup_def matchedWorld_def truthy_def candidateOf_def)
  have en: "findCacheEntry showSearchee (c_guid ?c) (w_db matchedWorld) = Some ?entry"
    using cached_entry by (simp add: candidateOf_def matchedWorld_def)
  have ih: "de_info_hash ?entry = Some ''h1''" "''h1'' \<in> infoHashesToExclude matchedWorld"
    by (simp_all add: matchedDb_def emptyDb_def matchedWorld_def)
  have tm: "Some mismatchAB =
      (case Some ?m of Some meta \<Rightarrow> logAnnounceMismatch cachedEnv (w_db ?wr) meta | None \<Rightarrow> None)"
    by (simp add: cached_tm)
  have cts: "[''a.example''] = conflictCandidateTrackers (Some mismatchAB) (Some (c_tracker ?c))"
    by (simp add: conflictCandidateTrackers_def mismatchAB_def)
  have nr: "tbl_conflict_rules (w_db ?wr) = []"
    by (simp add: emit_def matchedWorld_def matchedDb_def emptyDb_def)
  have kept: "[''a.example''] = [] \<or>
      \<not> fst (resolveConflictRules (getClients cachedEnv) ''h1'' [''a.example''] ?wr)"
    by (simp add: no_rules_resolve [OF nr])
  have "?cc = (fst ?cc, snd ?cc)" by simp
  with inst [THEN conjunct2, THEN conjunct2, THEN conjunct2] g en ih tm cts kept
  have c3: "Some ?m = (if truthy (guidLookup cachedEnv (c_guid ?c) (c_link ?c) (guidInfoHashMap matchedWorld))
           then readTorrentCache cachedEnv
                  (the (guidLookup cachedEnv (c_guid ?c) (c_link ?c) (guidInfoHashMap matchedWorld)))
           else None)"
    and c4: "fst ?cc = Returned (assessment (if Some mismatchAB \<noteq> None then INFO_HASH_ALREADY_EXISTS_ANOTHER_TRACKER
                                else INFO_HASH_ALREADY_EXISTS) None None (Some mismatchAB))"
    and c5: "tbl_decision (w_db (snd ?cc)) =
      map (\<lambda>r. if de_id r = de_id ?entry
                then r\<lparr> de_last_seen := 50,
                        de_decision := (if isAnyMatchedDecision (de_decision ?entry)
                                        then de_decision ?entry
                                        else if Some mismatchAB \<noteq> None then INFO_HASH_ALREADY_EXISTS_ANOTHER_TRACKER
                                        else INFO_HASH_ALREADY_EXISTS) \<rparr>
                else r)
        (tbl_decision (w_db matchedWorld))"
    by blast+
  from c3 have w5: "readTorrentCache cachedEnv ''h1'' = Some ?m"
    by (simp add: lk truthy_def)
  from c4 have w6: "fst ?cc = Returned (assessment INFO_HASH_ALREADY_EXISTS_ANOTHER_TRACKER None None (Some mismatchAB))"
    by simp
  from c5 have w7: "map de_decision (tbl_decision (w_db (snd ?cc))) = [MATCH]"
    by (simp add: matchedWorld_def matchedDb_def emptyDb_def isAnyMatchedDecision_def)
  from w1 w2 w3 w4 w5 w6 w7 show ?thesis by blast
qed

section \<open>Properties of the private-collision policy at the entry points\<close>

text \<open>
  Without a metafile of \<open>private = 1\<close>, the transaction of \<open>assessAndSaveResults\<close>
  and the cached branch leave the collisions as they are, or without the rows of one
  decision.
\<close>

lemma saveAssessment_collisions:
  assumes "saveAssessment e now a metafile searchee guid firstSeen d = Some d'"
    and "\<not> canRecordPrivateCollision (Some metafile)"
  shows "tbl_collisions d' = tbl_collisions d \<or>
         (\<exists>i. tbl_collisions d' = filter (\<lambda>c. co_decision_id c \<noteq> i) (tbl_collisions d))"
proof -
  from assms(1) obtain sr0 where sr0: "find (\<lambda>sr. se_name sr = s_title searchee) (tbl_searchee d) = Some sr0"
    by (auto simp: saveAssessment_def split: option.splits)
  let ?d1 = "upsertDecision (se_id sr0) guid (mf_infoHash metafile) (ra_decision a) firstSeen now
               (getFuzzySizeFactor e searchee) d"
  from assms sr0 have "d' = ?d1 \<or> (\<exists>i. d' = deleteCollisionRecord i ?d1)"
    by (auto simp: saveAssessment_def Let_def split: option.splits if_splits)
  then show ?thesis
    by (auto simp: deleteCollisionRecord_def upsertDecision_tables)
qed

lemma assessAndSaveResults_collisions:
  assumes run: "assessAndSaveResults e cfg now moc searchee guid fs ct w = (out, w')"
    and ac: "assessCandidate e cfg moc searchee (blockList cfg) (Some ct) w = (a, w1)"
    and no: "\<not> canRecordPrivateCollision (ra_metafile a)"
  shows "tbl_collisions (w_db w') = tbl_collisions (w_db w) \<or>
         (\<exists>i. tbl_collisions (w_db w') = filter (\<lambda>c. co_decision_id c \<noteq> i) (tbl_collisions (w_db w)))"
proof -
  have before: "tbl_collisions (w_db w1) = tbl_collisions (w_db w)"
    using assessCandidate_tables(2) [of e cfg moc searchee "blockList cfg" "Some ct" w] ac by simp
  show ?thesis
  proof (cases "ra_metafile a")
    case None
    with run ac have "w' = w1" by (simp add: assessAndSaveResults_def)
    with before show ?thesis by simp
  next
    case (Some metafile)
    show ?thesis
    proof (cases "ra_metaCached a = Some True")
      case False
      with run ac Some have "w' = w1" by (simp add: assessAndSaveResults_def)
      with before show ?thesis by simp
    next
      case True
      let ?w2 = "w1\<lparr> guidInfoHashMap := mapSet guid (mf_infoHash metafile) (guidInfoHashMap w1) \<rparr>"
      show ?thesis
      proof (cases "saveAssessment e now a metafile searchee guid fs (w_db ?w2)")
        case None
        with run ac Some True have "w' = ?w2" by (simp add: assessAndSaveResults_def Let_def)
        with before show ?thesis by simp
      next
        case (Some d')
        with run ac \<open>ra_metafile a = Some metafile\<close> True have "w_db w' = d'"
          by (auto simp: assessAndSaveResults_def Let_def)
        moreover from no \<open>ra_metafile a = Some metafile\<close>
        have "\<not> canRecordPrivateCollision (Some metafile)" by simp
        from saveAssessment_collisions [OF Some this]
        have "tbl_collisions d' = tbl_collisions (w_db w) \<or>
              (\<exists>i. tbl_collisions d' = filter (\<lambda>c. co_decision_id c \<noteq> i) (tbl_collisions (w_db w)))"
          using before by simp
        ultimately show ?thesis by simp
      qed
    qed
  qed
qed

text \<open>
  The metafile of an assessment of the cached torrent, or else of the candidate, is the
  cached torrent or the torrent snatched for the candidate.
\<close>

lemma wrapper_metafile:
  assumes ac: "assessCandidate e cfg (case res of Some meta \<Rightarrow> Meta meta | None \<Rightarrow> Cand candidate)
                 searchee bl ct w = (a, w1)"
    and cached: "\<not> canRecordPrivateCollision res"
    and snatched: "res = None \<longrightarrow>
                   (\<forall>m. snatch e candidate (s_label searchee) = Inr m \<longrightarrow> mf_raw_info_private m \<noteq> Some (BInt 1))"
  shows "\<not> canRecordPrivateCollision (ra_metafile a)"
proof (cases "ra_metafile a")
  case None
  then show ?thesis by (simp add: canRecord_iff)
next
  case (Some metafile)
  note src = assessCandidate_metafile_source [OF ac Some]
  show ?thesis
  proof (cases res)
    case None
    with src have "snatch e candidate (s_label searchee) = Inr metafile" by simp
    with snatched None have "mf_raw_info_private metafile \<noteq> Some (BInt 1)" by simp
    with Some show ?thesis by (simp add: canRecord_iff)
  next
    case (Some meta)
    with src have "metafile = meta" by simp
    with cached Some \<open>ra_metafile a = Some metafile\<close> show ?thesis by simp
  qed
qed

lemma assessCandidateCaching_collisions:
  assumes g: "getCachedTorrent e (guidLookup e (c_guid candidate) (c_link candidate) (guidInfoHashMap w0)) w0 = (res, wr)"
    and run: "assessCandidateCaching e cfg now candidate searchee w0 = (out, wc')"
    and cached: "\<not> canRecordPrivateCollision res"
    and snatched: "res = None \<longrightarrow>
                   (\<forall>m. snatch e candidate (s_label searchee) = Inr m \<longrightarrow> mf_raw_info_private m \<noteq> Some (BInt 1))"
  shows "tbl_collisions (w_db wc') = tbl_collisions (w_db w0) \<or>
         (\<exists>i. tbl_collisions (w_db wc') = filter (\<lambda>c. co_decision_id c \<noteq> i) (tbl_collisions (w_db w0)))"
proof -
  let ?moc = "case res of Some meta \<Rightarrow> Meta meta | None \<Rightarrow> Cand candidate"
  let ?tm = "case res of Some meta \<Rightarrow> logAnnounceMismatch e (w_db wr) meta | None \<Rightarrow> None"
  let ?cts = "conflictCandidateTrackers ?tm (Some (c_tracker candidate))"
  have assessed: ?thesis
    if eq: "assessCandidateCaching e cfg now candidate searchee w0 =
              assessAndSaveResults e cfg now ?moc searchee (c_guid candidate) fs (c_tracker candidate) w2"
      and cols: "tbl_collisions (w_db w2) = tbl_collisions (w_db w0)" for fs w2
  proof -
    obtain a w1 where ac: "assessCandidate e cfg ?moc searchee (blockList cfg) (Some (c_tracker candidate)) w2 = (a, w1)"
      by (cases "assessCandidate e cfg ?moc searchee (blockList cfg) (Some (c_tracker candidate)) w2") blast
    from run eq have r: "assessAndSaveResults e cfg now ?moc searchee (c_guid candidate) fs (c_tracker candidate) w2 = (out, wc')"
      by simp
    from assessAndSaveResults_collisions [OF r ac wrapper_metafile [OF ac cached snatched]] cols
    show ?thesis by simp
  qed
  show ?thesis
  proof (cases "\<exists>entry h. findCacheEntry searchee (c_guid candidate) (w_db w0) = Some entry \<and>
                  de_info_hash entry = Some h \<and> h \<in> infoHashesToExclude w0")
    case False
    from assessCandidateCaching_fresh [OF g refl, of searchee cfg now] False
    have "assessCandidateCaching e cfg now candidate searchee w0 =
        assessAndSaveResults e cfg now ?moc searchee (c_guid candidate)
          (case findCacheEntry searchee (c_guid candidate) (w_db w0) of
             None \<Rightarrow> now
           | Some entry \<Rightarrow> (case de_first_seen entry of Some t \<Rightarrow> t | None \<Rightarrow> now))
          (c_tracker candidate) wr"
      by simp
    moreover have "tbl_collisions (w_db wr) = tbl_collisions (w_db w0)"
      using getCachedTorrent_frame(2) [OF g] by simp
    ultimately show ?thesis by (rule assessed)
  next
    case True
    then obtain entry h where en: "findCacheEntry searchee (c_guid candidate) (w_db w0) = Some entry"
      and ih: "de_info_hash entry = Some h" and ex: "h \<in> infoHashesToExclude w0"
      by blast
    let ?r = "resolveConflictRules (getClients e) h ?cts wr"
    show ?thesis
    proof (cases "?cts \<noteq> [] \<and> fst ?r")
      case True
      with assessCandidateCaching_excluded(1) [OF g en ih ex refl refl, of cfg now]
      have "assessCandidateCaching e cfg now candidate searchee w0 =
          assessAndSaveResults e cfg now ?moc searchee (c_guid candidate)
            (case de_first_seen entry of Some t \<Rightarrow> t | None \<Rightarrow> now) (c_tracker candidate)
            ((snd ?r)\<lparr> infoHashesToExclude := infoHashesToExclude (snd ?r) - {h} \<rparr>)"
        by simp
      moreover have "tbl_collisions (w_db ((snd ?r)\<lparr> infoHashesToExclude := infoHashesToExclude (snd ?r) - {h} \<rparr>)) =
          tbl_collisions (w_db w0)"
        using getCachedTorrent_frame(2) [OF g] by (simp add: resolveConflictRules_tables)
      ultimately show ?thesis by (rule assessed)
    next
      case False
      then have kept: "?cts = [] \<or> \<not> fst ?r" by blast
      from assessCandidateCaching_kept [OF g en ih ex refl refl kept, of cfg now] run
      obtain w1 where cc: "cachedCollision now entry res ?tm w1 = (out, wc')"
        and cols: "tbl_collisions (w_db w1) = tbl_collisions (w_db w0)"
        by auto
      from cachedCollision_deletes [OF cc cached] cols show ?thesis by auto
    qed
  qed
qed

lemma public_run:
  "fst (assessAndSaveResults cachedEnv (configOf FLEXIBLE) 50 (Meta (metaPrivate (Some (BInt 0)))) showSearchee
     ''guid-1'' 10 ''a.example'' staleWorld) =
     Returned (assessment INFO_HASH_ALREADY_EXISTS_ANOTHER_TRACKER (Some (metaPrivate (Some (BInt 0))))
       (Some True) (Some mismatchAB))"
  "tbl_searchee (w_db (snd (assessAndSaveResults cachedEnv (configOf FLEXIBLE) 50
     (Meta (metaPrivate (Some (BInt 0)))) showSearchee ''guid-1'' 10 ''a.example'' staleWorld))) =
     [\<lparr> se_id = 1, se_name = ''Show.S01'' \<rparr>]"
  "tbl_decision (w_db (snd (assessAndSaveResults cachedEnv (configOf FLEXIBLE) 50
     (Meta (metaPrivate (Some (BInt 0)))) showSearchee ''guid-1'' 10 ''a.example'' staleWorld))) =
     [\<lparr> de_id = 1, de_searchee_id = 1, de_guid = ''guid-1'', de_info_hash = Some ''h1'',
        de_decision = INFO_HASH_ALREADY_EXISTS_ANOTHER_TRACKER, de_first_seen = Some 10, de_last_seen = 50,
        de_fuzzy_size_factor = double_0_02 \<rparr>]"
proof -
  let ?m = "metaPrivate (Some (BInt 0))"
  let ?a = "assessment INFO_HASH_ALREADY_EXISTS_ANOTHER_TRACKER (Some ?m) (Some True) (Some mismatchAB)"
  let ?dr = "\<lparr> de_id = 1, de_searchee_id = 1, de_guid = ''guid-1'', de_info_hash = Some ''h1'',
        de_decision = INFO_HASH_ALREADY_EXISTS_ANOTHER_TRACKER, de_first_seen = Some 10, de_last_seen = 50,
        de_fuzzy_size_factor = double_0_02 \<rparr>"
  have cfg: "blockList (configOf FLEXIBLE) = []" by (simp add: configOf_def)
  have mr: "assessCandidate cachedEnv (configOf FLEXIBLE) (Meta ?m) showSearchee []
     (Some ''a.example'') staleWorld = (?a, staleWorld)"
    by (rule meta_run_any) (simp_all add: staleWorld_def matchedWorld_def matchedDb_def emptyDb_def)
  have sv: "saveAssessment cachedEnv 50 ?a ?m showSearchee ''guid-1'' 10 (w_db staleWorld) =
    Some ((w_db staleWorld)\<lparr> tbl_decision := [?dr], tbl_collisions := [] \<rparr>)"
    by (simp add: saveAssessment_def Let_def staleWorld_def matchedWorld_def matchedDb_def emptyDb_def
      showSearchee_def upsertDecision_def assessment_def metaPrivate_def cachedEnv_def demoEnv_def
      canRecordPrivateCollision_def getTorrentPrivateFlag_def deleteCollisionRecord_def)
  have gm: "mapSet ''guid-1'' (mf_infoHash ?m) (guidInfoHashMap staleWorld) = [(''guid-1'', ''h1'')]"
    by (simp add: staleWorld_def matchedWorld_def metaPrivate_def)
  have wdb: "w_db (staleWorld\<lparr> guidInfoHashMap := gm \<rparr>) = w_db staleWorld" for gm
    by simp
  have am: "ra_metafile ?a = Some ?m" "ra_metaCached ?a = Some True"
    by (simp_all add: assessment_def)
  have run: "assessAndSaveResults cachedEnv (configOf FLEXIBLE) 50 (Meta ?m) showSearchee
     ''guid-1'' 10 ''a.example'' staleWorld =
     (Returned ?a,
      staleWorld\<lparr> guidInfoHashMap := [(''guid-1'', ''h1'')],
        w_db := (w_db staleWorld)\<lparr> tbl_decision := [?dr], tbl_collisions := [] \<rparr> \<rparr>)"
    unfolding assessAndSaveResults_def cfg mr
    by (simp add: am gm wdb sv Let_def)
  show "fst (assessAndSaveResults cachedEnv (configOf FLEXIBLE) 50 (Meta ?m) showSearchee
     ''guid-1'' 10 ''a.example'' staleWorld) = Returned ?a"
    unfolding run by simp
  show "tbl_searchee (w_db (snd (assessAndSaveResults cachedEnv (configOf FLEXIBLE) 50
     (Meta ?m) showSearchee ''guid-1'' 10 ''a.example'' staleWorld))) =
     [\<lparr> se_id = 1, se_name = ''Show.S01'' \<rparr>]"
    unfolding run by (simp add: staleWorld_def matchedDb_def emptyDb_def)
  show "tbl_decision (w_db (snd (assessAndSaveResults cachedEnv (configOf FLEXIBLE) 50
     (Meta ?m) showSearchee ''guid-1'' 10 ''a.example'' staleWorld))) = [?dr]"
    unfolding run by simp
qed

text \<open>
  C9. \<open>canRecordPrivateCollision\<close> holds exactly for a metafile whose info dictionary
  has the integer 1 as \<open>private\<close>: not for 0, not for an absent or other value, and
  not without a metafile. When \<open>assessAndSaveResults\<close> has persisted an assessment
  whose metafile (the one handed in, or the one snatched for the candidate) has not
  \<open>private = 1\<close>, the collisions are those from before the call without the rows of
  the decision row: its rows are deleted, and no row is written or changed. When
  \<open>assessCandidateCaching\<close> takes the cached branch (the cached decision is of an
  excluded info-hash that the conflict rules do not evict) and the torrent it read from
  the cache has not \<open>private = 1\<close>, or there is none, the collisions are those from
  before the call without the rows of the cached decision. And whatever the branch and
  the outcome: when the metafile of the assessment has not \<open>private = 1\<close>, a call of
  \<open>assessAndSaveResults\<close> leaves the collisions as they were, or without the rows of
  one decision; and so does a call of \<open>assessCandidateCaching\<close> when neither the
  torrent read from the cache nor, without one, a torrent snatched for the candidate has
  \<open>private = 1\<close>.
\<close>

theorem canRecordPrivateCollision_private_only:
  "(canRecordPrivateCollision m \<longleftrightarrow>
      (\<exists>meta. m = Some meta \<and> mf_raw_info_private meta = Some (BInt 1))) \<and>
   (assessAndSaveResults e cfg now metaOrCandidate searchee guid firstSeen candidateTracker w = (Returned a, w') \<and>
    ra_metafile a = Some metafile \<and> ra_metaCached a = Some True \<and>
    find (\<lambda>sr. se_name sr = s_title searchee) (tbl_searchee (w_db w')) = Some sr \<and>
    find (\<lambda>dr. de_searchee_id dr = se_id sr \<and> de_guid dr = guid) (tbl_decision (w_db w')) = Some dr \<and>
    de_id dr \<noteq> 0 \<and>
    mf_raw_info_private metafile \<noteq> Some (BInt 1)
    \<longrightarrow>
    (case metaOrCandidate of
       Meta m0 \<Rightarrow> metafile = m0
     | Cand c \<Rightarrow> snatch e c (s_label searchee) = Inr metafile) \<and>
    \<not> canRecordPrivateCollision (Some metafile) \<and>
    tbl_collisions (w_db w') = filter (\<lambda>c. co_decision_id c \<noteq> de_id dr) (tbl_collisions (w_db w))) \<and>
   (getCachedTorrent e (guidLookup e (c_guid candidate) (c_link candidate) (guidInfoHashMap w0)) w0 = (res, wr) \<and>
    findCacheEntry searchee (c_guid candidate) (w_db w0) = Some entry \<and>
    de_info_hash entry = Some h \<and> h \<in> infoHashesToExclude w0 \<and>
    tm = (case res of Some meta \<Rightarrow> logAnnounceMismatch e (w_db wr) meta | None \<Rightarrow> None) \<and>
    cts = conflictCandidateTrackers tm (Some (c_tracker candidate)) \<and>
    (cts = [] \<or> \<not> fst (resolveConflictRules (getClients e) h cts wr)) \<and>
    \<not> (\<exists>meta. res = Some meta \<and> mf_raw_info_private meta = Some (BInt 1)) \<and>
    assessCandidateCaching e cfg now candidate searchee w0 = (out, wc')
    \<longrightarrow>
    res = (if truthy (guidLookup e (c_guid candidate) (c_link candidate) (guidInfoHashMap w0))
           then readTorrentCache e (the (guidLookup e (c_guid candidate) (c_link candidate) (guidInfoHashMap w0)))
           else None) \<and>
    \<not> canRecordPrivateCollision res \<and>
    tbl_collisions (w_db wc') = filter (\<lambda>c. co_decision_id c \<noteq> de_id entry) (tbl_collisions (w_db w0))) \<and>
   (assessAndSaveResults e cfg now metaOrCandidate searchee guid firstSeen candidateTracker w = (out2, w2) \<and>
    assessCandidate e cfg metaOrCandidate searchee (blockList cfg) (Some candidateTracker) w = (a1, w1) \<and>
    \<not> canRecordPrivateCollision (ra_metafile a1)
    \<longrightarrow>
    tbl_collisions (w_db w2) = tbl_collisions (w_db w) \<or>
    (\<exists>i. tbl_collisions (w_db w2) = filter (\<lambda>c. co_decision_id c \<noteq> i) (tbl_collisions (w_db w)))) \<and>
   (getCachedTorrent e (guidLookup e (c_guid candidate) (c_link candidate) (guidInfoHashMap w0)) w0 = (res, wr) \<and>
    assessCandidateCaching e cfg now candidate searchee w0 = (out, wc') \<and>
    \<not> canRecordPrivateCollision res \<and>
    (res = None \<longrightarrow>
       (\<forall>m. snatch e candidate (s_label searchee) = Inr m \<longrightarrow> mf_raw_info_private m \<noteq> Some (BInt 1)))
    \<longrightarrow>
    tbl_collisions (w_db wc') = tbl_collisions (w_db w0) \<or>
    (\<exists>i. tbl_collisions (w_db wc') = filter (\<lambda>c. co_decision_id c \<noteq> i) (tbl_collisions (w_db w0))))"
proof -
  have p4: "tbl_collisions (w_db w2) = tbl_collisions (w_db w) \<or>
    (\<exists>i. tbl_collisions (w_db w2) = filter (\<lambda>c. co_decision_id c \<noteq> i) (tbl_collisions (w_db w)))"
    if "assessAndSaveResults e cfg now metaOrCandidate searchee guid firstSeen candidateTracker w = (out2, w2) \<and>
      assessCandidate e cfg metaOrCandidate searchee (blockList cfg) (Some candidateTracker) w = (a1, w1) \<and>
      \<not> canRecordPrivateCollision (ra_metafile a1)"
    using that assessAndSaveResults_collisions [of e cfg now metaOrCandidate searchee guid firstSeen
        candidateTracker w out2 w2 a1 w1]
    by blast
  have p5: "tbl_collisions (w_db wc') = tbl_collisions (w_db w0) \<or>
    (\<exists>i. tbl_collisions (w_db wc') = filter (\<lambda>c. co_decision_id c \<noteq> i) (tbl_collisions (w_db w0)))"
    if "getCachedTorrent e (guidLookup e (c_guid candidate) (c_link candidate) (guidInfoHashMap w0)) w0 = (res, wr) \<and>
      assessCandidateCaching e cfg now candidate searchee w0 = (out, wc') \<and>
      \<not> canRecordPrivateCollision res \<and>
      (res = None \<longrightarrow>
         (\<forall>m. snatch e candidate (s_label searchee) = Inr m \<longrightarrow> mf_raw_info_private m \<noteq> Some (BInt 1)))"
    using that assessCandidateCaching_collisions [of e candidate w0 res wr cfg now searchee out wc']
    by blast
  have p1: "canRecordPrivateCollision m \<longleftrightarrow>
      (\<exists>meta. m = Some meta \<and> mf_raw_info_private meta = Some (BInt 1))"
    by (rule canRecord_iff)
  have p2: "(case metaOrCandidate of
       Meta m0 \<Rightarrow> metafile = m0
     | Cand c \<Rightarrow> snatch e c (s_label searchee) = Inr metafile) \<and>
    \<not> canRecordPrivateCollision (Some metafile) \<and>
    tbl_collisions (w_db w') = filter (\<lambda>c. co_decision_id c \<noteq> de_id dr) (tbl_collisions (w_db w))"
    if h: "assessAndSaveResults e cfg now metaOrCandidate searchee guid firstSeen candidateTracker w = (Returned a, w') \<and>
      ra_metafile a = Some metafile \<and> ra_metaCached a = Some True \<and>
      find (\<lambda>sr. se_name sr = s_title searchee) (tbl_searchee (w_db w')) = Some sr \<and>
      find (\<lambda>dr. de_searchee_id dr = se_id sr \<and> de_guid dr = guid) (tbl_decision (w_db w')) = Some dr \<and>
      de_id dr \<noteq> 0 \<and>
      mf_raw_info_private metafile \<noteq> Some (BInt 1)"
  proof -
    from h have run: "assessAndSaveResults e cfg now metaOrCandidate searchee guid firstSeen candidateTracker w = (Returned a, w')"
      and m: "ra_metafile a = Some metafile" and mc: "ra_metaCached a = Some True"
      and sr: "find (\<lambda>sr. se_name sr = s_title searchee) (tbl_searchee (w_db w')) = Some sr"
      and dr: "find (\<lambda>dr. de_searchee_id dr = se_id sr \<and> de_guid dr = guid) (tbl_decision (w_db w')) = Some dr"
      and nz: "de_id dr \<noteq> 0"
      and np: "mf_raw_info_private metafile \<noteq> Some (BInt 1)"
      by blast+
    from assessAndSaveResults_persisted [OF run m mc] obtain d where
      save: "saveAssessment e now a metafile searchee guid firstSeen d = Some (w_db w')"
      and before: "tbl_collisions d = tbl_collisions (w_db w)"
      and src: "case metaOrCandidate of
                  Meta m0 \<Rightarrow> metafile = m0
                | Cand c \<Rightarrow> snatch e c (s_label searchee) = Inr metafile"
      by blast
    from np have no: "\<not> canRecordPrivateCollision (Some metafile)"
      by (simp add: canRecord_iff)
    from saveAssessment_deletes [OF save sr dr nz no] before
    have "tbl_collisions (w_db w') = filter (\<lambda>c. co_decision_id c \<noteq> de_id dr) (tbl_collisions (w_db w))"
      by simp
    with src no show ?thesis by blast
  qed
  have p3: "res = (if truthy (guidLookup e (c_guid candidate) (c_link candidate) (guidInfoHashMap w0))
           then readTorrentCache e (the (guidLookup e (c_guid candidate) (c_link candidate) (guidInfoHashMap w0)))
           else None) \<and>
    \<not> canRecordPrivateCollision res \<and>
    tbl_collisions (w_db wc') = filter (\<lambda>c. co_decision_id c \<noteq> de_id entry) (tbl_collisions (w_db w0))"
    if h: "getCachedTorrent e (guidLookup e (c_guid candidate) (c_link candidate) (guidInfoHashMap w0)) w0 = (res, wr) \<and>
      findCacheEntry searchee (c_guid candidate) (w_db w0) = Some entry \<and>
      de_info_hash entry = Some h \<and> h \<in> infoHashesToExclude w0 \<and>
      tm = (case res of Some meta \<Rightarrow> logAnnounceMismatch e (w_db wr) meta | None \<Rightarrow> None) \<and>
      cts = conflictCandidateTrackers tm (Some (c_tracker candidate)) \<and>
      (cts = [] \<or> \<not> fst (resolveConflictRules (getClients e) h cts wr)) \<and>
      \<not> (\<exists>meta. res = Some meta \<and> mf_raw_info_private meta = Some (BInt 1)) \<and>
      assessCandidateCaching e cfg now candidate searchee w0 = (out, wc')"
  proof -
    from h have g: "getCachedTorrent e (guidLookup e (c_guid candidate) (c_link candidate) (guidInfoHashMap w0)) w0 = (res, wr)"
      and en: "findCacheEntry searchee (c_guid candidate) (w_db w0) = Some entry"
      and ih: "de_info_hash entry = Some h" and ex: "h \<in> infoHashesToExclude w0"
      and tm: "tm = (case res of Some meta \<Rightarrow> logAnnounceMismatch e (w_db wr) meta | None \<Rightarrow> None)"
      and cts: "cts = conflictCandidateTrackers tm (Some (c_tracker candidate))"
      and kept: "cts = [] \<or> \<not> fst (resolveConflictRules (getClients e) h cts wr)"
      and np: "\<not> (\<exists>meta. res = Some meta \<and> mf_raw_info_private meta = Some (BInt 1))"
      and run: "assessCandidateCaching e cfg now candidate searchee w0 = (out, wc')"
      by blast+
    from assessCandidateCaching_kept [OF g en ih ex tm cts kept, of cfg now] run
    obtain w1 where cc: "cachedCollision now entry res tm w1 = (out, wc')"
      and cols: "tbl_collisions (w_db w1) = tbl_collisions (w_db w0)"
      by auto
    from np have no: "\<not> canRecordPrivateCollision res" by (simp add: canRecord_iff)
    from cachedCollision_deletes [OF cc no] cols
    have "tbl_collisions (w_db wc') = filter (\<lambda>c. co_decision_id c \<noteq> de_id entry) (tbl_collisions (w_db w0))"
      by simp
    with getCachedTorrent_frame(1) [OF g] no show ?thesis by blast
  qed
  from p1 p2 p3 p4 p5 show ?thesis by blast
qed

theorem canRecordPrivateCollision_private_only_witness:
  "canRecordPrivateCollision (Some (metaPrivate (Some (BInt 1)))) \<and>
   \<not> canRecordPrivateCollision (Some (metaPrivate (Some (BInt 0)))) \<and>
   \<not> canRecordPrivateCollision (Some (metaPrivate None)) \<and>
   \<not> canRecordPrivateCollision None \<and>
   map co_decision_id (tbl_collisions (w_db staleWorld)) = [1] \<and>
   fst (assessAndSaveResults cachedEnv (configOf FLEXIBLE) 50 (Meta (metaPrivate (Some (BInt 0)))) showSearchee
     ''guid-1'' 10 ''a.example'' staleWorld) =
     Returned (assessment INFO_HASH_ALREADY_EXISTS_ANOTHER_TRACKER (Some (metaPrivate (Some (BInt 0))))
       (Some True) (Some mismatchAB)) \<and>
   tbl_collisions (w_db (snd (assessAndSaveResults cachedEnv (configOf FLEXIBLE) 50
     (Meta (metaPrivate (Some (BInt 0)))) showSearchee ''guid-1'' 10 ''a.example'' staleWorld))) = [] \<and>
   readTorrentCache demoEnv ''h1'' = None \<and>
   tbl_collisions (w_db (snd (assessCandidateCaching demoEnv (configOf FLEXIBLE) 50
     (candidateOf ''Show.S01'' None ''http://indexer/1'') showSearchee staleWorld))) = [] \<and>
   (tbl_collisions (w_db (snd (assessAndSaveResults cachedEnv (configOf FLEXIBLE) 50
      (Meta (metaPrivate (Some (BInt 0)))) showSearchee ''guid-1'' 10 ''a.example'' staleWorld))) =
      tbl_collisions (w_db staleWorld) \<or>
    (\<exists>i. tbl_collisions (w_db (snd (assessAndSaveResults cachedEnv (configOf FLEXIBLE) 50
      (Meta (metaPrivate (Some (BInt 0)))) showSearchee ''guid-1'' 10 ''a.example'' staleWorld))) =
      filter (\<lambda>c. co_decision_id c \<noteq> i) (tbl_collisions (w_db staleWorld)))) \<and>
   (tbl_collisions (w_db (snd (assessCandidateCaching demoEnv (configOf FLEXIBLE) 50
      (candidateOf ''Show.S01'' None ''http://indexer/1'') showSearchee staleWorld))) =
      tbl_collisions (w_db staleWorld) \<or>
    (\<exists>i. tbl_collisions (w_db (snd (assessCandidateCaching demoEnv (configOf FLEXIBLE) 50
      (candidateOf ''Show.S01'' None ''http://indexer/1'') showSearchee staleWorld))) =
      filter (\<lambda>c. co_decision_id c \<noteq> i) (tbl_collisions (w_db staleWorld))))"
proof -
  let ?m = "metaPrivate (Some (BInt 0))"
  let ?run = "assessAndSaveResults cachedEnv (configOf FLEXIBLE) 50 (Meta ?m) showSearchee
     ''guid-1'' 10 ''a.example'' staleWorld"
  let ?a = "assessment INFO_HASH_ALREADY_EXISTS_ANOTHER_TRACKER (Some ?m) (Some True) (Some mismatchAB)"
  let ?sr = "\<lparr> se_id = 1, se_name = ''Show.S01'' \<rparr>"
  let ?dr = "\<lparr> de_id = 1, de_searchee_id = 1, de_guid = ''guid-1'', de_info_hash = Some ''h1'',
        de_decision = INFO_HASH_ALREADY_EXISTS_ANOTHER_TRACKER, de_first_seen = Some 10, de_last_seen = 50,
        de_fuzzy_size_factor = double_0_02 \<rparr>"
  let ?c = "candidateOf ''Show.S01'' None ''http://indexer/1''"
  let ?cc = "assessCandidateCaching demoEnv (configOf FLEXIBLE) 50 ?c showSearchee staleWorld"
  let ?wr = "emit (ReadTorrentCache ''h1'') staleWorld"
  let ?entry = "hd (tbl_decision matchedDb)"
  have c1: "canRecordPrivateCollision (Some (metaPrivate (Some (BInt 1))))"
    using canRecordPrivateCollision_private_only [where m = "Some (metaPrivate (Some (BInt 1)))"]
    by (simp add: metaPrivate_def)
  have c0: "\<not> canRecordPrivateCollision (Some (metaPrivate (Some (BInt 0))))"
    using canRecordPrivateCollision_private_only [where m = "Some (metaPrivate (Some (BInt 0)))"]
    by (simp add: metaPrivate_def)
  have cn: "\<not> canRecordPrivateCollision (Some (metaPrivate None))"
    using canRecordPrivateCollision_private_only [where m = "Some (metaPrivate None)"]
    by (simp add: metaPrivate_def)
  have cN: "\<not> canRecordPrivateCollision None"
    using canRecordPrivateCollision_private_only [where m = None]
    by simp
  have st: "map co_decision_id (tbl_collisions (w_db staleWorld)) = [1]"
    by (simp add: staleWorld_def matchedDb_def matchedWorld_def)
  have stf: "filter (\<lambda>c. co_decision_id c \<noteq> 1) (tbl_collisions (w_db staleWorld)) = []"
    by (simp add: staleWorld_def matchedDb_def matchedWorld_def)
  note inst = canRecordPrivateCollision_private_only
      [where e = cachedEnv and cfg = "configOf FLEXIBLE" and now = 50 and metaOrCandidate = "Meta ?m"
         and searchee = showSearchee and guid = "''guid-1''" and firstSeen = 10
         and candidateTracker = "''a.example''" and w = staleWorld and a = ?a and w' = "snd ?run"
         and metafile = ?m and sr = ?sr and dr = ?dr]
  have r: "?run = (Returned ?a, snd ?run)"
    using public_run(1) by (simp add: prod_eq_iff)
  have hyp: "?run = (Returned ?a, snd ?run) \<and>
    ra_metafile ?a = Some ?m \<and> ra_metaCached ?a = Some True \<and>
    find (\<lambda>sr. se_name sr = s_title showSearchee) (tbl_searchee (w_db (snd ?run))) = Some ?sr \<and>
    find (\<lambda>dr. de_searchee_id dr = se_id ?sr \<and> de_guid dr = ''guid-1'') (tbl_decision (w_db (snd ?run))) = Some ?dr \<and>
    de_id ?dr \<noteq> 0 \<and> mf_raw_info_private ?m \<noteq> Some (BInt 1)"
  proof -
    have t: "s_title showSearchee = ''Show.S01''" by (simp add: showSearchee_def)
    have h1: "ra_metafile ?a = Some ?m" "ra_metaCached ?a = Some True" by (simp_all add: assessment_def)
    have h2: "find (\<lambda>sr. se_name sr = s_title showSearchee) (tbl_searchee (w_db (snd ?run))) = Some ?sr"
      unfolding t public_run(2) by simp
    have h3: "find (\<lambda>dr. de_searchee_id dr = se_id ?sr \<and> de_guid dr = ''guid-1'') (tbl_decision (w_db (snd ?run))) = Some ?dr"
      unfolding public_run(3) by simp
    have h4: "de_id ?dr \<noteq> 0" by simp
    have h5: "mf_raw_info_private ?m \<noteq> Some (BInt 1)" by (simp add: metaPrivate_def)
    from r h1 h2 h3 h4 h5 show ?thesis by blast
  qed
  from inst [THEN conjunct2, THEN conjunct1] hyp
  have "tbl_collisions (w_db (snd ?run)) =
      filter (\<lambda>c. co_decision_id c \<noteq> de_id ?dr) (tbl_collisions (w_db staleWorld))"
    by blast
  then have s: "tbl_collisions (w_db (snd ?run)) = []"
    using stf by simp
  note instc = canRecordPrivateCollision_private_only
      [where e = demoEnv and cfg = "configOf FLEXIBLE" and now = 50
         and searchee = showSearchee and candidate = ?c and ?w0.0 = staleWorld
         and res = None and wr = ?wr
         and entry = ?entry and h = "''h1''" and tm = None and cts = "[''a.example'']"
         and out = "fst ?cc" and wc' = "snd ?cc"]
  have lk: "guidLookup demoEnv (c_guid ?c) (c_link ?c) (guidInfoHashMap staleWorld) = Some ''h1''"
    by (simp add: guidLookup_def staleWorld_def matchedWorld_def truthy_def candidateOf_def)
  have g: "getCachedTorrent demoEnv (guidLookup demoEnv (c_guid ?c) (c_link ?c) (guidInfoHashMap staleWorld))
      staleWorld = (None, ?wr)"
    unfolding lk by (simp add: getCachedTorrent_def truthy_def demoEnv_def)
  have en: "findCacheEntry showSearchee (c_guid ?c) (w_db staleWorld) = Some ?entry"
    by (simp add: findCacheEntry_def candidateOf_def staleWorld_def matchedWorld_def matchedDb_def
        emptyDb_def showSearchee_def)
  have ih: "de_info_hash ?entry = Some ''h1''" "''h1'' \<in> infoHashesToExclude staleWorld"
    by (simp_all add: matchedDb_def emptyDb_def staleWorld_def matchedWorld_def)
  have tm: "(None :: TrackerMismatchInfo option) =
      (case (None :: Metafile option) of Some meta \<Rightarrow> logAnnounceMismatch demoEnv (w_db ?wr) meta | None \<Rightarrow> None)"
    by simp
  have cts: "[''a.example''] = conflictCandidateTrackers None (Some (c_tracker ?c))"
    by (simp add: conflictCandidateTrackers_def truthy_def candidateOf_def)
  have nr: "tbl_conflict_rules (w_db ?wr) = []"
    by (simp add: emit_def staleWorld_def matchedWorld_def matchedDb_def emptyDb_def)
  have kept: "[''a.example''] = [] \<or>
      \<not> fst (resolveConflictRules (getClients demoEnv) ''h1'' [''a.example''] ?wr)"
    by (simp add: no_rules_resolve [OF nr])
  have np: "\<not> (\<exists>meta. (None :: Metafile option) = Some meta \<and> mf_raw_info_private meta = Some (BInt 1))"
    by simp
  have cc: "?cc = (fst ?cc, snd ?cc)" by simp
  with instc [THEN conjunct2, THEN conjunct2, THEN conjunct1] g en ih tm cts kept np
  have k1: "(None :: Metafile option) =
        (if truthy (guidLookup demoEnv (c_guid ?c) (c_link ?c) (guidInfoHashMap staleWorld))
         then readTorrentCache demoEnv
                (the (guidLookup demoEnv (c_guid ?c) (c_link ?c) (guidInfoHashMap staleWorld)))
         else None)"
    and k2: "tbl_collisions (w_db (snd ?cc)) =
        filter (\<lambda>c. co_decision_id c \<noteq> de_id ?entry) (tbl_collisions (w_db staleWorld))"
    by blast+
  from k1 have rc: "readTorrentCache demoEnv ''h1'' = None"
    by (simp add: lk truthy_def)
  have eid: "de_id ?entry = 1" by (simp add: matchedDb_def emptyDb_def)
  from k2 have k: "tbl_collisions (w_db (snd ?cc)) = []"
    unfolding eid using stf by simp
  note inst4 = canRecordPrivateCollision_private_only
      [where e = cachedEnv and cfg = "configOf FLEXIBLE" and now = 50 and metaOrCandidate = "Meta ?m"
         and searchee = showSearchee and guid = "''guid-1''" and firstSeen = 10
         and candidateTracker = "''a.example''" and w = staleWorld
         and ?out2.0 = "fst ?run" and ?w2.0 = "snd ?run" and ?a1.0 = ?a and ?w1.0 = staleWorld]
  have bl: "blockList (configOf FLEXIBLE) = []" by (simp add: configOf_def)
  have "assessCandidate cachedEnv (configOf FLEXIBLE) (Meta ?m) showSearchee []
      (Some ''a.example'') staleWorld = (?a, staleWorld)"
    by (rule meta_run_any) (simp_all add: staleWorld_def matchedWorld_def matchedDb_def emptyDb_def)
  then have ac: "assessCandidate cachedEnv (configOf FLEXIBLE) (Meta ?m) showSearchee (blockList (configOf FLEXIBLE))
      (Some ''a.example'') staleWorld = (?a, staleWorld)"
    unfolding bl .
  have nc: "\<not> canRecordPrivateCollision (ra_metafile ?a)"
    using c0 by (simp add: assessment_def)
  have "?run = (fst ?run, snd ?run)" by simp
  with inst4 [THEN conjunct2, THEN conjunct2, THEN conjunct2, THEN conjunct1] ac nc
  have g4: "tbl_collisions (w_db (snd ?run)) = tbl_collisions (w_db staleWorld) \<or>
    (\<exists>i. tbl_collisions (w_db (snd ?run)) = filter (\<lambda>c. co_decision_id c \<noteq> i) (tbl_collisions (w_db staleWorld)))"
    by blast
  have sn: "(None :: Metafile option) = None \<longrightarrow>
       (\<forall>m. snatch demoEnv ?c (s_label showSearchee) = Inr m \<longrightarrow> mf_raw_info_private m \<noteq> Some (BInt 1))"
    by (simp add: demoEnv_def)
  from instc [THEN conjunct2, THEN conjunct2, THEN conjunct2, THEN conjunct2] g cc cN sn
  have g5: "tbl_collisions (w_db (snd ?cc)) = tbl_collisions (w_db staleWorld) \<or>
    (\<exists>i. tbl_collisions (w_db (snd ?cc)) = filter (\<lambda>c. co_decision_id c \<noteq> i) (tbl_collisions (w_db staleWorld)))"
    by blast
  from c1 c0 cn cN st public_run(1) s rc k g4 g5 show ?thesis by blast
qed

end
